theory Spec2Isabelle
  imports Main "HOL-Library.Char_ord" "HOL-Library.List_Lexorder" "HOL-Library.Multiset"
begin

section \<open>Common vocabulary of the two database clients\<close>

text \<open>
  The C++ exceptions the two endpoints throw. \<open>null_handle_use\<close> is not an exception: it
  marks the point where a native library function that reads through its handle without a
  check is handed a null handle, after which C++ defines no behaviour.
\<close>

datatype error = runtime_error string | logic_error string | null_handle_use

text \<open>
  A fetched row: one byte string per column. \<open>string_at\<close> builds a string from the cell's
  pointer and length; a column number beyond the row reads as the empty string here (libpq
  answers such a read with a null pointer and length 0; the catalog queries below never
  make one).
\<close>

type_synonym row = "string list"

definition string_at :: "row \<Rightarrow> nat \<Rightarrow> string" where
  "string_at row column_number =
     (if column_number < length row then row ! column_number else [])"

text \<open>
  A row callback mutates the state captured by reference (\<open>'s\<close>) and may use the
  connection (\<open>'c\<close>); it either returns or throws, and the mutations made before a throw
  stay: the outcome is the optional exception together with both states.
\<close>

type_synonym ('s, 'c) row_function = "row \<Rightarrow> 's \<times> 'c \<Rightarrow> error option \<times> 's \<times> 'c"

text \<open>A callback that never touches the connection (the column and key listers).\<close>

definition on_rows :: "(row \<Rightarrow> 's \<Rightarrow> error option \<times> 's) \<Rightarrow> ('s, 'c) row_function" where
  "on_rows f row sc = (case f row (fst sc) of (e, s') \<Rightarrow> (e, s', snd sc))"

section \<open>Schema model\<close>

text \<open>\<open>Column\<close> and \<open>Database\<close>, as in schema.h.\<close>

record Column =
  column_name :: string

text \<open>
  Modelled from the spec: the \<open>Key\<close> entity, which both endpoints use and the schema.h
  among the sources does not declare yet. A key has a name, a uniqueness flag and the
  ordered indices of its columns.
\<close>

record Key =
  key_name :: string
  unique :: bool
  key_columns :: "nat list"

text \<open>
  Modelled from the spec: \<open>Table\<close> with its \<open>keys\<close> member and with
  \<open>primary_key_columns\<close> as column indices, as both endpoints use it (the schema.h among the
  sources has no \<open>keys\<close> yet and names the primary key columns by strings).
\<close>

record Table =
  table_name :: string
  columns :: "Column list"
  primary_key_columns :: "nat list"
  keys :: "Key list"

record Database =
  tables :: "Table list"

definition new_Column :: "string \<Rightarrow> Column" where
  "new_Column name = \<lparr>column_name = name\<rparr>"

definition new_Key :: "string \<Rightarrow> bool \<Rightarrow> Key" where
  "new_Key name uniq = \<lparr>key_name = name, unique = uniq, key_columns = []\<rparr>"

definition new_Table :: "string \<Rightarrow> Table" where
  "new_Table name = \<lparr>table_name = name, columns = [], primary_key_columns = [], keys = []\<rparr>"

text \<open>
  Modelled from the spec: \<open>Key::operator <\<close>, which orders keys by name, as
  \<open>Table::operator <\<close> of schema.h orders tables.
\<close>

definition key_less :: "Key \<Rightarrow> Key \<Rightarrow> bool" where
  "key_less a b \<longleftrightarrow> key_name a < key_name b"

text \<open>
  \<open>std::sort\<close> promises a permutation of its input in which no element is less than an
  earlier one, and nothing about the order of equivalent elements. The listers take the
  sorting function as a parameter \<open>srt\<close>; \<open>sorts_keys srt\<close> is that promise.
\<close>

definition sorts_keys :: "(Key list \<Rightarrow> Key list) \<Rightarrow> bool" where
  "sorts_keys srt \<longleftrightarrow>
     (\<forall>ks. mset (srt ks) = mset ks \<and> sorted_wrt (\<lambda>a b. \<not> key_less b a) (srt ks))"

text \<open>
  \<open>table.keys.back().columns.push_back(column_index)\<close>: the last key of the table gains a
  column. The callers push a key first whenever the list is empty.
\<close>

definition push_column_on_last_key :: "nat \<Rightarrow> Key list \<Rightarrow> Key list" where
  "push_column_on_last_key column_index ks =
     (case rev ks of
        [] \<Rightarrow> []
      | k # earlier \<Rightarrow> rev earlier @ [k\<lparr>key_columns := key_columns k @ [column_index]\<rparr>])"

text \<open>
  The surrogate primary key loop shared by both table listers:
  \<^verbatim>\<open>for (key = keys.begin(); key != keys.end() && primary_key_columns.empty(); ++key)
    if (key->unique && !unique_but_nullable_keys.count(key->name))
      primary_key_columns = key->columns;\<close>
  The first argument is the part of \<open>keys\<close> the iterator has not visited yet.
\<close>

fun choose_primary_key :: "Key list \<Rightarrow> string set \<Rightarrow> nat list \<Rightarrow> nat list" where
  "choose_primary_key [] unique_but_nullable_keys pk = pk"
| "choose_primary_key (key # rest) unique_but_nullable_keys pk =
     (if pk = [] then
        choose_primary_key rest unique_but_nullable_keys
          (if unique key \<and> key_name key \<notin> unique_but_nullable_keys then key_columns key else pk)
      else pk)"

definition no_key_message :: string where
  "no_key_message = ''Couldn't find a primary or non-nullable unique key on table ''"

text \<open>
  The tail of both table listers, after the catalog queries: sort the keys, derive the
  primary key if none was reported, refuse the table if there is still none, else append
  it to \<open>database.tables\<close>.
\<close>

definition finish_table ::
  "(Key list \<Rightarrow> Key list) \<Rightarrow> string set \<Rightarrow> Table \<Rightarrow> Database \<Rightarrow> error option \<times> Database" where
  "finish_table srt unique_but_nullable_keys table database =
     (let sorted_table = table\<lparr>keys := srt (keys table)\<rparr>;
          keyed_table = sorted_table\<lparr>primary_key_columns :=
            choose_primary_key (keys sorted_table) unique_but_nullable_keys
              (primary_key_columns sorted_table)\<rparr>
      in if primary_key_columns keyed_table = []
         then (Some (runtime_error (no_key_message @ table_name keyed_table)), database)
         else (None, database\<lparr>tables := tables database @ [keyed_table]\<rparr>))"

section \<open>Connection parameters and value escaping\<close>

text \<open>
  The C library's \<open>isspace\<close>, \<open>isdigit\<close> and \<open>atoi\<close> in the C locale. \<open>atoi\<close> skips white
  space, reads an optional sign and the leading run of decimal digits; C leaves the result
  undefined when the value does not fit an \<open>int\<close> (32 bits), which is \<open>None\<close> here.
\<close>

definition isspace :: "char \<Rightarrow> bool" where
  "isspace c \<longleftrightarrow> c = CHR '' '' \<or> (CHR 0x09 \<le> c \<and> c \<le> CHR 0x0D)"

definition isdigit :: "char \<Rightarrow> bool" where
  "isdigit c \<longleftrightarrow> CHR ''0'' \<le> c \<and> c \<le> CHR ''9''"

fun digits_value :: "nat \<Rightarrow> string \<Rightarrow> nat" where
  "digits_value acc [] = acc"
| "digits_value acc (c # cs) =
     (if isdigit c then digits_value (10 * acc + (of_char c - 48)) cs else acc)"

definition atoi :: "string \<Rightarrow> int option" where
  "atoi s =
     (let t = dropWhile isspace s;
          negative = (t \<noteq> [] \<and> hd t = CHR ''-'');
          u = (if t \<noteq> [] \<and> (hd t = CHR ''-'' \<or> hd t = CHR ''+'') then tl t else t);
          n = (if negative then - int (digits_value 0 u) else int (digits_value 0 u))
      in if - 2147483648 \<le> n \<and> n \<le> 2147483647 then Some n else None)"

text \<open>
  The head of the \<open>MySQLClient\<close> constructor: the \<open>port\<close> and \<open>socket\<close> arguments it hands to
  \<open>mysql_real_connect\<close>. \<open>database_port\<close> is a C string that may be a null pointer.
\<close>

definition port_and_socket :: "string option \<Rightarrow> int option \<times> string option" where
  "port_and_socket database_port =
     (case database_port of
        None \<Rightarrow> (Some 0, None)
      | Some [] \<Rightarrow> (Some 0, None)
      | Some (c # cs) \<Rightarrow>
          if CHR ''0'' \<le> c \<and> c \<le> CHR ''9'' then (atoi (c # cs), None)
          else (Some 0, Some (c # cs)))"

text \<open>What the spec calls a numeric string: decimal digits only, at least one.\<close>

definition numeric_string :: "string \<Rightarrow> bool" where
  "numeric_string s \<longleftrightarrow> s \<noteq> [] \<and> list_all isdigit s"

text \<open>\<open>std::string::resize\<close>: cut to \<open>n\<close> bytes, or pad with NUL bytes up to \<open>n\<close>.\<close>

definition resize :: "string \<Rightarrow> nat \<Rightarrow> string" where
  "resize s n = take n s @ replicate (n - length s) (CHR 0x00)"

text \<open>
  \<open>escape_value\<close> of both clients. The engine's escaping routine
  (\<open>mysql_real_escape_string\<close>, \<open>PQescapeStringConn\<close>) is a parameter: it is given the
  output buffer and the value, and returns the buffer as written and the length it
  reports.
\<close>

definition MySQLClient_escape_value ::
  "(string \<Rightarrow> string \<Rightarrow> string \<times> nat) \<Rightarrow> string \<Rightarrow> string" where
  "MySQLClient_escape_value mysql_real_escape_string val =
     (let result = resize [] (length val * 2 + 1);
          (result, result_length) = mysql_real_escape_string result val
      in resize result result_length)"

definition PostgreSQLClient_escape_value ::
  "(string \<Rightarrow> string \<Rightarrow> string \<times> nat) \<Rightarrow> string \<Rightarrow> string" where
  "PostgreSQLClient_escape_value PQescapeStringConn val =
     (let result = resize [] (length val * 2 + 1);
          (result, result_length) = PQescapeStringConn result val
      in resize result result_length)"

section \<open>The MySQL client library, as the endpoint uses it\<close>

text \<open>
  The server is an oracle from statement text to its answer: a refusal with a diagnostic,
  a completion without a result set, or a result set (number of fields, rows, and the
  diagnostic of a stream that breaks after those rows, if it does).
\<close>

datatype response = Rejected string | Completed | ResultSet nat "row list" "string option"

datatype mysql_call =
  Real_query string | Store_result | Use_result | Fetch_row | Free_result

text \<open>
  The connection handle \<open>MYSQL\<close>: the server behind it, the log of library calls made on
  it, the error state read by \<open>mysql_errno\<close>/\<open>mysql_error\<close>, the result set announced by
  the last statement and not acquired yet, and the rows of an unbuffered result set that
  are still enqueued on the connection.
\<close>

record MYSQL =
  server :: "string \<Rightarrow> response"
  server_version :: nat
  calls :: "mysql_call list"
  last_error :: "string option"
  announced :: "(nat \<times> row list \<times> string option) option"
  unread :: "row list"

text \<open>The native result \<open>MYSQL_RES\<close>.\<close>

record MYSQL_RES =
  buffered :: bool
  row_count :: nat
  field_count :: nat
  unfetched :: "row list"
  breaks_with :: "string option"

text \<open>Of \<open>mysql_errno\<close> the client only asks whether it is zero.\<close>

definition mysql_errno :: "MYSQL \<Rightarrow> nat" where
  "mysql_errno mysql = (case last_error mysql of None \<Rightarrow> 0 | Some d \<Rightarrow> 1)"

definition mysql_error :: "MYSQL \<Rightarrow> string" where
  "mysql_error mysql = (case last_error mysql of None \<Rightarrow> [] | Some d \<Rightarrow> d)"

definition mysql_get_server_version :: "MYSQL \<Rightarrow> nat" where
  "mysql_get_server_version mysql = server_version mysql"

text \<open>
  \<open>mysql_real_query\<close> returns nonzero (\<open>True\<close>) when the statement fails. Rows a previous
  unbuffered result set left on the connection come back at the head of the next result
  set, as the comment in \<open>~MySQLRes\<close> describes.
\<close>

definition mysql_real_query :: "MYSQL \<Rightarrow> string \<Rightarrow> bool \<times> MYSQL" where
  "mysql_real_query mysql sql =
     (let logged = mysql\<lparr>calls := calls mysql @ [Real_query sql]\<rparr>
      in case server mysql sql of
           Rejected diagnostic \<Rightarrow> (True, logged\<lparr>last_error := Some diagnostic\<rparr>)
         | Completed \<Rightarrow> (False, logged\<lparr>last_error := None, announced := None\<rparr>)
         | ResultSet n rows broken \<Rightarrow>
             (False, logged\<lparr>last_error := None,
                            announced := Some (n, unread mysql @ rows, broken),
                            unread := []\<rparr>))"

text \<open>
  \<open>mysql_store_result\<close> reads the whole result set into client memory; it returns a null
  handle when there is no result set or when reading it fails. \<open>mysql_use_result\<close> leaves
  the rows on the connection.
\<close>

definition mysql_store_result :: "MYSQL \<Rightarrow> MYSQL_RES option \<times> MYSQL" where
  "mysql_store_result mysql =
     (let logged = mysql\<lparr>calls := calls mysql @ [Store_result]\<rparr>
      in case announced mysql of
           None \<Rightarrow> (None, logged)
         | Some (n, rows, Some diagnostic) \<Rightarrow>
             (None, logged\<lparr>announced := None, last_error := Some diagnostic\<rparr>)
         | Some (n, rows, None) \<Rightarrow>
             (Some \<lparr>buffered = True, row_count = length rows, field_count = n,
                    unfetched = rows, breaks_with = None\<rparr>,
              logged\<lparr>announced := None\<rparr>))"

definition mysql_use_result :: "MYSQL \<Rightarrow> MYSQL_RES option \<times> MYSQL" where
  "mysql_use_result mysql =
     (let logged = mysql\<lparr>calls := calls mysql @ [Use_result]\<rparr>
      in case announced mysql of
           None \<Rightarrow> (None, logged)
         | Some (n, rows, broken) \<Rightarrow>
             (Some \<lparr>buffered = False, row_count = 0, field_count = n,
                    unfetched = rows, breaks_with = broken\<rparr>,
              logged\<lparr>announced := None, unread := rows\<rparr>))"

text \<open>
  \<open>mysql_num_rows\<close> and \<open>mysql_num_fields\<close> read a field of the result they are given,
  without a null check.
\<close>

definition mysql_num_rows :: "MYSQL_RES option \<Rightarrow> error + nat" where
  "mysql_num_rows r = (case r of None \<Rightarrow> Inl null_handle_use | Some h \<Rightarrow> Inr (row_count h))"

definition mysql_num_fields :: "MYSQL_RES option \<Rightarrow> error + nat" where
  "mysql_num_fields r = (case r of None \<Rightarrow> Inl null_handle_use | Some h \<Rightarrow> Inr (field_count h))"

text \<open>
  \<open>mysql_fetch_row\<close> hands out the next row, or a null row at the end of the data and
  when the stream breaks (then the error state is set). The rows an unbuffered result has
  not handed out yet are the rows still on the connection.
\<close>

definition mysql_fetch_row :: "MYSQL_RES \<Rightarrow> MYSQL \<Rightarrow> row option \<times> MYSQL_RES \<times> MYSQL" where
  "mysql_fetch_row r mysql =
     (let logged = mysql\<lparr>calls := calls mysql @ [Fetch_row]\<rparr>
      in case unfetched r of
           mysql_row # rest \<Rightarrow>
             (Some mysql_row, r\<lparr>unfetched := rest\<rparr>,
              if buffered r then logged else logged\<lparr>unread := rest\<rparr>)
         | [] \<Rightarrow>
             (None, r,
              if buffered r then logged
              else case breaks_with r of
                     None \<Rightarrow> logged\<lparr>unread := []\<rparr>
                   | Some diagnostic \<Rightarrow> logged\<lparr>unread := [], last_error := Some diagnostic\<rparr>))"

definition mysql_free_result :: "MYSQL_RES \<Rightarrow> MYSQL \<Rightarrow> MYSQL" where
  "mysql_free_result r mysql = mysql\<lparr>calls := calls mysql @ [Free_result]\<rparr>"

section \<open>ks\_mysql.cpp\<close>

record MySQLRes =
  res :: "MYSQL_RES option"
  n_tuples :: int
  n_columns :: int

text \<open>The constructor \<open>MySQLRes::MySQLRes\<close>.\<close>

definition new_MySQLRes :: "MYSQL \<Rightarrow> bool \<Rightarrow> (error + MySQLRes) \<times> MYSQL" where
  "new_MySQLRes mysql buffer =
     (case (if buffer then mysql_store_result mysql else mysql_use_result mysql) of
        (r, mysql') \<Rightarrow>
          (case mysql_num_rows r of
             Inl e \<Rightarrow> (Inl e, mysql')
           | Inr tuples_n \<Rightarrow>
               (case mysql_num_fields r of
                  Inl e \<Rightarrow> (Inl e, mysql')
                | Inr columns_n \<Rightarrow>
                    (Inr \<lparr>res = r, n_tuples = int tuples_n, n_columns = int columns_n\<rparr>,
                     mysql'))))"

text \<open>
  The destructor \<open>MySQLRes::~MySQLRes\<close>:
  \<^verbatim>\<open>if (_res) { while (mysql_fetch_row(_res)) ; mysql_free_result(_res); }\<close>
\<close>

function discard_rows :: "MYSQL_RES \<Rightarrow> MYSQL \<Rightarrow> MYSQL_RES \<times> MYSQL" where
  "discard_rows r mysql =
     (case mysql_fetch_row r mysql of
        (None, r', mysql') \<Rightarrow> (r', mysql')
      | (Some mysql_row, r', mysql') \<Rightarrow> discard_rows r' mysql')"
  by pat_completeness auto
termination
  by (relation "measure (\<lambda>(r, mysql). length (unfetched r))")
     (auto simp: mysql_fetch_row_def Let_def split: list.splits)

declare discard_rows.simps [simp del]

definition delete_MySQLRes :: "MySQLRes \<Rightarrow> MYSQL \<Rightarrow> MYSQL" where
  "delete_MySQLRes r mysql =
     (case res r of
        None \<Rightarrow> mysql
      | Some h \<Rightarrow> (case discard_rows h mysql of (h', mysql') \<Rightarrow> mysql_free_result h' mysql'))"

text \<open>
  The row loop of \<open>MySQLClient::query\<close>:
  \<^verbatim>\<open>while (true) { row = mysql_fetch_row(res.res()); if (!row) break; row_handler(row); }\<close>
  It returns the native result as the loop left it, for the destructor.
\<close>

function fetch_loop ::
  "('s, MYSQL) row_function \<Rightarrow> MYSQL_RES \<Rightarrow> 's \<times> MYSQL \<Rightarrow> error option \<times> MYSQL_RES \<times> 's \<times> MYSQL" where
  "fetch_loop row_handler r (s, mysql) =
     (case mysql_fetch_row r mysql of
        (None, r', mysql') \<Rightarrow> (None, r', s, mysql')
      | (Some mysql_row, r', mysql') \<Rightarrow>
          (case row_handler mysql_row (s, mysql') of
             (Some e, s', mysql'') \<Rightarrow> (Some e, r', s', mysql'')
           | (None, s', mysql'') \<Rightarrow> fetch_loop row_handler r' (s', mysql'')))"
  by pat_completeness auto
termination
  by (relation "measure (\<lambda>(row_handler, r, sc). length (unfetched r))")
     (auto simp: mysql_fetch_row_def Let_def split: list.splits)

declare fetch_loop.simps [simp del]

text \<open>
  \<open>MySQLClient::query\<close>. The guard \<open>res\<close> lives from its construction to the end of the
  function, so its destructor runs on each of the three ways out: the handler's exception,
  the error found after the loop, and the normal return. The message of the second error
  is built before the unwinding, from the connection as the loop left it. (\<open>backtrace()\<close>
  only prints to the standard error stream.)
\<close>

definition MySQLClient_query ::
  "string \<Rightarrow> ('s, MYSQL) row_function \<Rightarrow> bool \<Rightarrow> 's \<times> MYSQL \<Rightarrow> error option \<times> 's \<times> MYSQL" where
  "MySQLClient_query sql row_handler buffer sc =
     (case mysql_real_query (snd sc) sql of
        (True, mysql1) \<Rightarrow>
          (Some (runtime_error (mysql_error mysql1 @ ''\<newline>'' @ sql)), fst sc, mysql1)
      | (False, mysql1) \<Rightarrow>
          (case new_MySQLRes mysql1 buffer of
             (Inl e, mysql2) \<Rightarrow> (Some e, fst sc, mysql2)
           | (Inr r, mysql2) \<Rightarrow>
               (case res r of
                  None \<Rightarrow> (Some null_handle_use, fst sc, mysql2)
                | Some h \<Rightarrow>
                    (case fetch_loop row_handler h (fst sc, mysql2) of
                       (Some e, h', s', mysql3) \<Rightarrow>
                         (Some e, s', delete_MySQLRes (r\<lparr>res := Some h'\<rparr>) mysql3)
                     | (None, h', s', mysql3) \<Rightarrow>
                         (if mysql_errno mysql3 \<noteq> 0
                          then Some (runtime_error (mysql_error mysql3 @ ''\<newline>'' @ sql))
                          else None,
                          s', delete_MySQLRes (r\<lparr>res := Some h'\<rparr>) mysql3)))))"

definition MySQLClient_execute :: "string \<Rightarrow> MYSQL \<Rightarrow> error option \<times> MYSQL" where
  "MySQLClient_execute sql mysql =
     (case mysql_real_query mysql sql of
        (True, mysql') \<Rightarrow> (Some (runtime_error (mysql_error mysql' @ ''\<newline>'' @ sql)), mysql')
      | (False, mysql') \<Rightarrow> (None, mysql'))"

definition MYSQL_5_6_5 :: nat where
  "MYSQL_5_6_5 = 50605"

definition MySQLClient_start_transaction :: "bool \<Rightarrow> bool \<Rightarrow> MYSQL \<Rightarrow> error option \<times> MYSQL" where
  "MySQLClient_start_transaction readonly snapshot mysql =
     (case MySQLClient_execute
             (if snapshot then ''SET TRANSACTION ISOLATION LEVEL REPEATABLE READ''
              else ''SET TRANSACTION ISOLATION LEVEL READ COMMITTED'') mysql of
        (Some e, mysql') \<Rightarrow> (Some e, mysql')
      | (None, mysql') \<Rightarrow>
          MySQLClient_execute
            (if readonly \<and> mysql_get_server_version mysql' \<ge> MYSQL_5_6_5
             then ''START TRANSACTION READ ONLY'' else ''START TRANSACTION'') mysql')"

text \<open>
  The listers. \<open>Table::index_of_column\<close> is declared outside the sources at hand; it is
  the parameter \<open>index_of_column\<close>, which looks a name up in the table's column sequence
  and returns the index or throws.
\<close>

definition MySQLColumnLister :: "row \<Rightarrow> Table \<Rightarrow> error option \<times> Table" where
  "MySQLColumnLister row table =
     (None, table\<lparr>columns := columns table @ [new_Column (string_at row 0)]\<rparr>)"

definition MySQLKeyLister ::
  "(Column list \<Rightarrow> string \<Rightarrow> error + nat) \<Rightarrow> row \<Rightarrow> Table \<times> string set
     \<Rightarrow> error option \<times> Table \<times> string set" where
  "MySQLKeyLister index_of_column row lister =
     (case lister of (table, unique_but_nullable_keys) \<Rightarrow>
        (let uniq = (string_at row 1 = ''0'');
             name = string_at row 2;
             column = string_at row 4
         in (case index_of_column (columns table) column of
               Inl e \<Rightarrow> (Some e, table, unique_but_nullable_keys)
             | Inr column_index \<Rightarrow>
                 if name = ''PRIMARY''
                 then (None,
                       table\<lparr>primary_key_columns := primary_key_columns table @ [column_index]\<rparr>,
                       unique_but_nullable_keys)
                 else
                   (let pushed = (if keys table = [] \<or> key_name (last (keys table)) \<noteq> name
                                  then keys table @ [new_Key name uniq] else keys table);
                        table' = table\<lparr>keys := push_column_on_last_key column_index pushed\<rparr>
                    in if primary_key_columns table' = []
                       then (let nullable = string_at row 9
                             in if uniq \<and> nullable = ''YES''
                                then (None, table', insert name unique_but_nullable_keys)
                                else (None, table', unique_but_nullable_keys))
                       else (None, table', unique_but_nullable_keys)))))"

text \<open>The two catalog statements of \<open>MySQLTableLister\<close>, for a table name.\<close>

definition show_columns_sql :: "string \<Rightarrow> string" where
  "show_columns_sql name = ''SHOW COLUMNS FROM '' @ name"

definition show_keys_sql :: "string \<Rightarrow> string" where
  "show_keys_sql name = ''SHOW KEYS FROM '' @ name"

definition MySQLTableLister ::
  "(Key list \<Rightarrow> Key list) \<Rightarrow> (Column list \<Rightarrow> string \<Rightarrow> error + nat)
     \<Rightarrow> (Database, MYSQL) row_function" where
  "MySQLTableLister srt index_of_column row client =
     (case client of (database, mysql) \<Rightarrow>
        (let table = new_Table (string_at row 0)
         in (case MySQLClient_query (show_columns_sql (table_name table))
                   (on_rows MySQLColumnLister) False (table, mysql) of
               (Some e, table1, mysql1) \<Rightarrow> (Some e, database, mysql1)
             | (None, table1, mysql1) \<Rightarrow>
                 (case MySQLClient_query (show_keys_sql (table_name table1))
                         (on_rows (MySQLKeyLister index_of_column)) False
                         ((table1, {}), mysql1) of
                    (Some e, key_lister, mysql2) \<Rightarrow> (Some e, database, mysql2)
                  | (None, (table2, unique_but_nullable_keys), mysql2) \<Rightarrow>
                      (case finish_table srt unique_but_nullable_keys table2 database of
                         (e, database') \<Rightarrow> (e, database', mysql2))))))"

text \<open>
  \<open>MySQLClient::populate_database_schema\<close>, up to its last call: \<open>index_database_tables\<close>
  belongs to the base class, which is not among the sources.
\<close>

definition MySQLClient_list_tables ::
  "(Key list \<Rightarrow> Key list) \<Rightarrow> (Column list \<Rightarrow> string \<Rightarrow> error + nat)
     \<Rightarrow> Database \<times> MYSQL \<Rightarrow> error option \<times> Database \<times> MYSQL" where
  "MySQLClient_list_tables srt index_of_column client =
     MySQLClient_query
       ''SELECT table_name FROM information_schema.tables WHERE table_schema = schema() ORDER BY data_length DESC, table_name ASC''
       (MySQLTableLister srt index_of_column) True client"

section \<open>libpq, as the endpoint uses it\<close>

datatype ExecStatusType =
  PGRES_EMPTY_QUERY | PGRES_COMMAND_OK | PGRES_TUPLES_OK | PGRES_COPY_OUT | PGRES_COPY_IN
| PGRES_BAD_RESPONSE | PGRES_NONFATAL_ERROR | PGRES_FATAL_ERROR | PGRES_COPY_BOTH
| PGRES_SINGLE_TUPLE

record PGresult =
  resultStatus :: ExecStatusType
  nfields :: nat
  tuples :: "row list"

datatype pg_call = Exec string | ExecParams string

text \<open>
  The connection \<open>PGconn\<close>: how the backend answers a statement sent by \<open>PQexec\<close> and by
  \<open>PQexecParams\<close> (a result, or a null pointer when libpq cannot build one, and the
  connection's error message afterwards), the log of statements sent, and the error
  message of the last operation.
\<close>

record PGconn =
  simple_answer :: "string \<Rightarrow> PGresult option \<times> string"
  extended_answer :: "string \<Rightarrow> PGresult option \<times> string"
  pg_calls :: "pg_call list"
  errorMessage :: string

text \<open>\<open>std::string::c_str\<close> read as a C string: the bytes before the first NUL.\<close>

definition c_str :: "string \<Rightarrow> string" where
  "c_str s = takeWhile (\<lambda>c. c \<noteq> CHR 0x00) s"

definition PQexec :: "PGconn \<Rightarrow> string \<Rightarrow> PGresult option \<times> PGconn" where
  "PQexec conn command =
     (case simple_answer conn command of
        (r, message) \<Rightarrow>
          (r, conn\<lparr>pg_calls := pg_calls conn @ [Exec command], errorMessage := message\<rparr>))"

definition PQexecParams :: "PGconn \<Rightarrow> string \<Rightarrow> PGresult option \<times> PGconn" where
  "PQexecParams conn command =
     (case extended_answer conn command of
        (r, message) \<Rightarrow>
          (r, conn\<lparr>pg_calls := pg_calls conn @ [ExecParams command], errorMessage := message\<rparr>))"

definition PQerrorMessage :: "PGconn \<Rightarrow> string" where
  "PQerrorMessage conn = errorMessage conn"

text \<open>libpq's accessors accept a null result.\<close>

definition PQresultStatus :: "PGresult option \<Rightarrow> ExecStatusType" where
  "PQresultStatus r = (case r of None \<Rightarrow> PGRES_FATAL_ERROR | Some p \<Rightarrow> resultStatus p)"

definition PQntuples :: "PGresult option \<Rightarrow> nat" where
  "PQntuples r = (case r of None \<Rightarrow> 0 | Some p \<Rightarrow> length (tuples p))"

definition PQnfields :: "PGresult option \<Rightarrow> nat" where
  "PQnfields r = (case r of None \<Rightarrow> 0 | Some p \<Rightarrow> nfields p)"

text \<open>\<open>PQclear\<close> frees the memory of a result; the connection is as before.\<close>

definition PQclear :: "PGresult \<Rightarrow> PGconn \<Rightarrow> PGconn" where
  "PQclear r conn = conn"

section \<open>ks\_postgresql.cpp\<close>

record PostgreSQLRes =
  pg_res :: "PGresult option"
  pg_n_tuples :: int
  pg_n_columns :: int

definition new_PostgreSQLRes :: "PGresult option \<Rightarrow> PostgreSQLRes" where
  "new_PostgreSQLRes r =
     \<lparr>pg_res = r, pg_n_tuples = int (PQntuples r), pg_n_columns = int (PQnfields r)\<rparr>"

definition status :: "PostgreSQLRes \<Rightarrow> ExecStatusType" where
  "status r = PQresultStatus (pg_res r)"

definition delete_PostgreSQLRes :: "PostgreSQLRes \<Rightarrow> PGconn \<Rightarrow> PGconn" where
  "delete_PostgreSQLRes r conn = (case pg_res r of None \<Rightarrow> conn | Some p \<Rightarrow> PQclear p conn)"

text \<open>
  \<open>PostgreSQLRow(res, row_number)\<close> with its \<open>string_at\<close>: the cells of that tuple.
\<close>

definition PostgreSQLRow :: "PostgreSQLRes \<Rightarrow> nat \<Rightarrow> row" where
  "PostgreSQLRow r row_number =
     (case pg_res r of
        None \<Rightarrow> []
      | Some p \<Rightarrow> if row_number < length (tuples p) then tuples p ! row_number else [])"

text \<open>
  The row loop of \<open>PostgreSQLClient::query\<close>:
  \<^verbatim>\<open>for (int row_number = 0; row_number < res.n_tuples(); row_number++) row_handler(row);\<close>
\<close>

function pg_row_loop ::
  "('s, PGconn) row_function \<Rightarrow> PostgreSQLRes \<Rightarrow> nat \<Rightarrow> 's \<times> PGconn \<Rightarrow> error option \<times> 's \<times> PGconn" where
  "pg_row_loop row_handler r row_number (s, conn) =
     (if int row_number < pg_n_tuples r
      then (case row_handler (PostgreSQLRow r row_number) (s, conn) of
              (Some e, s', conn') \<Rightarrow> (Some e, s', conn')
            | (None, s', conn') \<Rightarrow> pg_row_loop row_handler r (Suc row_number) (s', conn'))
      else (None, s, conn))"
  by pat_completeness auto
termination
  by (relation "measure (\<lambda>(row_handler, r, row_number, sc). nat (pg_n_tuples r) - row_number)")
     auto

declare pg_row_loop.simps [simp del]

definition PostgreSQLClient_query ::
  "string \<Rightarrow> ('s, PGconn) row_function \<Rightarrow> 's \<times> PGconn \<Rightarrow> error option \<times> 's \<times> PGconn" where
  "PostgreSQLClient_query sql row_handler sc =
     (case PQexecParams (snd sc) (c_str sql) of
        (r, conn1) \<Rightarrow>
          (let guard = new_PostgreSQLRes r
           in if status guard \<noteq> PGRES_TUPLES_OK
              then (Some (runtime_error (PQerrorMessage conn1 @ ''\<newline>'' @ sql)), fst sc,
                    delete_PostgreSQLRes guard conn1)
              else (case pg_row_loop row_handler guard 0 (fst sc, conn1) of
                      (e, s', conn2) \<Rightarrow> (e, s', delete_PostgreSQLRes guard conn2))))"

definition PostgreSQLClient_execute :: "string \<Rightarrow> PGconn \<Rightarrow> error option \<times> PGconn" where
  "PostgreSQLClient_execute sql conn =
     (case PQexec conn (c_str sql) of
        (r, conn1) \<Rightarrow>
          (let guard = new_PostgreSQLRes r
           in (if status guard \<noteq> PGRES_COMMAND_OK
               then Some (runtime_error (PQerrorMessage conn1 @ ''\<newline>'' @ sql))
               else None,
               delete_PostgreSQLRes guard conn1)))"

definition PostgreSQLClient_start_transaction ::
  "bool \<Rightarrow> bool \<Rightarrow> PGconn \<Rightarrow> error option \<times> PGconn" where
  "PostgreSQLClient_start_transaction readonly snapshot conn =
     (if snapshot
      then PostgreSQLClient_execute
             (if readonly then ''START TRANSACTION READ ONLY ISOLATION LEVEL REPEATABLE READ''
              else ''START TRANSACTION ISOLATION LEVEL REPEATABLE READ'') conn
      else PostgreSQLClient_execute
             (if readonly then ''START TRANSACTION READ ONLY ISOLATION LEVEL READ COMMITTED''
              else ''START TRANSACTION ISOLATION LEVEL READ COMMITTED'') conn)"

definition PostgreSQLColumnLister :: "row \<Rightarrow> Table \<Rightarrow> error option \<times> Table" where
  "PostgreSQLColumnLister row table =
     (None, table\<lparr>columns := columns table @ [new_Column (string_at row 0)]\<rparr>)"

definition PostgreSQLPrimaryKeyLister ::
  "(Column list \<Rightarrow> string \<Rightarrow> error + nat) \<Rightarrow> row \<Rightarrow> Table \<Rightarrow> error option \<times> Table" where
  "PostgreSQLPrimaryKeyLister index_of_column row table =
     (let column = string_at row 0
      in (case index_of_column (columns table) column of
            Inl e \<Rightarrow> (Some e, table)
          | Inr column_index \<Rightarrow>
              (None,
               table\<lparr>primary_key_columns := primary_key_columns table @ [column_index]\<rparr>)))"

definition PostgreSQLKeyLister ::
  "(Column list \<Rightarrow> string \<Rightarrow> error + nat) \<Rightarrow> row \<Rightarrow> Table \<times> string set
     \<Rightarrow> error option \<times> Table \<times> string set" where
  "PostgreSQLKeyLister index_of_column row lister =
     (case lister of (table, unique_but_nullable_keys) \<Rightarrow>
        (let name = string_at row 0;
             uniq = (string_at row 1 = ''t'');
             column = string_at row 2
         in (case index_of_column (columns table) column of
               Inl e \<Rightarrow> (Some e, table, unique_but_nullable_keys)
             | Inr column_index \<Rightarrow>
                 (let pushed = (if keys table = [] \<or> key_name (last (keys table)) \<noteq> name
                                then keys table @ [new_Key name uniq] else keys table);
                      table' = table\<lparr>keys := push_column_on_last_key column_index pushed\<rparr>
                  in if primary_key_columns table' = []
                     then (let nullable = (string_at row 3 = ''f'')
                           in if uniq \<and> nullable
                              then (None, table', insert name unique_but_nullable_keys)
                              else (None, table', unique_but_nullable_keys))
                     else (None, table', unique_but_nullable_keys)))))"

text \<open>The three catalog queries of \<open>PostgreSQLTableLister\<close>, for a table name.\<close>

definition columns_sql :: "string \<Rightarrow> string" where
  "columns_sql name =
     ''SELECT attname FROM pg_attribute, pg_class WHERE attrelid = pg_class.oid AND attnum > 0 AND NOT attisdropped AND relname = ''
     @ [CHR 0x27] @ name @ [CHR 0x27] @ '' ORDER BY attnum''"

definition primary_key_sql :: "string \<Rightarrow> string" where
  "primary_key_sql name =
     ''SELECT column_name FROM information_schema.table_constraints, information_schema.key_column_usage WHERE information_schema.table_constraints.table_name = ''
     @ [CHR 0x27] @ name @ [CHR 0x27]
     @ '' AND information_schema.key_column_usage.table_name = information_schema.table_constraints.table_name AND constraint_type = 'PRIMARY KEY' ORDER BY ordinal_position''"

definition keys_sql :: "string \<Rightarrow> string" where
  "keys_sql name =
     ''SELECT index_class.relname, pg_index.indisunique, attname, attnotnull FROM pg_class table_class JOIN pg_index ON table_class.oid = pg_index.indrelid JOIN pg_class index_class ON pg_index.indexrelid = index_class.oid AND index_class.relkind = 'i' JOIN pg_attribute ON table_class.oid = pg_attribute.attrelid AND pg_attribute.attnum = ANY(indkey) WHERE table_class.relname = ''
     @ [CHR 0x27] @ name @ [CHR 0x27] @ '' AND NOT pg_index.indisprimary''"

definition PostgreSQLTableLister ::
  "(Key list \<Rightarrow> Key list) \<Rightarrow> (Column list \<Rightarrow> string \<Rightarrow> error + nat)
     \<Rightarrow> (Database, PGconn) row_function" where
  "PostgreSQLTableLister srt index_of_column row client =
     (case client of (database, conn) \<Rightarrow>
        (let table = new_Table (string_at row 0)
         in (case PostgreSQLClient_query (columns_sql (table_name table))
                   (on_rows PostgreSQLColumnLister) (table, conn) of
               (Some e, table1, conn1) \<Rightarrow> (Some e, database, conn1)
             | (None, table1, conn1) \<Rightarrow>
                 (case PostgreSQLClient_query (primary_key_sql (table_name table1))
                         (on_rows (PostgreSQLPrimaryKeyLister index_of_column))
                         (table1, conn1) of
                    (Some e, table2, conn2) \<Rightarrow> (Some e, database, conn2)
                  | (None, table2, conn2) \<Rightarrow>
                      (case PostgreSQLClient_query (keys_sql (table_name table2))
                              (on_rows (PostgreSQLKeyLister index_of_column))
                              ((table2, {}), conn2) of
                         (Some e, key_lister, conn3) \<Rightarrow> (Some e, database, conn3)
                       | (None, (table3, unique_but_nullable_keys), conn3) \<Rightarrow>
                           (case finish_table srt unique_but_nullable_keys table3 database of
                              (e, database') \<Rightarrow> (e, database', conn3)))))))"

definition PostgreSQLClient_list_tables ::
  "(Key list \<Rightarrow> Key list) \<Rightarrow> (Column list \<Rightarrow> string \<Rightarrow> error + nat)
     \<Rightarrow> Database \<times> PGconn \<Rightarrow> error option \<times> Database \<times> PGconn" where
  "PostgreSQLClient_list_tables srt index_of_column client =
     PostgreSQLClient_query
       ''SELECT tablename FROM pg_tables WHERE schemaname = ANY (current_schemas(false)) ORDER BY pg_relation_size(tablename::text) DESC, tablename ASC''
       (PostgreSQLTableLister srt index_of_column) client"

text \<open>
  Running a connection-free callback over rows in order until it throws: what the row
  loops of both clients do to the callback's state.
\<close>

fun run_rows :: "(row \<Rightarrow> 's \<Rightarrow> error option \<times> 's) \<Rightarrow> row list \<Rightarrow> 's \<Rightarrow> error option \<times> 's" where
  "run_rows f [] s = (None, s)"
| "run_rows f (r # rs) s =
     (case f r s of (Some e, s') \<Rightarrow> (Some e, s') | (None, s') \<Rightarrow> run_rows f rs s')"

section \<open>Auxiliary notions for the proofs and the examples\<close>

text \<open>
  What both key listers do with one row of a key other than the primary key, in terms of
  the four fields they read from it: the key's name, its uniqueness, the column's name and
  whether the column is nullable.
\<close>

definition key_row ::
  "(Column list \<Rightarrow> string \<Rightarrow> error + nat) \<Rightarrow> string \<Rightarrow> bool \<Rightarrow> string \<Rightarrow> bool
     \<Rightarrow> Table \<times> string set \<Rightarrow> error option \<times> Table \<times> string set" where
  "key_row index_of_column name uniq column nullable lister =
     (case lister of (table, unique_but_nullable_keys) \<Rightarrow>
        (case index_of_column (columns table) column of
           Inl e \<Rightarrow> (Some e, table, unique_but_nullable_keys)
         | Inr column_index \<Rightarrow>
             (let pushed = (if keys table = [] \<or> key_name (last (keys table)) \<noteq> name
                            then keys table @ [new_Key name uniq] else keys table);
                  table' = table\<lparr>keys := push_column_on_last_key column_index pushed\<rparr>
              in if primary_key_columns table' = []
                 then (if uniq \<and> nullable
                       then (None, table', insert name unique_but_nullable_keys)
                       else (None, table', unique_but_nullable_keys))
                 else (None, table', unique_but_nullable_keys))))"

definition named :: "Key \<Rightarrow> string \<times> bool" where
  "named k = (key_name k, unique k)"

text \<open>
  The native result \<open>mysql_use_result\<close> returns for a result set, and the connection after
  \<open>mysql_real_query\<close> and \<open>mysql_use_result\<close>.
\<close>

definition used_result :: "nat \<Rightarrow> row list \<Rightarrow> string option \<Rightarrow> MYSQL_RES" where
  "used_result n rows broken =
     \<lparr>buffered = False, row_count = 0, field_count = n, unfetched = rows, breaks_with = broken\<rparr>"

definition after_use :: "MYSQL \<Rightarrow> string \<Rightarrow> row list \<Rightarrow> MYSQL" where
  "after_use mysql sql rows =
     mysql\<lparr>calls := calls mysql @ [Real_query sql, Use_result], last_error := None,
           announced := None, unread := rows\<rparr>"

definition after_exec_params :: "PGconn \<Rightarrow> string \<Rightarrow> string \<Rightarrow> PGconn" where
  "after_exec_params conn sql message =
     conn\<lparr>pg_calls := pg_calls conn @ [ExecParams (c_str sql)], errorMessage := message\<rparr>"

text \<open>Connections on which nothing has happened yet.\<close>

definition fresh_MYSQL :: "(string \<Rightarrow> response) \<Rightarrow> nat \<Rightarrow> MYSQL" where
  "fresh_MYSQL answers version =
     \<lparr>server = answers, server_version = version, calls = [], last_error = None,
      announced = None, unread = []\<rparr>"

definition fresh_PGconn ::
  "(string \<Rightarrow> PGresult option \<times> string) \<Rightarrow> (string \<Rightarrow> PGresult option \<times> string) \<Rightarrow> PGconn" where
  "fresh_PGconn simple extended =
     \<lparr>simple_answer = simple, extended_answer = extended, pg_calls = [], errorMessage = []\<rparr>"

text \<open>
  An escaping routine for the examples: it doubles single quotes, writes the result and a
  terminating NUL into the buffer, and reports the length without the NUL.
\<close>

definition quote_doubling :: "string \<Rightarrow> string \<Rightarrow> string \<times> nat" where
  "quote_doubling buf v =
     (let out = concat (map (\<lambda>c. if c = CHR 0x27 then [c, c] else [c]) v)
      in (out @ [CHR 0x00] @ drop (length out + 1) buf, length out))"

text \<open>
  An \<open>index_of_column\<close> for the examples: the position of the first column of that name,
  and an exception when there is none.
\<close>

fun position_of :: "string \<Rightarrow> Column list \<Rightarrow> nat \<Rightarrow> error + nat" where
  "position_of name [] pos = Inl (runtime_error (''Unknown column '' @ name))"
| "position_of name (c # cs) pos =
     (if column_name c = name then Inr pos else position_of name cs (Suc pos))"

definition first_position :: "Column list \<Rightarrow> string \<Rightarrow> error + nat" where
  "first_position cols name = position_of name cols 0"

text \<open>
  Example catalogs: a table \<open>sessions\<close> without a primary key, with a unique key on a
  nullable column and a unique key on two columns that are not nullable; a table \<open>orders\<close>
  with a primary key on two columns; a table \<open>audit_log\<close> whose only unique key is on a
  nullable column.
\<close>

definition example_catalog :: "string \<Rightarrow> response" where
  "example_catalog sql =
     (if sql = show_columns_sql ''sessions'' then
        ResultSet 2 [[''token'', ''varchar(64)''], [''user_id'', ''int(11)''],
                     [''device_id'', ''int(11)'']] None
      else if sql = show_keys_sql ''sessions'' then
        ResultSet 10
          [[''sessions'', ''0'', ''user_device'', ''1'', ''user_id'', ''A'', ''0'', [], [], []],
           [''sessions'', ''0'', ''user_device'', ''2'', ''device_id'', ''A'', ''0'', [], [], []],
           [''sessions'', ''0'', ''token_key'', ''1'', ''token'', ''A'', ''0'', [], [], ''YES''],
           [''sessions'', ''1'', ''by_device'', ''1'', ''device_id'', ''A'', ''0'', [], [], []]]
          None
      else if sql = show_columns_sql ''orders'' then
        ResultSet 2 [[''customer_id'', ''int(11)''], [''id'', ''int(11)''],
                     [''line'', ''int(11)'']] None
      else if sql = show_keys_sql ''orders'' then
        ResultSet 10
          [[''orders'', ''0'', ''PRIMARY'', ''1'', ''id'', ''A'', ''0'', [], [], []],
           [''orders'', ''0'', ''PRIMARY'', ''2'', ''line'', ''A'', ''0'', [], [], []],
           [''orders'', ''1'', ''by_customer'', ''1'', ''customer_id'', ''A'', ''0'', [], [], []]]
          None
      else if sql = show_columns_sql ''audit_log'' then
        ResultSet 2 [[''at'', ''datetime''], [''token'', ''varchar(64)'']] None
      else if sql = show_keys_sql ''audit_log'' then
        ResultSet 10
          [[''audit_log'', ''0'', ''token_key'', ''1'', ''token'', ''A'', ''0'', [], [], ''YES''],
           [''audit_log'', ''1'', ''by_time'', ''1'', ''at'', ''A'', ''0'', [], [], []]]
          None
      else Rejected ''You have an error in your SQL syntax'')"

definition tuples_ok :: "nat \<Rightarrow> row list \<Rightarrow> PGresult option \<times> string" where
  "tuples_ok n rows = (Some \<lparr>resultStatus = PGRES_TUPLES_OK, nfields = n, tuples = rows\<rparr>, [])"

definition example_pg_catalog :: "string \<Rightarrow> PGresult option \<times> string" where
  "example_pg_catalog sql =
     (if sql = columns_sql ''sessions'' then
        tuples_ok 1 [[''token''], [''user_id''], [''device_id'']]
      else if sql = primary_key_sql ''sessions'' then tuples_ok 1 []
      else if sql = keys_sql ''sessions'' then
        tuples_ok 4
          [[''user_device'', ''t'', ''user_id'', ''t''],
           [''user_device'', ''t'', ''device_id'', ''t''],
           [''token_key'', ''t'', ''token'', ''f''],
           [''by_device'', ''f'', ''device_id'', ''t'']]
      else if sql = columns_sql ''orders'' then
        tuples_ok 1 [[''customer_id''], [''id''], [''line'']]
      else if sql = primary_key_sql ''orders'' then tuples_ok 1 [[''id''], [''line'']]
      else if sql = keys_sql ''orders'' then
        tuples_ok 4 [[''by_customer'', ''f'', ''customer_id'', ''t'']]
      else if sql = columns_sql ''audit_log'' then tuples_ok 1 [[''at''], [''token'']]
      else if sql = primary_key_sql ''audit_log'' then tuples_ok 1 []
      else if sql = keys_sql ''audit_log'' then
        tuples_ok 4 [[''token_key'', ''t'', ''token'', ''f''], [''by_time'', ''f'', ''at'', ''t'']]
      else (Some \<lparr>resultStatus = PGRES_FATAL_ERROR, nfields = 0, tuples = []\<rparr>,
            ''ERROR:  syntax error''))"

text \<open>
  Row callbacks and a server for the examples: one callback throws at the second row, one
  collects the rows it is given.
\<close>

definition stop_at_second :: "row \<Rightarrow> nat \<Rightarrow> error option \<times> nat" where
  "stop_at_second row seen =
     (if seen = 1 then (Some (runtime_error ''stop''), seen) else (None, Suc seen))"

definition collect :: "row \<Rightarrow> row list \<Rightarrow> error option \<times> row list" where
  "collect row seen = (None, seen @ [row])"

definition two_statements :: "string \<Rightarrow> response" where
  "two_statements sql =
     (if sql = ''SELECT name FROM t'' then ResultSet 1 [[''a''], [''b''], [''c''], [''d'']] None
      else if sql = ''SELECT 1'' then ResultSet 1 [[''1'']] None
      else Rejected ''You have an error in your SQL syntax'')"

section \<open>Lemmas\<close>

subsection \<open>Connection parameters and statements\<close>

lemma digit_not_space: "isdigit c \<Longrightarrow> \<not> isspace c \<and> c \<noteq> CHR ''-'' \<and> c \<noteq> CHR ''+''"
  by (auto simp: isdigit_def isspace_def less_eq_char_def)

lemma atoi_digit: "isdigit c \<Longrightarrow> atoi (c # cs) =
   (if digits_value 0 (c # cs) \<le> 2147483647 then Some (int (digits_value 0 (c # cs))) else None)"
  using digit_not_space[of c] by (simp add: atoi_def Let_def del: digits_value.simps)

lemma length_resize: "length (resize s n) = n"
  by (simp add: resize_def)

lemma resize_take: "n \<le> length s \<Longrightarrow> resize s n = take n s"
  by (simp add: resize_def)

lemma new_buffer: "resize [] (length val * 2 + 1) = replicate (2 * length val + 1) (CHR 0x00)"
  by (simp add: resize_def mult.commute)

lemma execute_calls: "calls (snd (MySQLClient_execute sql mysql)) = calls mysql @ [Real_query sql]"
  by (simp add: MySQLClient_execute_def mysql_real_query_def Let_def split: response.splits)

lemma execute_version:
  "server_version (snd (MySQLClient_execute sql mysql)) = server_version mysql"
  by (simp add: MySQLClient_execute_def mysql_real_query_def Let_def split: response.splits)

lemma execute_outcome:
  "fst (MySQLClient_execute sql mysql) =
     (case server mysql sql of
        Rejected diagnostic \<Rightarrow> Some (runtime_error (diagnostic @ ''\<newline>'' @ sql))
      | _ \<Rightarrow> None)"
  by (simp add: MySQLClient_execute_def mysql_real_query_def mysql_error_def Let_def
      split: response.splits)

lemma start_transaction_calls:
  "calls (snd (MySQLClient_start_transaction readonly snapshot mysql)) =
     calls mysql @
     Real_query (if snapshot then ''SET TRANSACTION ISOLATION LEVEL REPEATABLE READ''
                 else ''SET TRANSACTION ISOLATION LEVEL READ COMMITTED'') #
     (case server mysql (if snapshot then ''SET TRANSACTION ISOLATION LEVEL REPEATABLE READ''
                         else ''SET TRANSACTION ISOLATION LEVEL READ COMMITTED'') of
        Rejected diagnostic \<Rightarrow> []
      | _ \<Rightarrow> [Real_query (if readonly \<and> 50605 \<le> server_version mysql
                          then ''START TRANSACTION READ ONLY'' else ''START TRANSACTION'')])"
proof -
  define iso where "iso = (if snapshot then ''SET TRANSACTION ISOLATION LEVEL REPEATABLE READ''
                 else ''SET TRANSACTION ISOLATION LEVEL READ COMMITTED'')"
  define start where "start = (\<lambda>v::nat. if readonly \<and> 50605 \<le> v
                          then ''START TRANSACTION READ ONLY'' else ''START TRANSACTION'')"
  obtain e m where first: "MySQLClient_execute iso mysql = (e, m)"
    by (cases "MySQLClient_execute iso mysql")
  have e: "e = (case server mysql iso of
        Rejected diagnostic \<Rightarrow> Some (runtime_error (diagnostic @ ''\<newline>'' @ iso)) | _ \<Rightarrow> None)"
    using execute_outcome[of iso mysql] first by simp
  have m: "calls m = calls mysql @ [Real_query iso]" "server_version m = server_version mysql"
    using execute_calls[of iso mysql] execute_version[of iso mysql] first by simp_all
  have unfold: "MySQLClient_start_transaction readonly snapshot mysql =
      (case e of Some x \<Rightarrow> (Some x, m) | None \<Rightarrow> MySQLClient_execute (start (server_version m)) m)"
    unfolding MySQLClient_start_transaction_def iso_def[symmetric] first
      mysql_get_server_version_def MYSQL_5_6_5_def start_def
    by (cases e) simp_all
  have "calls (snd (MySQLClient_start_transaction readonly snapshot mysql)) =
     calls mysql @ Real_query iso #
       (case server mysql iso of Rejected diagnostic \<Rightarrow> []
        | _ \<Rightarrow> [Real_query (start (server_version mysql))])"
    unfolding unfold using e m
    by (cases "server mysql iso") (simp_all add: execute_calls)
  then show ?thesis unfolding iso_def start_def .
qed

lemma pg_execute_calls:
  "pg_calls (snd (PostgreSQLClient_execute sql conn)) = pg_calls conn @ [Exec (c_str sql)]"
  by (simp add: PostgreSQLClient_execute_def PQexec_def Let_def delete_PostgreSQLRes_def
      PQclear_def split: prod.splits option.splits)

lemma c_str_plain: "CHR 0x00 \<notin> set s \<Longrightarrow> c_str s = s"
  by (auto simp: c_str_def)

lemma pg_start_transaction_calls:
  "pg_calls (snd (PostgreSQLClient_start_transaction readonly snapshot conn)) =
     pg_calls conn @
     [Exec (if snapshot
            then (if readonly then ''START TRANSACTION READ ONLY ISOLATION LEVEL REPEATABLE READ''
                  else ''START TRANSACTION ISOLATION LEVEL REPEATABLE READ'')
            else (if readonly then ''START TRANSACTION READ ONLY ISOLATION LEVEL READ COMMITTED''
                  else ''START TRANSACTION ISOLATION LEVEL READ COMMITTED''))]"
proof -
  have 1: "c_str ''START TRANSACTION READ ONLY ISOLATION LEVEL REPEATABLE READ'' =
             ''START TRANSACTION READ ONLY ISOLATION LEVEL REPEATABLE READ''"
    by (rule c_str_plain) simp
  have 2: "c_str ''START TRANSACTION ISOLATION LEVEL REPEATABLE READ'' =
             ''START TRANSACTION ISOLATION LEVEL REPEATABLE READ''"
    by (rule c_str_plain) simp
  have 3: "c_str ''START TRANSACTION READ ONLY ISOLATION LEVEL READ COMMITTED'' =
             ''START TRANSACTION READ ONLY ISOLATION LEVEL READ COMMITTED''"
    by (rule c_str_plain) simp
  have 4: "c_str ''START TRANSACTION ISOLATION LEVEL READ COMMITTED'' =
             ''START TRANSACTION ISOLATION LEVEL READ COMMITTED''"
    by (rule c_str_plain) simp
  show ?thesis
    unfolding PostgreSQLClient_start_transaction_def
    by (cases snapshot; cases readonly) (simp_all only: pg_execute_calls 1 2 3 4 if_True if_False)
qed

subsection \<open>Statements and queries\<close>

lemma real_query_Rejected:
  "server mysql sql = Rejected d \<Longrightarrow>
   mysql_real_query mysql sql =
     (True, mysql\<lparr>calls := calls mysql @ [Real_query sql], last_error := Some d\<rparr>)"
  by (simp add: mysql_real_query_def)

lemma real_query_Completed:
  "server mysql sql = Completed \<Longrightarrow>
   mysql_real_query mysql sql =
     (False, mysql\<lparr>calls := calls mysql @ [Real_query sql], last_error := None, announced := None\<rparr>)"
  by (simp add: mysql_real_query_def)

lemma real_query_ResultSet:
  "server mysql sql = ResultSet n rows broken \<Longrightarrow>
   mysql_real_query mysql sql =
     (False, mysql\<lparr>calls := calls mysql @ [Real_query sql], last_error := None,
                    announced := Some (n, unread mysql @ rows, broken), unread := []\<rparr>)"
  by (simp add: mysql_real_query_def)

lemma query_Rejected:
  "server mysql sql = Rejected d \<Longrightarrow>
   MySQLClient_query sql row_handler buffer (s, mysql) =
     (Some (runtime_error (d @ ''\<newline>'' @ sql)), s,
      mysql\<lparr>calls := calls mysql @ [Real_query sql], last_error := Some d\<rparr>)"
  by (simp add: MySQLClient_query_def real_query_Rejected mysql_error_def)

lemma execute_Rejected:
  "server mysql sql = Rejected d \<Longrightarrow>
   fst (MySQLClient_execute sql mysql) = Some (runtime_error (d @ ''\<newline>'' @ sql))"
  by (simp add: MySQLClient_execute_def real_query_Rejected mysql_error_def)

lemma pg_execute_outcome:
  "simple_answer conn (c_str sql) = (r, d) \<Longrightarrow>
   fst (PostgreSQLClient_execute sql conn) =
     (if PQresultStatus r \<noteq> PGRES_COMMAND_OK then Some (runtime_error (d @ ''\<newline>'' @ sql))
      else None)"
  by (simp add: PostgreSQLClient_execute_def PQexec_def Let_def status_def new_PostgreSQLRes_def
      PQerrorMessage_def)

lemma pg_query_refused:
  "extended_answer conn (c_str sql) = (r, d) \<Longrightarrow> PQresultStatus r \<noteq> PGRES_TUPLES_OK \<Longrightarrow>
   PostgreSQLClient_query sql row_handler (s, conn) =
     (Some (runtime_error (d @ ''\<newline>'' @ sql)), s,
      conn\<lparr>pg_calls := pg_calls conn @ [ExecParams (c_str sql)], errorMessage := d\<rparr>)"
  by (simp add: PostgreSQLClient_query_def PQexecParams_def Let_def status_def
      new_PostgreSQLRes_def PQerrorMessage_def delete_PostgreSQLRes_def PQclear_def
      split: option.splits)

lemma pg_query_accepted:
  "extended_answer conn (c_str sql) = (r, d) \<Longrightarrow> PQresultStatus r = PGRES_TUPLES_OK \<Longrightarrow>
   PostgreSQLClient_query sql row_handler (s, conn) =
     pg_row_loop row_handler (new_PostgreSQLRes r) 0
       (s, conn\<lparr>pg_calls := pg_calls conn @ [ExecParams (c_str sql)], errorMessage := d\<rparr>)"
  by (simp add: PostgreSQLClient_query_def PQexecParams_def Let_def status_def
      new_PostgreSQLRes_def delete_PostgreSQLRes_def PQclear_def
      split: option.splits prod.splits)

lemma pg_row_loop_quiet:
  assumes quiet: "\<And>row sc. fst (row_handler row sc) = None"
  shows "fst (pg_row_loop row_handler r row_number (s, conn)) = None"
proof (induction "nat (pg_n_tuples r) - row_number" arbitrary: row_number s conn)
  case 0
  then have "\<not> int row_number < pg_n_tuples r" by linarith
  then show ?case by (subst pg_row_loop.simps) simp
next
  case (Suc n)
  obtain e s' conn' where h: "row_handler (PostgreSQLRow r row_number) (s, conn) = (e, s', conn')"
    by (cases "row_handler (PostgreSQLRow r row_number) (s, conn)")
  have e: "e = None" using quiet[of "PostgreSQLRow r row_number" "(s, conn)"] h by simp
  have n: "n = nat (pg_n_tuples r) - Suc row_number" using Suc.hyps(2) by simp
  have lt: "int row_number < pg_n_tuples r" using Suc.hyps(2) by linarith
  show ?case
    by (subst pg_row_loop.simps) (simp add: h e lt Suc.hyps(1)[OF n])
qed

subsection \<open>The MySQL result guard and row loop\<close>

lemma discard_rows_effect:
  "discard_rows r mysql = (r', mysql') \<Longrightarrow>
   unfetched r' = [] \<and> buffered r' = buffered r \<and>
   calls mysql' = calls mysql @ replicate (length (unfetched r)) Fetch_row @ [Fetch_row] \<and>
   server mysql' = server mysql \<and>
   (\<not> buffered r \<longrightarrow> unread mysql' = []) \<and>
   (buffered r \<longrightarrow> unread mysql' = unread mysql \<and> last_error mysql' = last_error mysql) \<and>
   (breaks_with r = None \<longrightarrow> last_error mysql' = last_error mysql)"
proof (induction "unfetched r" arbitrary: r mysql)
  case Nil
  then show ?case
    by (subst (asm) discard_rows.simps)
       (auto simp: mysql_fetch_row_def Let_def split: option.splits if_splits)
next
  case (Cons a rest)
  let ?r1 = "r\<lparr>unfetched := rest\<rparr>"
  let ?m1 = "if buffered r then mysql\<lparr>calls := calls mysql @ [Fetch_row]\<rparr>
             else mysql\<lparr>calls := calls mysql @ [Fetch_row], unread := rest\<rparr>"
  have step: "mysql_fetch_row r mysql = (Some a, ?r1, ?m1)"
    using Cons.hyps(2)[symmetric] by (simp add: mysql_fetch_row_def Let_def)
  have rec: "discard_rows ?r1 ?m1 = (r', mysql')"
    using Cons.prems by (subst (asm) discard_rows.simps) (simp add: step)
  have "rest = unfetched ?r1" by simp
  from Cons.hyps(1)[OF this rec] show ?case
    using Cons.hyps(2)[symmetric] by (auto simp: replicate_append_same)
qed

lemma delete_MySQLRes_effect:
  assumes "res r = Some h"
  shows "calls (delete_MySQLRes r mysql) =
           calls mysql @ replicate (length (unfetched h)) Fetch_row @ [Fetch_row, Free_result]"
    and "server (delete_MySQLRes r mysql) = server mysql"
    and "\<not> buffered h \<Longrightarrow> unread (delete_MySQLRes r mysql) = []"
    and "buffered h \<Longrightarrow> unread (delete_MySQLRes r mysql) = unread mysql"
    and "breaks_with h = None \<Longrightarrow> last_error (delete_MySQLRes r mysql) = last_error mysql"
proof -
  obtain h' m' where d: "discard_rows h mysql = (h', m')" by (cases "discard_rows h mysql")
  have del: "delete_MySQLRes r mysql = mysql_free_result h' m'"
    by (simp add: delete_MySQLRes_def assms d)
  note eff = discard_rows_effect[OF d]
  show "calls (delete_MySQLRes r mysql) =
           calls mysql @ replicate (length (unfetched h)) Fetch_row @ [Fetch_row, Free_result]"
    using eff by (simp add: del mysql_free_result_def)
  show "server (delete_MySQLRes r mysql) = server mysql"
    using eff by (simp add: del mysql_free_result_def)
  show "\<not> buffered h \<Longrightarrow> unread (delete_MySQLRes r mysql) = []"
    using eff by (simp add: del mysql_free_result_def)
  show "buffered h \<Longrightarrow> unread (delete_MySQLRes r mysql) = unread mysql"
    using eff by (simp add: del mysql_free_result_def)
  show "breaks_with h = None \<Longrightarrow> last_error (delete_MySQLRes r mysql) = last_error mysql"
    using eff by (simp add: del mysql_free_result_def)
qed

lemma fetch_loop_mode:
  "fetch_loop row_handler r (s, mysql) = (e, r', s', mysql') \<Longrightarrow>
   buffered r' = buffered r \<and> breaks_with r' = breaks_with r"
proof (induction "unfetched r" arbitrary: r s mysql)
  case Nil
  then show ?case
    by (subst (asm) fetch_loop.simps)
       (auto simp: mysql_fetch_row_def Let_def split: option.splits if_splits)
next
  case (Cons a rest)
  obtain m1 where step: "mysql_fetch_row r mysql = (Some a, r\<lparr>unfetched := rest\<rparr>, m1)"
    using Cons.hyps(2)[symmetric] by (simp add: mysql_fetch_row_def Let_def)
  obtain e1 s1 m2 where h: "row_handler a (s, m1) = (e1, s1, m2)"
    by (cases "row_handler a (s, m1)")
  show ?case
  proof (cases e1)
    case (Some x)
    then show ?thesis using Cons.prems
      by (subst (asm) fetch_loop.simps) (auto simp: step h)
  next
    case None
    then have rec: "fetch_loop row_handler (r\<lparr>unfetched := rest\<rparr>) (s1, m2) = (e, r', s', mysql')"
      using Cons.prems by (subst (asm) fetch_loop.simps) (simp add: step h)
    have "rest = unfetched (r\<lparr>unfetched := rest\<rparr>)" by simp
    from Cons.hyps(1)[OF this rec] show ?thesis by simp
  qed
qed

lemma fetch_loop_on_rows:
  "\<not> buffered r \<Longrightarrow> fetch_loop (on_rows f) r (s, mysql) = (e, r', s', mysql') \<Longrightarrow>
   (e, s') = run_rows f (unfetched r) s \<and> server mysql' = server mysql \<and>
   last_error mysql' =
     (if e = None then (case breaks_with r of None \<Rightarrow> last_error mysql | Some d \<Rightarrow> Some d)
      else last_error mysql)"
proof (induction "unfetched r" arbitrary: r s mysql)
  case Nil
  then show ?case
    by (subst (asm) fetch_loop.simps)
       (auto simp: mysql_fetch_row_def Let_def split: option.splits if_splits)
next
  case (Cons a rest)
  let ?m1 = "mysql\<lparr>calls := calls mysql @ [Fetch_row], unread := rest\<rparr>"
  have step: "mysql_fetch_row r mysql = (Some a, r\<lparr>unfetched := rest\<rparr>, ?m1)"
    using Cons.hyps(2)[symmetric] Cons.prems(1) by (simp add: mysql_fetch_row_def Let_def)
  obtain e1 s1 where f: "f a s = (e1, s1)" by (cases "f a s")
  have h: "on_rows f a (s, ?m1) = (e1, s1, ?m1)" by (simp add: on_rows_def f)
  show ?case
  proof (cases e1)
    case (Some x)
    then show ?thesis using Cons.prems(2) Cons.hyps(2)[symmetric]
      by (subst (asm) fetch_loop.simps) (auto simp: step h f)
  next
    case None
    then have rec: "fetch_loop (on_rows f) (r\<lparr>unfetched := rest\<rparr>) (s1, ?m1) = (e, r', s', mysql')"
      using Cons.prems(2) by (subst (asm) fetch_loop.simps) (simp add: step h)
    have "rest = unfetched (r\<lparr>unfetched := rest\<rparr>)" by simp
    from Cons.hyps(1)[OF this _ rec] Cons.prems(1) show ?thesis
      using Cons.hyps(2)[symmetric] None by (auto simp: f split: option.splits)
  qed
qed

lemma query_unbuffered_unfold:
  assumes "server mysql sql = ResultSet n rows broken"
  shows "MySQLClient_query sql row_handler False (s, mysql) =
    (case fetch_loop row_handler (used_result n (unread mysql @ rows) broken)
            (s, after_use mysql sql (unread mysql @ rows)) of
       (e, h', s', m3) \<Rightarrow>
         (case e of Some x \<Rightarrow> Some x
          | None \<Rightarrow> if mysql_errno m3 \<noteq> 0
                    then Some (runtime_error (mysql_error m3 @ ''\<newline>'' @ sql)) else None,
          s',
          delete_MySQLRes \<lparr>res = Some h', n_tuples = 0, n_columns = int n\<rparr> m3))"
proof -
  let ?m1 = "mysql\<lparr>calls := calls mysql @ [Real_query sql], last_error := None,
                    announced := Some (n, unread mysql @ rows, broken), unread := []\<rparr>"
  have n: "new_MySQLRes ?m1 False =
     (Inr \<lparr>res = Some (used_result n (unread mysql @ rows) broken), n_tuples = 0, n_columns = int n\<rparr>,
      after_use mysql sql (unread mysql @ rows))"
    by (simp add: new_MySQLRes_def mysql_use_result_def Let_def mysql_num_rows_def
        mysql_num_fields_def used_result_def after_use_def)
  show ?thesis
    by (simp add: MySQLClient_query_def real_query_ResultSet[OF assms] n
        split: prod.splits option.splits)
qed

lemma query_unbuffered_disposal:
  assumes "server mysql sql = ResultSet n rows broken"
      and "MySQLClient_query sql row_handler False (s, mysql) = (e, s', mysql')"
  shows "unread mysql' = [] \<and>
         (\<exists>e0 h' m3.
            fetch_loop row_handler (used_result n (unread mysql @ rows) broken)
              (s, after_use mysql sql (unread mysql @ rows)) = (e0, h', s', m3) \<and>
            calls mysql' =
              calls m3 @ replicate (length (unfetched h')) Fetch_row @ [Fetch_row, Free_result])"
proof -
  obtain e0 h' s0 m3 where loop:
    "fetch_loop row_handler (used_result n (unread mysql @ rows) broken)
       (s, after_use mysql sql (unread mysql @ rows)) = (e0, h', s0, m3)"
    by (metis prod_cases4)
  have mode: "\<not> buffered h'"
    using fetch_loop_mode[OF loop] by (simp add: used_result_def)
  have out: "s' = s0" "mysql' = delete_MySQLRes \<lparr>res = Some h', n_tuples = 0, n_columns = int n\<rparr> m3"
    using assms(2) unfolding query_unbuffered_unfold[OF assms(1)] loop by simp_all
  have r: "res \<lparr>res = Some h', n_tuples = 0, n_columns = int n\<rparr> = Some h'" by simp
  show ?thesis
    using delete_MySQLRes_effect(1)[OF r, of m3] delete_MySQLRes_effect(3)[OF r mode, of m3] loop
    unfolding out by blast
qed

lemma query_on_rows:
  assumes "server mysql sql = ResultSet n rows broken" and "unread mysql = []"
      and "MySQLClient_query sql (on_rows f) False (s, mysql) = (e, s', mysql')"
  shows "s' = snd (run_rows f rows s)"
    and "e = (case fst (run_rows f rows s) of
                Some x \<Rightarrow> Some x
              | None \<Rightarrow> (case broken of None \<Rightarrow> None
                         | Some d \<Rightarrow> Some (runtime_error (d @ ''\<newline>'' @ sql))))"
    and "server mysql' = server mysql" and "unread mysql' = []"
proof -
  obtain e0 h' s0 m3 where loop:
    "fetch_loop (on_rows f) (used_result n rows broken) (s, after_use mysql sql rows) = (e0, h', s0, m3)"
    by (metis prod_cases4)
  have nb: "\<not> buffered (used_result n rows broken)" by (simp add: used_result_def)
  note fl = fetch_loop_on_rows[OF nb loop]
  have run: "run_rows f rows s = (e0, s0)" using fl by (simp add: used_result_def)
  have srv: "server m3 = server mysql" using fl by (simp add: after_use_def)
  have err: "last_error m3 = (if e0 = None then broken else None)"
    using fl by (auto simp: used_result_def after_use_def split: option.splits)
  have mode: "\<not> buffered h'"
    using fetch_loop_mode[OF loop] by (simp add: used_result_def)
  have out: "s' = s0" "mysql' = delete_MySQLRes \<lparr>res = Some h', n_tuples = 0, n_columns = int n\<rparr> m3"
    "e = (case e0 of Some x \<Rightarrow> Some x
          | None \<Rightarrow> if mysql_errno m3 \<noteq> 0
                    then Some (runtime_error (mysql_error m3 @ ''\<newline>'' @ sql)) else None)"
    using assms(3) unfolding query_unbuffered_unfold[OF assms(1)] assms(2) append_Nil loop
    by simp_all
  have r: "res \<lparr>res = Some h', n_tuples = 0, n_columns = int n\<rparr> = Some h'" by simp
  show "s' = snd (run_rows f rows s)" using out(1) run by simp
  show "e = (case fst (run_rows f rows s) of
                Some x \<Rightarrow> Some x
              | None \<Rightarrow> (case broken of None \<Rightarrow> None
                         | Some d \<Rightarrow> Some (runtime_error (d @ ''\<newline>'' @ sql))))"
    unfolding out(3) run using err
    by (auto simp: mysql_errno_def mysql_error_def split: option.splits)
  show "server mysql' = server mysql"
    unfolding out(2) using delete_MySQLRes_effect(2)[OF r, of m3] srv by simp
  show "unread mysql' = []"
    unfolding out(2) using delete_MySQLRes_effect(3)[OF r mode, of m3] by simp
qed

lemma query_on_rows_any:
  assumes "unread mysql = []"
      and "MySQLClient_query sql (on_rows f) False (s, mysql) = (e, s', mysql')"
  shows "server mysql' = server mysql \<and> unread mysql' = []"
proof (cases "server mysql sql")
  case (Rejected d)
  then show ?thesis using assms by (auto simp: query_Rejected)
next
  case Completed
  then show ?thesis using assms
    by (auto simp: MySQLClient_query_def real_query_Completed new_MySQLRes_def
        mysql_use_result_def Let_def mysql_num_rows_def)
next
  case (ResultSet n rows broken)
  then show ?thesis using query_on_rows(3,4)[OF ResultSet assms] by simp
qed

subsection \<open>Key listers and the choice of the primary key\<close>

lemma MySQLKeyLister_key_row:
  "string_at row 2 \<noteq> ''PRIMARY'' \<Longrightarrow>
   MySQLKeyLister index_of_column row lister =
     key_row index_of_column (string_at row 2) (string_at row 1 = ''0'') (string_at row 4)
       (string_at row 9 = ''YES'') lister"
  by (simp add: MySQLKeyLister_def key_row_def Let_def split: prod.splits sum.splits)

lemma PostgreSQLKeyLister_key_row:
  "PostgreSQLKeyLister index_of_column row lister =
     key_row index_of_column (string_at row 0) (string_at row 1 = ''t'') (string_at row 2)
       (string_at row 3 = ''f'') lister"
  by (simp add: PostgreSQLKeyLister_def key_row_def Let_def split: prod.splits sum.splits)

lemma push_column_snoc:
  "push_column_on_last_key i (ks @ [k]) = ks @ [k\<lparr>key_columns := key_columns k @ [i]\<rparr>]"
  by (simp add: push_column_on_last_key_def)

lemma key_row_effect:
  assumes "key_row ioc name uniq column nullable (t, N) = (None, t', N')"
  shows "columns t' = columns t" and "table_name t' = table_name t"
    and "primary_key_columns t' = primary_key_columns t"
    and "N' = (if primary_key_columns t = [] \<and> uniq \<and> nullable then insert name N else N)"
    and "(\<forall>k\<in>set (keys t). key_columns k \<noteq> []) \<Longrightarrow> (\<forall>k\<in>set (keys t'). key_columns k \<noteq> [])"
    and "named ` set (keys t') \<subseteq> insert (name, uniq) (named ` set (keys t))"
proof -
  obtain i where i: "ioc (columns t) column = Inr i"
    using assms by (cases "ioc (columns t) column") (simp_all add: key_row_def)
  define pushed where "pushed = (if keys t = [] \<or> key_name (last (keys t)) \<noteq> name
                            then keys t @ [new_Key name uniq] else keys t)"
  have t': "t' = t\<lparr>keys := push_column_on_last_key i pushed\<rparr>"
    and N': "N' = (if primary_key_columns t = [] \<and> uniq \<and> nullable then insert name N else N)"
    using assms by (auto simp: key_row_def i pushed_def Let_def split: if_splits)
  obtain front k where pk: "pushed = front @ [k]" "set front \<subseteq> set (keys t)"
    "named k = (name, uniq) \<or> k \<in> set (keys t)"
  proof (cases "keys t = [] \<or> key_name (last (keys t)) \<noteq> name")
    case True
    then have "pushed = keys t @ [new_Key name uniq]" by (simp add: pushed_def)
    then show ?thesis using that[of "keys t" "new_Key name uniq"]
      by (simp add: named_def new_Key_def)
  next
    case False
    then have "pushed = butlast (keys t) @ [last (keys t)]" by (simp add: pushed_def)
    then show ?thesis using that[of "butlast (keys t)" "last (keys t)"] False
      by (auto dest: in_set_butlastD)
  qed
  have ks: "keys t' = front @ [k\<lparr>key_columns := key_columns k @ [i]\<rparr>]"
    by (simp add: t' pk(1) push_column_snoc)
  show "columns t' = columns t" "table_name t' = table_name t"
    "primary_key_columns t' = primary_key_columns t" by (simp_all add: t')
  show "N' = (if primary_key_columns t = [] \<and> uniq \<and> nullable then insert name N else N)"
    by (rule N')
  show "(\<forall>k\<in>set (keys t). key_columns k \<noteq> []) \<Longrightarrow> (\<forall>k\<in>set (keys t'). key_columns k \<noteq> [])"
    using pk(2) by (auto simp: ks)
  show "named ` set (keys t') \<subseteq> insert (name, uniq) (named ` set (keys t))"
    using pk(2,3) by (auto simp: ks named_def)
qed

lemma choose_primary_key_keep: "pk \<noteq> [] \<Longrightarrow> choose_primary_key ks N pk = pk"
  by (cases ks) simp_all

lemma choose_primary_key_none:
  "\<forall>k\<in>set ks. \<not> (unique k \<and> key_name k \<notin> N) \<Longrightarrow> choose_primary_key ks N [] = []"
  by (induction ks) auto

lemma choose_primary_key_first:
  "\<forall>k\<in>set ks. key_columns k \<noteq> [] \<Longrightarrow> choose_primary_key ks N [] \<noteq> [] \<Longrightarrow>
   \<exists>earlier k later. ks = earlier @ k # later \<and>
     (\<forall>b\<in>set earlier. \<not> (unique b \<and> key_name b \<notin> N)) \<and>
     unique k \<and> key_name k \<notin> N \<and> choose_primary_key ks N [] = key_columns k"
proof (induction ks)
  case Nil
  then show ?case by simp
next
  case (Cons a ks)
  show ?case
  proof (cases "unique a \<and> key_name a \<notin> N")
    case True
    then have "choose_primary_key (a # ks) N [] = key_columns a"
      using Cons.prems(1) by (simp add: choose_primary_key_keep)
    then show ?thesis using True by (intro exI[of _ "[]"] exI[of _ a] exI[of _ ks]) simp
  next
    case False
    then have eq: "choose_primary_key (a # ks) N [] = choose_primary_key ks N []" by auto
    then obtain earlier k later where
      "ks = earlier @ k # later" "\<forall>b\<in>set earlier. \<not> (unique b \<and> key_name b \<notin> N)"
      "unique k \<and> key_name k \<notin> N" "choose_primary_key ks N [] = key_columns k"
      using Cons by auto
    then show ?thesis using False eq
      by (intro exI[of _ "a # earlier"] exI[of _ k] exI[of _ later]) auto
  qed
qed

lemma sorts_keys_sorted:
  "sorts_keys srt \<Longrightarrow> sorted (map key_name (srt ks)) \<and> set (srt ks) = set ks"
proof -
  assume s: "sorts_keys srt"
  then have "sorted_wrt (\<lambda>a b. \<not> key_less b a) (srt ks)" and m: "mset (srt ks) = mset ks"
    by (simp_all add: sorts_keys_def)
  then have "sorted_wrt (\<lambda>a b. key_name a \<le> key_name b) (srt ks)"
    by (simp add: key_less_def not_less)
  then have "sorted (map key_name (srt ks))" by (simp add: sorted_wrt_map)
  moreover have "set (srt ks) = set ks" using m by (metis set_mset_mset)
  ultimately show ?thesis by simp
qed

lemma sort_key_sorts_keys: "sorts_keys (sort_key key_name)"
proof -
  have "sorted_wrt (\<lambda>a b. \<not> key_less b a) (sort_key key_name ks)" for ks
  proof -
    have "sorted (map key_name (sort_key key_name ks))" by (rule sorted_sort_key)
    then have "sorted_wrt (\<lambda>a b. key_name a \<le> key_name b) (sort_key key_name ks)"
      by (simp only: sorted_wrt_map)
    then show ?thesis by (simp add: key_less_def not_less)
  qed
  then show ?thesis by (simp add: sorts_keys_def)
qed

lemma run_rows_cong:
  "(\<And>r. r \<in> set rows \<Longrightarrow> f r = g r) \<Longrightarrow> run_rows f rows s = run_rows g rows s"
  by (induction rows arbitrary: s) (simp_all split: prod.splits option.splits)

lemma run_rows_Cons_None:
  "run_rows f (r # rs) s = (None, s'') \<Longrightarrow>
   \<exists>s'. f r s = (None, s') \<and> run_rows f rs s' = (None, s'')"
  by (cases "f r s") (auto split: option.splits)

lemma key_rows_effect:
  assumes "run_rows (\<lambda>r. key_row ioc (nm r) (uq r) (cl r) (nl r)) rows (t, N) = (None, t', N')"
  shows "columns t' = columns t \<and> table_name t' = table_name t \<and>
         primary_key_columns t' = primary_key_columns t \<and>
         N' = (if primary_key_columns t = [] then N \<union> nm ` {r \<in> set rows. uq r \<and> nl r} else N) \<and>
         ((\<forall>k\<in>set (keys t). key_columns k \<noteq> []) \<longrightarrow> (\<forall>k\<in>set (keys t'). key_columns k \<noteq> [])) \<and>
         named ` set (keys t') \<subseteq> named ` set (keys t) \<union> (\<lambda>r. (nm r, uq r)) ` set rows"
  using assms
proof (induction rows arbitrary: t N)
  case Nil
  then show ?case by simp
next
  case (Cons r rows)
  obtain s1 where s1: "key_row ioc (nm r) (uq r) (cl r) (nl r) (t, N) = (None, s1)"
    and rest: "run_rows (\<lambda>r. key_row ioc (nm r) (uq r) (cl r) (nl r)) rows s1 = (None, t', N')"
    using run_rows_Cons_None[OF Cons.prems] by blast
  obtain t1 N1 where s: "s1 = (t1, N1)" by (cases s1)
  note step = key_row_effect[OF s1[unfolded s]]
  note ih = Cons.IH[OF rest[unfolded s]]
  have "columns t' = columns t" "table_name t' = table_name t"
    "primary_key_columns t' = primary_key_columns t"
    using ih step(1,2,3) by simp_all
  moreover have "N' = (if primary_key_columns t = []
                       then N \<union> nm ` {x \<in> set (r # rows). uq x \<and> nl x} else N)"
    using ih step(3,4) by auto
  moreover have "(\<forall>k\<in>set (keys t). key_columns k \<noteq> []) \<longrightarrow> (\<forall>k\<in>set (keys t'). key_columns k \<noteq> [])"
    using ih step(5) by blast
  moreover have "named ` set (keys t') \<subseteq> named ` set (keys t) \<union> (\<lambda>r. (nm r, uq r)) ` set (r # rows)"
  proof -
    have "named ` set (keys t') \<subseteq> named ` set (keys t1) \<union> (\<lambda>r. (nm r, uq r)) ` set rows"
      using ih by blast
    then show ?thesis using step(6) by auto
  qed
  ultimately show ?case by blast
qed

lemma column_lister_rows:
  "run_rows MySQLColumnLister rows t =
     (None, t\<lparr>columns := columns t @ map (\<lambda>r. new_Column (string_at r 0)) rows\<rparr>)"
  by (induction rows arbitrary: t) (simp_all add: MySQLColumnLister_def)

lemma pg_column_lister_rows:
  "run_rows PostgreSQLColumnLister rows t =
     (None, t\<lparr>columns := columns t @ map (\<lambda>r. new_Column (string_at r 0)) rows\<rparr>)"
  by (induction rows arbitrary: t) (simp_all add: PostgreSQLColumnLister_def)

lemma MySQLKeyLister_PRIMARY:
  assumes "string_at r 2 = ''PRIMARY''" and "MySQLKeyLister ioc r (t, N) = (None, t', N')"
  shows "\<exists>i. ioc (columns t) (string_at r 4) = Inr i \<and>
             t' = t\<lparr>primary_key_columns := primary_key_columns t @ [i]\<rparr> \<and> N' = N"
  using assms by (auto simp: MySQLKeyLister_def Let_def split: sum.splits)

lemma mysql_key_rows_primary:
  assumes "run_rows (MySQLKeyLister ioc) rows (t, N) = (None, t', N')"
  shows "columns t' = columns t \<and> table_name t' = table_name t \<and>
         map Inr (primary_key_columns t') =
           map Inr (primary_key_columns t) @
           map (\<lambda>r. ioc (columns t) (string_at r 4)) (filter (\<lambda>r. string_at r 2 = ''PRIMARY'') rows)"
  using assms
proof (induction rows arbitrary: t N)
  case Nil
  then show ?case by simp
next
  case (Cons r rows)
  obtain s1 where s1: "MySQLKeyLister ioc r (t, N) = (None, s1)"
    and rest: "run_rows (MySQLKeyLister ioc) rows s1 = (None, t', N')"
    using run_rows_Cons_None[OF Cons.prems] by blast
  obtain t1 N1 where s: "s1 = (t1, N1)" by (cases s1)
  note ih = Cons.IH[OF rest[unfolded s]]
  show ?case
  proof (cases "string_at r 2 = ''PRIMARY''")
    case True
    from MySQLKeyLister_PRIMARY[OF True s1[unfolded s]] obtain i where
      "ioc (columns t) (string_at r 4) = Inr i"
      "t1 = t\<lparr>primary_key_columns := primary_key_columns t @ [i]\<rparr>" by blast
    then show ?thesis using ih True by simp
  next
    case False
    note step = key_row_effect[OF s1[unfolded s MySQLKeyLister_key_row[OF False]]]
    show ?thesis using ih False step(1,2,3) by simp
  qed
qed

lemma pg_primary_key_rows:
  assumes "run_rows (PostgreSQLPrimaryKeyLister ioc) rows t = (None, t')"
  shows "columns t' = columns t \<and> table_name t' = table_name t \<and> keys t' = keys t \<and>
         map Inr (primary_key_columns t') =
           map Inr (primary_key_columns t) @ map (\<lambda>r. ioc (columns t) (string_at r 0)) rows"
  using assms
proof (induction rows arbitrary: t)
  case Nil
  then show ?case by simp
next
  case (Cons r rows)
  obtain t1 where s1: "PostgreSQLPrimaryKeyLister ioc r t = (None, t1)"
    and rest: "run_rows (PostgreSQLPrimaryKeyLister ioc) rows t1 = (None, t')"
    using run_rows_Cons_None[OF Cons.prems] by blast
  obtain i where "ioc (columns t) (string_at r 0) = Inr i"
    "t1 = t\<lparr>primary_key_columns := primary_key_columns t @ [i]\<rparr>"
    using s1 by (auto simp: PostgreSQLPrimaryKeyLister_def Let_def split: sum.splits)
  then show ?case using Cons.IH[OF rest] by simp
qed

lemma key_rows_succeed:
  assumes "\<And>r. r \<in> set rows \<Longrightarrow> \<exists>i. ioc (columns t) (cl r) = Inr i"
  shows "fst (run_rows (\<lambda>r. key_row ioc (nm r) (uq r) (cl r) (nl r)) rows (t, N)) = None"
  using assms
proof (induction rows arbitrary: t N)
  case Nil
  then show ?case by simp
next
  case (Cons r rows)
  obtain i where i: "ioc (columns t) (cl r) = Inr i" using Cons.prems[of r] by auto
  obtain e t1 N1 where s1: "key_row ioc (nm r) (uq r) (cl r) (nl r) (t, N) = (e, t1, N1)"
    by (metis prod_cases3)
  have e: "e = None" using s1 i by (auto simp: key_row_def Let_def split: if_splits)
  have c: "columns t1 = columns t" using key_row_effect(1)[OF s1[unfolded e]] .
  have "fst (run_rows (\<lambda>r. key_row ioc (nm r) (uq r) (cl r) (nl r)) rows (t1, N1)) = None"
    using Cons.IH[of t1 N1] Cons.prems c by simp
  then show ?case using s1 e by simp
qed

subsection \<open>Table listers\<close>

lemma new_Table_fields:
  "table_name (new_Table name) = name" "columns (new_Table name) = []"
  "primary_key_columns (new_Table name) = []" "keys (new_Table name) = []"
  by (simp_all add: new_Table_def)

lemma finish_table_refused:
  "finish_table srt N t db = (Some e, db') \<Longrightarrow>
   db' = db \<and> e = runtime_error (no_key_message @ table_name t)"
  by (auto simp: finish_table_def Let_def split: if_splits)

lemma finish_table_appended:
  "finish_table srt N t db = (None, db') \<Longrightarrow>
   choose_primary_key (srt (keys t)) N (primary_key_columns t) \<noteq> [] \<and>
   tables db' = tables db @
     [t\<lparr>primary_key_columns := choose_primary_key (srt (keys t)) N (primary_key_columns t),
        keys := srt (keys t)\<rparr>]"
  by (auto simp: finish_table_def Let_def split: if_splits)

lemma finish_table_no_key:
  "choose_primary_key (srt (keys t)) N (primary_key_columns t) = [] \<Longrightarrow>
   finish_table srt N t db = (Some (runtime_error (no_key_message @ table_name t)), db)"
  by (simp add: finish_table_def Let_def)

lemma query_success_ResultSet:
  assumes "MySQLClient_query sql row_handler False (s, mysql) = (None, s', mysql')"
  shows "\<exists>n rows broken. server mysql sql = ResultSet n rows broken"
proof (cases "server mysql sql")
  case (Rejected d)
  then show ?thesis using assms by (simp add: query_Rejected)
next
  case Completed
  then show ?thesis using assms
    by (auto simp: MySQLClient_query_def real_query_Completed new_MySQLRes_def
        mysql_use_result_def Let_def mysql_num_rows_def)
next
  case (ResultSet n rows broken)
  then show ?thesis by blast
qed

lemma MySQLTableLister_unfold:
  assumes "MySQLClient_query (show_columns_sql (string_at row 0)) (on_rows MySQLColumnLister)
             False (new_Table (string_at row 0), mysql) = (e1, t1, m1)"
      and "MySQLClient_query (show_keys_sql (table_name t1)) (on_rows (MySQLKeyLister ioc))
             False ((t1, {}), m1) = (e2, (t2, N), m2)"
  shows "MySQLTableLister srt ioc row (db, mysql) =
     (case e1 of Some e \<Rightarrow> (Some e, db, m1)
      | None \<Rightarrow> (case e2 of Some e \<Rightarrow> (Some e, db, m2)
                 | None \<Rightarrow> (fst (finish_table srt N t2 db), snd (finish_table srt N t2 db), m2)))"
  by (simp add: MySQLTableLister_def Let_def new_Table_fields assms
      split: option.splits prod.splits)

lemma MySQLTableLister_refused:
  assumes "MySQLTableLister srt ioc row (db, mysql) = (Some e, db', mysql')"
  shows "db' = db"
proof -
  obtain e1 t1 m1 where q1: "MySQLClient_query (show_columns_sql (string_at row 0))
      (on_rows MySQLColumnLister) False (new_Table (string_at row 0), mysql) = (e1, t1, m1)"
    by (metis prod_cases3)
  obtain e2 t2 N m2 where q2: "MySQLClient_query (show_keys_sql (table_name t1))
      (on_rows (MySQLKeyLister ioc)) False ((t1, {}), m1) = (e2, (t2, N), m2)"
    by (metis prod_cases3 surj_pair)
  obtain e3 db3 where f: "finish_table srt N t2 db = (e3, db3)" by (cases "finish_table srt N t2 db")
  show ?thesis
    using assms finish_table_refused[of srt N t2 db _ db3] f
    unfolding MySQLTableLister_unfold[OF q1 q2]
    by (cases e1; cases e2; cases e3) auto
qed

lemma MySQLTableLister_success:
  assumes clean: "unread mysql = []"
      and ok: "fst (MySQLTableLister srt ioc row (db, mysql)) = None"
  shows "\<exists>n krows broken t1 t2 N.
           server mysql (show_keys_sql (string_at row 0)) = ResultSet n krows broken \<and>
           table_name t1 = string_at row 0 \<and> primary_key_columns t1 = [] \<and> keys t1 = [] \<and>
           run_rows (MySQLKeyLister ioc) krows (t1, {}) = (None, t2, N) \<and>
           finish_table srt N t2 db = (None, fst (snd (MySQLTableLister srt ioc row (db, mysql))))"
proof -
  let ?name = "string_at row 0"
  obtain e1 t1 m1 where q1: "MySQLClient_query (show_columns_sql ?name)
      (on_rows MySQLColumnLister) False (new_Table ?name, mysql) = (e1, t1, m1)"
    by (metis prod_cases3)
  obtain e2 t2 N m2 where q2: "MySQLClient_query (show_keys_sql (table_name t1))
      (on_rows (MySQLKeyLister ioc)) False ((t1, {}), m1) = (e2, (t2, N), m2)"
    by (metis prod_cases3 surj_pair)
  note u = MySQLTableLister_unfold[OF q1 q2, of srt db]
  have e1: "e1 = None" using ok unfolding u by (cases e1) simp_all
  have e2: "e2 = None" using ok e1 unfolding u by (cases e2) simp_all
  have fin: "finish_table srt N t2 db = (None, fst (snd (MySQLTableLister srt ioc row (db, mysql))))"
    using ok e1 e2 unfolding u by (cases "finish_table srt N t2 db") simp
  obtain nc crows cbroken where cols: "server mysql (show_columns_sql ?name) = ResultSet nc crows cbroken"
    using query_success_ResultSet[OF q1[unfolded e1]] by blast
  have t1: "t1 = snd (run_rows MySQLColumnLister crows (new_Table ?name))"
    using query_on_rows(1)[OF cols clean q1] .
  then have t1f: "table_name t1 = ?name" "primary_key_columns t1 = []" "keys t1 = []"
    by (simp_all add: column_lister_rows new_Table_fields)
  have m1: "server m1 = server mysql" "unread m1 = []"
    using query_on_rows(3,4)[OF cols clean q1] by simp_all
  obtain n krows broken where k: "server m1 (show_keys_sql (table_name t1)) = ResultSet n krows broken"
    using query_success_ResultSet[OF q2[unfolded e2]] by blast
  have s2: "(t2, N) = snd (run_rows (MySQLKeyLister ioc) krows (t1, {}))"
    using query_on_rows(1)[OF k m1(2) q2] .
  have "fst (run_rows (MySQLKeyLister ioc) krows (t1, {})) = None"
    using query_on_rows(2)[OF k m1(2) q2] e2 by (auto split: option.splits)
  then have "run_rows (MySQLKeyLister ioc) krows (t1, {}) = (None, t2, N)"
    using s2 by (metis prod.collapse)
  moreover have "server mysql (show_keys_sql ?name) = ResultSet n krows broken"
    using k by (simp add: m1 t1f)
  ultimately show ?thesis using t1f fin by blast
qed

lemma MySQLTableLister_refused':
  "fst (MySQLTableLister srt ioc row (db, mysql)) \<noteq> None \<Longrightarrow>
   fst (snd (MySQLTableLister srt ioc row (db, mysql))) = db"
  using MySQLTableLister_refused[of srt ioc row db mysql]
  by (cases "MySQLTableLister srt ioc row (db, mysql)") auto

lemma MySQLTableLister_run:
  assumes clean: "unread mysql = []"
      and cols: "server mysql (show_columns_sql (string_at row 0)) = ResultSet nc crows None"
      and krows: "server mysql (show_keys_sql (string_at row 0)) = ResultSet nk krows None"
      and run: "run_rows (MySQLKeyLister ioc) krows
                  ((new_Table (string_at row 0))\<lparr>columns := map (\<lambda>r. new_Column (string_at r 0)) crows\<rparr>, {})
                = (None, t2, N)"
  shows "fst (MySQLTableLister srt ioc row (db, mysql)) = fst (finish_table srt N t2 db) \<and>
         fst (snd (MySQLTableLister srt ioc row (db, mysql))) = snd (finish_table srt N t2 db)"
proof -
  let ?name = "string_at row 0"
  obtain e1 t1 m1 where q1: "MySQLClient_query (show_columns_sql ?name)
      (on_rows MySQLColumnLister) False (new_Table ?name, mysql) = (e1, t1, m1)"
    by (metis prod_cases3)
  obtain e2 t2' N' m2 where q2: "MySQLClient_query (show_keys_sql (table_name t1))
      (on_rows (MySQLKeyLister ioc)) False ((t1, {}), m1) = (e2, (t2', N'), m2)"
    by (metis prod_cases3 surj_pair)
  have t1: "t1 = (new_Table ?name)\<lparr>columns := map (\<lambda>r. new_Column (string_at r 0)) crows\<rparr>"
    using query_on_rows(1)[OF cols clean q1] by (simp add: column_lister_rows new_Table_fields)
  have e1: "e1 = None"
    using query_on_rows(2)[OF cols clean q1] by (simp add: column_lister_rows)
  have m1: "server m1 = server mysql" "unread m1 = []"
    using query_on_rows(3,4)[OF cols clean q1] by simp_all
  have k: "server m1 (show_keys_sql (table_name t1)) = ResultSet nk krows None"
    using krows by (simp add: m1 t1 new_Table_fields)
  have s2: "(t2', N') = (t2, N)"
    using query_on_rows(1)[OF k m1(2) q2] run by (simp add: t1)
  have e2: "e2 = None"
    using query_on_rows(2)[OF k m1(2) q2] run by (simp add: t1)
  show ?thesis
    unfolding MySQLTableLister_unfold[OF q1 q2] using e1 e2 s2 by simp
qed

lemma MySQLTableLister_connection:
  assumes "unread mysql = []"
  shows "unread (snd (snd (MySQLTableLister srt ioc row (db, mysql)))) = [] \<and>
         server (snd (snd (MySQLTableLister srt ioc row (db, mysql)))) = server mysql"
proof -
  obtain e1 t1 m1 where q1: "MySQLClient_query (show_columns_sql (string_at row 0))
      (on_rows MySQLColumnLister) False (new_Table (string_at row 0), mysql) = (e1, t1, m1)"
    by (rule prod_cases3)
  obtain e2 t2 N m2 where q2: "MySQLClient_query (show_keys_sql (table_name t1))
      (on_rows (MySQLKeyLister ioc)) False ((t1, {}), m1) = (e2, (t2, N), m2)"
    by (metis prod_cases3 surj_pair)
  note a = query_on_rows_any[OF assms q1]
  note b = query_on_rows_any[OF a[THEN conjunct2] q2]
  show ?thesis
    unfolding MySQLTableLister_unfold[OF q1 q2] using a b
    by (cases e1; cases e2) simp_all
qed

lemma pg_row_loop_on_rows:
  assumes "pg_res r = Some p" and "pg_n_tuples r = int (length (tuples p))"
  shows "pg_row_loop (on_rows f) r row_number (s, conn) =
           (fst (run_rows f (drop row_number (tuples p)) s),
            snd (run_rows f (drop row_number (tuples p)) s), conn)"
proof (induction "length (tuples p) - row_number" arbitrary: row_number s)
  case 0
  then have "\<not> int row_number < pg_n_tuples r" "drop row_number (tuples p) = []"
    using assms(2) by simp_all
  then show ?case by (subst pg_row_loop.simps) simp
next
  case (Suc n)
  then have lt: "row_number < length (tuples p)" by simp
  then have lt': "int row_number < pg_n_tuples r" using assms(2) by simp
  have row: "PostgreSQLRow r row_number = tuples p ! row_number"
    using lt by (simp add: PostgreSQLRow_def assms(1))
  have d: "drop row_number (tuples p) = tuples p ! row_number # drop (Suc row_number) (tuples p)"
    using lt by (simp add: Cons_nth_drop_Suc)
  obtain e1 s1 where f: "f (tuples p ! row_number) s = (e1, s1)"
    by (cases "f (tuples p ! row_number) s")
  have n: "n = length (tuples p) - Suc row_number" using Suc.hyps(2) by simp
  show ?case
    by (subst pg_row_loop.simps, cases e1)
       (simp_all add: lt' row d f on_rows_def Suc.hyps(1)[OF n])
qed

lemma pg_query_on_rows:
  assumes "extended_answer conn (c_str sql) = (Some p, d)" and "resultStatus p = PGRES_TUPLES_OK"
  shows "PostgreSQLClient_query sql (on_rows f) (s, conn) =
           (fst (run_rows f (tuples p) s), snd (run_rows f (tuples p) s),
            after_exec_params conn sql d)"
proof -
  have st: "PQresultStatus (Some p) = PGRES_TUPLES_OK" by (simp add: PQresultStatus_def assms(2))
  have g: "pg_res (new_PostgreSQLRes (Some p)) = Some p"
    "pg_n_tuples (new_PostgreSQLRes (Some p)) = int (length (tuples p))"
    by (simp_all add: new_PostgreSQLRes_def PQntuples_def)
  show ?thesis
    unfolding pg_query_accepted[OF assms(1) st] pg_row_loop_on_rows[OF g]
    by (simp add: after_exec_params_def)
qed

lemma pg_query_success:
  assumes "PostgreSQLClient_query sql row_handler (s, conn) = (None, s', conn')"
  shows "\<exists>p d. extended_answer conn (c_str sql) = (Some p, d) \<and> resultStatus p = PGRES_TUPLES_OK"
proof -
  obtain r d where a: "extended_answer conn (c_str sql) = (r, d)"
    by (cases "extended_answer conn (c_str sql)")
  have st: "PQresultStatus r = PGRES_TUPLES_OK"
    using pg_query_refused[OF a, of row_handler s] assms by (cases "PQresultStatus r = PGRES_TUPLES_OK") simp_all
  then obtain p where "r = Some p" "resultStatus p = PGRES_TUPLES_OK"
    by (cases r) (simp_all add: PQresultStatus_def)
  then show ?thesis using a by blast
qed

lemma after_exec_params_answers:
  "extended_answer (after_exec_params conn sql d) = extended_answer conn"
  "simple_answer (after_exec_params conn sql d) = simple_answer conn"
  by (simp_all add: after_exec_params_def)

lemma PostgreSQLTableLister_unfold:
  assumes "PostgreSQLClient_query (columns_sql (string_at row 0)) (on_rows PostgreSQLColumnLister)
             (new_Table (string_at row 0), conn) = (e1, t1, c1)"
      and "PostgreSQLClient_query (primary_key_sql (table_name t1))
             (on_rows (PostgreSQLPrimaryKeyLister ioc)) (t1, c1) = (e2, t2, c2)"
      and "PostgreSQLClient_query (keys_sql (table_name t2)) (on_rows (PostgreSQLKeyLister ioc))
             ((t2, {}), c2) = (e3, (t3, N), c3)"
  shows "PostgreSQLTableLister srt ioc row (db, conn) =
     (case e1 of Some e \<Rightarrow> (Some e, db, c1)
      | None \<Rightarrow> (case e2 of Some e \<Rightarrow> (Some e, db, c2)
         | None \<Rightarrow> (case e3 of Some e \<Rightarrow> (Some e, db, c3)
            | None \<Rightarrow> (fst (finish_table srt N t3 db), snd (finish_table srt N t3 db), c3))))"
  by (simp add: PostgreSQLTableLister_def Let_def new_Table_fields assms
      split: option.splits prod.splits)

lemma PostgreSQLTableLister_refused:
  assumes "PostgreSQLTableLister srt ioc row (db, conn) = (Some e, db', conn')"
  shows "db' = db"
proof -
  obtain e1 t1 c1 where q1: "PostgreSQLClient_query (columns_sql (string_at row 0))
      (on_rows PostgreSQLColumnLister) (new_Table (string_at row 0), conn) = (e1, t1, c1)"
    by (metis prod_cases3)
  obtain e2 t2 c2 where q2: "PostgreSQLClient_query (primary_key_sql (table_name t1))
      (on_rows (PostgreSQLPrimaryKeyLister ioc)) (t1, c1) = (e2, t2, c2)"
    by (metis prod_cases3)
  obtain e3 t3 N c3 where q3: "PostgreSQLClient_query (keys_sql (table_name t2))
      (on_rows (PostgreSQLKeyLister ioc)) ((t2, {}), c2) = (e3, (t3, N), c3)"
    by (metis prod_cases3 surj_pair)
  obtain e4 db4 where f: "finish_table srt N t3 db = (e4, db4)" by (cases "finish_table srt N t3 db")
  show ?thesis
    using assms finish_table_refused[of srt N t3 db _ db4] f
    unfolding PostgreSQLTableLister_unfold[OF q1 q2 q3]
    by (cases e1; cases e2; cases e3; cases e4) auto
qed

lemma PostgreSQLTableLister_success:
  assumes ok: "fst (PostgreSQLTableLister srt ioc row (db, conn)) = None"
  shows "\<exists>pp pd kp kd t1 t2 t3 N.
           extended_answer conn (c_str (primary_key_sql (string_at row 0))) = (Some pp, pd) \<and>
           extended_answer conn (c_str (keys_sql (string_at row 0))) = (Some kp, kd) \<and>
           table_name t1 = string_at row 0 \<and> primary_key_columns t1 = [] \<and> keys t1 = [] \<and>
           run_rows (PostgreSQLPrimaryKeyLister ioc) (tuples pp) t1 = (None, t2) \<and>
           run_rows (PostgreSQLKeyLister ioc) (tuples kp) (t2, {}) = (None, t3, N) \<and>
           finish_table srt N t3 db =
             (None, fst (snd (PostgreSQLTableLister srt ioc row (db, conn))))"
proof -
  let ?name = "string_at row 0"
  obtain e1 t1 c1 where q1: "PostgreSQLClient_query (columns_sql ?name)
      (on_rows PostgreSQLColumnLister) (new_Table ?name, conn) = (e1, t1, c1)"
    by (metis prod_cases3)
  obtain e2 t2 c2 where q2: "PostgreSQLClient_query (primary_key_sql (table_name t1))
      (on_rows (PostgreSQLPrimaryKeyLister ioc)) (t1, c1) = (e2, t2, c2)"
    by (metis prod_cases3)
  obtain e3 t3 N c3 where q3: "PostgreSQLClient_query (keys_sql (table_name t2))
      (on_rows (PostgreSQLKeyLister ioc)) ((t2, {}), c2) = (e3, (t3, N), c3)"
    by (metis prod_cases3 surj_pair)
  note u = PostgreSQLTableLister_unfold[OF q1 q2 q3, of srt db]
  have e1: "e1 = None" using ok unfolding u by (cases e1) simp_all
  have e2: "e2 = None" using ok e1 unfolding u by (cases e2) simp_all
  have e3: "e3 = None" using ok e1 e2 unfolding u by (cases e3) simp_all
  have fin: "finish_table srt N t3 db = (None, fst (snd (PostgreSQLTableLister srt ioc row (db, conn))))"
    using ok e1 e2 e3 unfolding u by (cases "finish_table srt N t3 db") simp
  obtain cp cd where ca: "extended_answer conn (c_str (columns_sql ?name)) = (Some cp, cd)"
    "resultStatus cp = PGRES_TUPLES_OK"
    using pg_query_success[OF q1[unfolded e1]] by blast
  note r1 = q1[unfolded pg_query_on_rows[OF ca]]
  have t1: "t1 = snd (run_rows PostgreSQLColumnLister (tuples cp) (new_Table ?name))"
    and c1: "c1 = after_exec_params conn (columns_sql ?name) cd"
    using r1 by simp_all
  have t1f: "table_name t1 = ?name" "primary_key_columns t1 = []" "keys t1 = []"
    by (simp_all add: t1 pg_column_lister_rows new_Table_fields)
  obtain pp pd where pa: "extended_answer c1 (c_str (primary_key_sql (table_name t1))) = (Some pp, pd)"
    and ps: "resultStatus pp = PGRES_TUPLES_OK"
    using pg_query_success[OF q2[unfolded e2]] by blast
  note r2 = q2[unfolded pg_query_on_rows[OF pa ps]]
  have run2: "run_rows (PostgreSQLPrimaryKeyLister ioc) (tuples pp) t1 = (None, t2)"
    and c2: "c2 = after_exec_params c1 (primary_key_sql (table_name t1)) pd"
    using r2 e2 by (simp_all add: prod_eq_iff)
  have t2n: "table_name t2 = ?name"
    using pg_primary_key_rows[OF run2] t1f by simp
  obtain kp kd where ka: "extended_answer c2 (c_str (keys_sql (table_name t2))) = (Some kp, kd)"
    and kst: "resultStatus kp = PGRES_TUPLES_OK"
    using pg_query_success[OF q3[unfolded e3]] by blast
  note r3 = q3[unfolded pg_query_on_rows[OF ka kst]]
  have run3: "run_rows (PostgreSQLKeyLister ioc) (tuples kp) (t2, {}) = (None, t3, N)"
    using r3 e3 by (simp add: prod_eq_iff)
  have "extended_answer conn (c_str (primary_key_sql ?name)) = (Some pp, pd)"
    using pa by (simp add: c1 t1f after_exec_params_answers)
  moreover have "extended_answer conn (c_str (keys_sql ?name)) = (Some kp, kd)"
    using ka by (simp add: c2 c1 t2n after_exec_params_answers)
  ultimately show ?thesis using t1f run2 run3 fin by blast
qed

lemma PostgreSQLTableLister_refused':
  "fst (PostgreSQLTableLister srt ioc row (db, conn)) \<noteq> None \<Longrightarrow>
   fst (snd (PostgreSQLTableLister srt ioc row (db, conn))) = db"
  using PostgreSQLTableLister_refused[of srt ioc row db conn]
  by (cases "PostgreSQLTableLister srt ioc row (db, conn)") auto

lemma PostgreSQLTableLister_run:
  assumes ca: "extended_answer conn (c_str (columns_sql (string_at row 0))) = (Some cp, cd)"
              "resultStatus cp = PGRES_TUPLES_OK"
      and pk: "extended_answer conn (c_str (primary_key_sql (string_at row 0))) = (Some pp, pd)"
              "resultStatus pp = PGRES_TUPLES_OK"
      and ks: "extended_answer conn (c_str (keys_sql (string_at row 0))) = (Some kp, kd)"
              "resultStatus kp = PGRES_TUPLES_OK"
      and run2: "run_rows (PostgreSQLPrimaryKeyLister ioc) (tuples pp)
                  ((new_Table (string_at row 0))\<lparr>columns := map (\<lambda>r. new_Column (string_at r 0)) (tuples cp)\<rparr>)
                = (None, t2)"
      and run3: "run_rows (PostgreSQLKeyLister ioc) (tuples kp) (t2, {}) = (None, t3, N)"
  shows "fst (PostgreSQLTableLister srt ioc row (db, conn)) = fst (finish_table srt N t3 db) \<and>
         fst (snd (PostgreSQLTableLister srt ioc row (db, conn))) = snd (finish_table srt N t3 db)"
proof -
  let ?name = "string_at row 0"
  let ?t1 = "(new_Table ?name)\<lparr>columns := map (\<lambda>r. new_Column (string_at r 0)) (tuples cp)\<rparr>"
  let ?c1 = "after_exec_params conn (columns_sql ?name) cd"
  let ?c2 = "after_exec_params ?c1 (primary_key_sql ?name) pd"
  let ?c3 = "after_exec_params ?c2 (keys_sql ?name) kd"
  have q1: "PostgreSQLClient_query (columns_sql ?name)
      (on_rows PostgreSQLColumnLister) (new_Table ?name, conn) = (None, ?t1, ?c1)"
    unfolding pg_query_on_rows[OF ca] by (simp add: pg_column_lister_rows new_Table_fields)
  have t1n: "table_name ?t1 = ?name" by (simp add: new_Table_fields)
  have t2n: "table_name t2 = ?name" using pg_primary_key_rows[OF run2] t1n by simp
  have pa: "extended_answer ?c1 (c_str (primary_key_sql ?name)) = (Some pp, pd)"
    using pk(1) by (simp add: after_exec_params_answers)
  have q2: "PostgreSQLClient_query (primary_key_sql (table_name ?t1))
      (on_rows (PostgreSQLPrimaryKeyLister ioc)) (?t1, ?c1) = (None, t2, ?c2)"
    unfolding t1n pg_query_on_rows[OF pa pk(2)] using run2 by simp
  have ka: "extended_answer ?c2 (c_str (keys_sql ?name)) = (Some kp, kd)"
    using ks(1) by (simp add: after_exec_params_answers)
  have q3: "PostgreSQLClient_query (keys_sql (table_name t2))
      (on_rows (PostgreSQLKeyLister ioc)) ((t2, {}), ?c2) = (None, (t3, N), ?c3)"
    unfolding t2n pg_query_on_rows[OF ka ks(2)] using run3 by simp
  show ?thesis unfolding PostgreSQLTableLister_unfold[OF q1 q2 q3] by simp
qed

lemma surrogate_choice:
  assumes srt: "sorts_keys srt"
      and run: "run_rows (\<lambda>r. key_row ioc (nm r) (uq r) (cl r) (nl r)) krows (t2, {}) = (None, t3, N)"
      and fresh: "primary_key_columns t2 = []" "keys t2 = []"
      and fin: "finish_table srt N t3 db = (None, db')"
  shows "N = nm ` {r \<in> set krows. uq r \<and> nl r} \<and>
         (\<exists>t earlier k later. tables db' = tables db @ [t] \<and> table_name t = table_name t2 \<and>
            sorted (map key_name (keys t)) \<and> keys t = earlier @ k # later \<and>
            (\<forall>b\<in>set earlier. \<not> (unique b \<and> key_name b \<notin> N)) \<and>
            unique k \<and> key_name k \<notin> N \<and> primary_key_columns t = key_columns k)"
proof -
  note eff = key_rows_effect[OF run]
  have N: "N = nm ` {r \<in> set krows. uq r \<and> nl r}" using eff fresh by simp
  have pk3: "primary_key_columns t3 = []" using eff fresh by simp
  have ne: "\<forall>k\<in>set (srt (keys t3)). key_columns k \<noteq> []"
    using eff fresh sorts_keys_sorted[OF srt, of "keys t3"] by simp
  let ?pk = "choose_primary_key (srt (keys t3)) N []"
  let ?t = "t3\<lparr>primary_key_columns := ?pk, keys := srt (keys t3)\<rparr>"
  have app: "?pk \<noteq> []" "tables db' = tables db @ [?t]"
    using finish_table_appended[OF fin] pk3 by simp_all
  obtain earlier k later where c: "srt (keys t3) = earlier @ k # later"
    "\<forall>b\<in>set earlier. \<not> (unique b \<and> key_name b \<notin> N)" "unique k \<and> key_name k \<notin> N"
    "?pk = key_columns k"
    using choose_primary_key_first[OF ne app(1)] by blast
  have "table_name ?t = table_name t2" using eff by simp
  moreover have "sorted (map key_name (keys ?t))"
    using sorts_keys_sorted[OF srt, of "keys t3"] by simp
  moreover have "keys ?t = earlier @ k # later" using c(1) by simp
  moreover have "primary_key_columns ?t = key_columns k" using c(4) by simp
  ultimately show ?thesis using N app(2) c(2,3) by blast
qed

lemma no_surrogate:
  assumes srt: "sorts_keys srt"
      and run: "run_rows (\<lambda>r. key_row ioc (nm r) (uq r) (cl r) (nl r)) krows (t2, {}) = (None, t3, N)"
      and fresh: "primary_key_columns t2 = []" "keys t2 = []"
      and none: "\<forall>r\<in>set krows. uq r \<longrightarrow> (\<exists>r'\<in>set krows. nm r' = nm r \<and> uq r' \<and> nl r')"
  shows "choose_primary_key (srt (keys t3)) N (primary_key_columns t3) = []"
proof -
  note eff = key_rows_effect[OF run]
  have N: "N = nm ` {r \<in> set krows. uq r \<and> nl r}" using eff fresh by simp
  have pk3: "primary_key_columns t3 = []" using eff fresh by simp
  have "\<not> (unique k \<and> key_name k \<notin> N)" if "k \<in> set (srt (keys t3))" for k
  proof
    assume u: "unique k \<and> key_name k \<notin> N"
    have "k \<in> set (keys t3)" using that sorts_keys_sorted[OF srt, of "keys t3"] by simp
    then have "named k \<in> (\<lambda>r. (nm r, uq r)) ` set krows" using eff fresh by auto
    then obtain r where r: "r \<in> set krows" "nm r = key_name k" "uq r = unique k"
      by (auto simp: named_def)
    then obtain r' where "r' \<in> set krows" "nm r' = nm r" "uq r'" "nl r'" using none u by auto
    then have "key_name k \<in> N" using r(2) unfolding N by force
    then show False using u by simp
  qed
  then show ?thesis unfolding pk3 by (intro choose_primary_key_none) blast
qed

lemma mysql_surrogate:
  assumes srt: "sorts_keys srt" and clean: "unread mysql = []"
      and krows: "server mysql (show_keys_sql (string_at row 0)) = ResultSet n krows broken"
      and nopk: "\<forall>r\<in>set krows. string_at r 2 \<noteq> ''PRIMARY''"
      and ok: "fst (MySQLTableLister srt ioc row (db, mysql)) = None"
  shows "\<exists>t earlier k later.
           tables (fst (snd (MySQLTableLister srt ioc row (db, mysql)))) = tables db @ [t] \<and>
           table_name t = string_at row 0 \<and> sorted (map key_name (keys t)) \<and>
           keys t = earlier @ k # later \<and>
           (\<forall>b\<in>set earlier. \<not> (unique b \<and> key_name b \<notin>
               (\<lambda>r. string_at r 2) ` {r \<in> set krows. string_at r 1 = ''0'' \<and> string_at r 9 = ''YES''})) \<and>
           unique k \<and>
           key_name k \<notin> (\<lambda>r. string_at r 2) ` {r \<in> set krows. string_at r 1 = ''0'' \<and> string_at r 9 = ''YES''} \<and>
           primary_key_columns t = key_columns k"
proof -
  obtain n' krows' broken' t1 t2 N where s:
    "server mysql (show_keys_sql (string_at row 0)) = ResultSet n' krows' broken'"
    "table_name t1 = string_at row 0" "primary_key_columns t1 = []" "keys t1 = []"
    "run_rows (MySQLKeyLister ioc) krows' (t1, {}) = (None, t2, N)"
    "finish_table srt N t2 db = (None, fst (snd (MySQLTableLister srt ioc row (db, mysql))))"
    using MySQLTableLister_success[OF clean ok] by blast
  have same: "krows' = krows" using s(1) krows by simp
  have run: "run_rows (\<lambda>r. key_row ioc (string_at r 2) (string_at r 1 = ''0'') (string_at r 4)
                 (string_at r 9 = ''YES'')) krows (t1, {}) = (None, t2, N)"
  proof -
    have "run_rows (\<lambda>r. key_row ioc (string_at r 2) (string_at r 1 = ''0'') (string_at r 4)
                 (string_at r 9 = ''YES'')) krows (t1, {}) =
          run_rows (MySQLKeyLister ioc) krows (t1, {})"
      by (rule run_rows_cong) (simp add: fun_eq_iff MySQLKeyLister_key_row nopk)
    then show ?thesis using s(5) unfolding same by simp
  qed
  show ?thesis using surrogate_choice[OF srt run s(3,4,6)] s(2) by auto
qed

lemma pg_surrogate:
  assumes srt: "sorts_keys srt"
      and pk: "extended_answer conn (c_str (primary_key_sql (string_at row 0))) = (Some pp, pd)"
      and nopk: "tuples pp = []"
      and ks: "extended_answer conn (c_str (keys_sql (string_at row 0))) = (Some kp, kd)"
      and ok: "fst (PostgreSQLTableLister srt ioc row (db, conn)) = None"
  shows "\<exists>t earlier k later.
           tables (fst (snd (PostgreSQLTableLister srt ioc row (db, conn)))) = tables db @ [t] \<and>
           table_name t = string_at row 0 \<and> sorted (map key_name (keys t)) \<and>
           keys t = earlier @ k # later \<and>
           (\<forall>b\<in>set earlier. \<not> (unique b \<and> key_name b \<notin>
               (\<lambda>r. string_at r 0) ` {r \<in> set (tuples kp). string_at r 1 = ''t'' \<and> string_at r 3 = ''f''})) \<and>
           unique k \<and>
           key_name k \<notin> (\<lambda>r. string_at r 0) ` {r \<in> set (tuples kp). string_at r 1 = ''t'' \<and> string_at r 3 = ''f''} \<and>
           primary_key_columns t = key_columns k"
proof -
  obtain pp' pd' kp' kd' t1 t2 t3 N where s:
    "extended_answer conn (c_str (primary_key_sql (string_at row 0))) = (Some pp', pd')"
    "extended_answer conn (c_str (keys_sql (string_at row 0))) = (Some kp', kd')"
    "table_name t1 = string_at row 0" "primary_key_columns t1 = []" "keys t1 = []"
    "run_rows (PostgreSQLPrimaryKeyLister ioc) (tuples pp') t1 = (None, t2)"
    "run_rows (PostgreSQLKeyLister ioc) (tuples kp') (t2, {}) = (None, t3, N)"
    "finish_table srt N t3 db = (None, fst (snd (PostgreSQLTableLister srt ioc row (db, conn))))"
    using PostgreSQLTableLister_success[OF ok] by blast
  have same: "pp' = pp" "kp' = kp" using s(1,2) pk ks by simp_all
  have t2: "t2 = t1" using s(6) nopk unfolding same by simp
  have run: "run_rows (\<lambda>r. key_row ioc (string_at r 0) (string_at r 1 = ''t'') (string_at r 2)
                 (string_at r 3 = ''f'')) (tuples kp) (t1, {}) = (None, t3, N)"
  proof -
    have "run_rows (\<lambda>r. key_row ioc (string_at r 0) (string_at r 1 = ''t'') (string_at r 2)
                 (string_at r 3 = ''f'')) (tuples kp) (t1, {}) =
          run_rows (PostgreSQLKeyLister ioc) (tuples kp) (t1, {})"
      by (rule run_rows_cong) (simp add: fun_eq_iff PostgreSQLKeyLister_key_row)
    then show ?thesis using s(7) unfolding same t2 by simp
  qed
  show ?thesis using surrogate_choice[OF srt run s(4,5,8)] s(3) by auto
qed

lemma mysql_key_run_cong:
  "\<forall>r\<in>set krows. string_at r 2 \<noteq> ''PRIMARY'' \<Longrightarrow>
   run_rows (MySQLKeyLister ioc) krows s =
   run_rows (\<lambda>r. key_row ioc (string_at r 2) (string_at r 1 = ''0'') (string_at r 4)
                 (string_at r 9 = ''YES'')) krows s"
  by (rule run_rows_cong) (simp add: fun_eq_iff MySQLKeyLister_key_row)

lemma pg_key_run_cong:
  "run_rows (PostgreSQLKeyLister ioc) krows s =
   run_rows (\<lambda>r. key_row ioc (string_at r 0) (string_at r 1 = ''t'') (string_at r 2)
                 (string_at r 3 = ''f'')) krows s"
  by (rule run_rows_cong) (simp add: fun_eq_iff PostgreSQLKeyLister_key_row)

lemma mysql_no_usable_key_not_appended:
  assumes srt: "sorts_keys srt" and clean: "unread mysql = []"
      and krows: "server mysql (show_keys_sql (string_at row 0)) = ResultSet n krows broken"
      and nopk: "\<forall>r\<in>set krows. string_at r 2 \<noteq> ''PRIMARY''"
      and none: "\<forall>r\<in>set krows. string_at r 1 = ''0'' \<longrightarrow>
                   (\<exists>r'\<in>set krows. string_at r' 2 = string_at r 2 \<and> string_at r' 1 = ''0'' \<and>
                                    string_at r' 9 = ''YES'')"
  shows "fst (MySQLTableLister srt ioc row (db, mysql)) \<noteq> None \<and>
         fst (snd (MySQLTableLister srt ioc row (db, mysql))) = db"
proof -
  have "fst (MySQLTableLister srt ioc row (db, mysql)) \<noteq> None"
  proof
    assume ok: "fst (MySQLTableLister srt ioc row (db, mysql)) = None"
    obtain n' krows' broken' t1 t2 N where s:
      "server mysql (show_keys_sql (string_at row 0)) = ResultSet n' krows' broken'"
      "table_name t1 = string_at row 0" "primary_key_columns t1 = []" "keys t1 = []"
      "run_rows (MySQLKeyLister ioc) krows' (t1, {}) = (None, t2, N)"
      "finish_table srt N t2 db = (None, fst (snd (MySQLTableLister srt ioc row (db, mysql))))"
      using MySQLTableLister_success[OF clean ok] by blast
    have same: "krows' = krows" using s(1) krows by simp
    note run = s(5)[unfolded same mysql_key_run_cong[OF nopk]]
    have "choose_primary_key (srt (keys t2)) N (primary_key_columns t2) = []"
      using no_surrogate[OF srt run s(3,4)] none by blast
    then show False using finish_table_appended[OF s(6)] by simp
  qed
  then show ?thesis using MySQLTableLister_refused' by blast
qed

lemma mysql_no_usable_key_message:
  assumes srt: "sorts_keys srt" and clean: "unread mysql = []"
      and cols: "server mysql (show_columns_sql (string_at row 0)) = ResultSet nc crows None"
      and krows: "server mysql (show_keys_sql (string_at row 0)) = ResultSet n krows None"
      and nopk: "\<forall>r\<in>set krows. string_at r 2 \<noteq> ''PRIMARY''"
      and none: "\<forall>r\<in>set krows. string_at r 1 = ''0'' \<longrightarrow>
                   (\<exists>r'\<in>set krows. string_at r' 2 = string_at r 2 \<and> string_at r' 1 = ''0'' \<and>
                                    string_at r' 9 = ''YES'')"
      and found: "\<forall>r\<in>set krows. \<exists>i. ioc (map (\<lambda>r. new_Column (string_at r 0)) crows) (string_at r 4) = Inr i"
  shows "fst (MySQLTableLister srt ioc row (db, mysql)) =
           Some (runtime_error (no_key_message @ string_at row 0))"
proof -
  let ?t1 = "(new_Table (string_at row 0))\<lparr>columns := map (\<lambda>r. new_Column (string_at r 0)) crows\<rparr>"
  let ?f = "\<lambda>r. key_row ioc (string_at r 2) (string_at r 1 = ''0'') (string_at r 4)
                 (string_at r 9 = ''YES'')"
  have "fst (run_rows ?f krows (?t1, {})) = None"
    by (rule key_rows_succeed) (use found in \<open>simp add: new_Table_fields\<close>)
  moreover obtain e t2 N where "run_rows ?f krows (?t1, {}) = (e, t2, N)"
    by (rule prod_cases3)
  ultimately have run: "run_rows ?f krows (?t1, {}) = (None, t2, N)" by simp
  have run': "run_rows (MySQLKeyLister ioc) krows (?t1, {}) = (None, t2, N)"
    using run by (simp add: mysql_key_run_cong[OF nopk])
  have fresh: "primary_key_columns ?t1 = []" "keys ?t1 = []" by (simp_all add: new_Table_fields)
  have "choose_primary_key (srt (keys t2)) N (primary_key_columns t2) = []"
    using no_surrogate[OF srt run fresh] none by blast
  then have "finish_table srt N t2 db = (Some (runtime_error (no_key_message @ table_name t2)), db)"
    by (rule finish_table_no_key)
  moreover have "table_name t2 = string_at row 0"
    using key_rows_effect[OF run] by (simp add: new_Table_fields)
  ultimately show ?thesis using MySQLTableLister_run[OF clean cols krows run', of srt db] by simp
qed

lemma pg_no_usable_key_not_appended:
  assumes srt: "sorts_keys srt"
      and pk: "extended_answer conn (c_str (primary_key_sql (string_at row 0))) = (Some pp, pd)"
      and nopk: "tuples pp = []"
      and ks: "extended_answer conn (c_str (keys_sql (string_at row 0))) = (Some kp, kd)"
      and none: "\<forall>r\<in>set (tuples kp). string_at r 1 = ''t'' \<longrightarrow>
                   (\<exists>r'\<in>set (tuples kp). string_at r' 0 = string_at r 0 \<and> string_at r' 1 = ''t'' \<and>
                                    string_at r' 3 = ''f'')"
  shows "fst (PostgreSQLTableLister srt ioc row (db, conn)) \<noteq> None \<and>
         fst (snd (PostgreSQLTableLister srt ioc row (db, conn))) = db"
proof -
  have "fst (PostgreSQLTableLister srt ioc row (db, conn)) \<noteq> None"
  proof
    assume ok: "fst (PostgreSQLTableLister srt ioc row (db, conn)) = None"
    obtain pp' pd' kp' kd' t1 t2 t3 N where s:
      "extended_answer conn (c_str (primary_key_sql (string_at row 0))) = (Some pp', pd')"
      "extended_answer conn (c_str (keys_sql (string_at row 0))) = (Some kp', kd')"
      "table_name t1 = string_at row 0" "primary_key_columns t1 = []" "keys t1 = []"
      "run_rows (PostgreSQLPrimaryKeyLister ioc) (tuples pp') t1 = (None, t2)"
      "run_rows (PostgreSQLKeyLister ioc) (tuples kp') (t2, {}) = (None, t3, N)"
      "finish_table srt N t3 db = (None, fst (snd (PostgreSQLTableLister srt ioc row (db, conn))))"
      using PostgreSQLTableLister_success[OF ok] by blast
    have same: "pp' = pp" "kp' = kp" using s(1,2) pk ks by simp_all
    have t2: "t2 = t1" using s(6) nopk unfolding same by simp
    note run = s(7)[unfolded same t2 pg_key_run_cong]
    have "choose_primary_key (srt (keys t3)) N (primary_key_columns t3) = []"
      using no_surrogate[OF srt run s(4,5)] none by blast
    then show False using finish_table_appended[OF s(8)] by simp
  qed
  then show ?thesis using PostgreSQLTableLister_refused' by blast
qed

lemma pg_no_usable_key_message:
  assumes srt: "sorts_keys srt"
      and ca: "extended_answer conn (c_str (columns_sql (string_at row 0))) = (Some cp, cd)"
              "resultStatus cp = PGRES_TUPLES_OK"
      and pk: "extended_answer conn (c_str (primary_key_sql (string_at row 0))) = (Some pp, pd)"
              "resultStatus pp = PGRES_TUPLES_OK"
      and nopk: "tuples pp = []"
      and ks: "extended_answer conn (c_str (keys_sql (string_at row 0))) = (Some kp, kd)"
              "resultStatus kp = PGRES_TUPLES_OK"
      and none: "\<forall>r\<in>set (tuples kp). string_at r 1 = ''t'' \<longrightarrow>
                   (\<exists>r'\<in>set (tuples kp). string_at r' 0 = string_at r 0 \<and> string_at r' 1 = ''t'' \<and>
                                    string_at r' 3 = ''f'')"
      and found: "\<forall>r\<in>set (tuples kp).
                    \<exists>i. ioc (map (\<lambda>r. new_Column (string_at r 0)) (tuples cp)) (string_at r 2) = Inr i"
  shows "fst (PostgreSQLTableLister srt ioc row (db, conn)) =
           Some (runtime_error (no_key_message @ string_at row 0))"
proof -
  let ?t1 = "(new_Table (string_at row 0))\<lparr>columns := map (\<lambda>r. new_Column (string_at r 0)) (tuples cp)\<rparr>"
  let ?f = "\<lambda>r. key_row ioc (string_at r 0) (string_at r 1 = ''t'') (string_at r 2)
                 (string_at r 3 = ''f'')"
  have run2: "run_rows (PostgreSQLPrimaryKeyLister ioc) (tuples pp) ?t1 = (None, ?t1)"
    by (simp add: nopk)
  have "fst (run_rows ?f (tuples kp) (?t1, {})) = None"
    by (rule key_rows_succeed) (use found in \<open>simp add: new_Table_fields\<close>)
  moreover obtain e t3 N where "run_rows ?f (tuples kp) (?t1, {}) = (e, t3, N)"
    by (rule prod_cases3)
  ultimately have run: "run_rows ?f (tuples kp) (?t1, {}) = (None, t3, N)" by simp
  have run': "run_rows (PostgreSQLKeyLister ioc) (tuples kp) (?t1, {}) = (None, t3, N)"
    using run by (simp add: pg_key_run_cong)
  have fresh: "primary_key_columns ?t1 = []" "keys ?t1 = []" by (simp_all add: new_Table_fields)
  have "choose_primary_key (srt (keys t3)) N (primary_key_columns t3) = []"
    using no_surrogate[OF srt run fresh] none by blast
  then have "finish_table srt N t3 db = (Some (runtime_error (no_key_message @ table_name t3)), db)"
    by (rule finish_table_no_key)
  moreover have "table_name t3 = string_at row 0"
    using key_rows_effect[OF run] by (simp add: new_Table_fields)
  ultimately show ?thesis
    using PostgreSQLTableLister_run[OF ca pk(1,2) ks run2 run', of srt db] by simp
qed

lemma mysql_explicit_primary_key:
  assumes clean: "unread mysql = []"
      and krows: "server mysql (show_keys_sql (string_at row 0)) = ResultSet n krows broken"
      and pk: "\<exists>r\<in>set krows. string_at r 2 = ''PRIMARY''"
      and ok: "fst (MySQLTableLister srt ioc row (db, mysql)) = None"
  shows "\<exists>t. tables (fst (snd (MySQLTableLister srt ioc row (db, mysql)))) = tables db @ [t] \<and>
             table_name t = string_at row 0 \<and>
             map Inr (primary_key_columns t) =
               map (\<lambda>r. ioc (columns t) (string_at r 4))
                   (filter (\<lambda>r. string_at r 2 = ''PRIMARY'') krows)"
proof -
  obtain n' krows' broken' t1 t2 N where s:
    "server mysql (show_keys_sql (string_at row 0)) = ResultSet n' krows' broken'"
    "table_name t1 = string_at row 0" "primary_key_columns t1 = []" "keys t1 = []"
    "run_rows (MySQLKeyLister ioc) krows' (t1, {}) = (None, t2, N)"
    "finish_table srt N t2 db = (None, fst (snd (MySQLTableLister srt ioc row (db, mysql))))"
    using MySQLTableLister_success[OF clean ok] by blast
  have same: "krows' = krows" using s(1) krows by simp
  note k = mysql_key_rows_primary[OF s(5)[unfolded same]]
  have idx: "map Inr (primary_key_columns t2) =
      map (\<lambda>r. ioc (columns t2) (string_at r 4)) (filter (\<lambda>r. string_at r 2 = ''PRIMARY'') krows)"
    using k s(3) by simp
  have "filter (\<lambda>r. string_at r 2 = ''PRIMARY'') krows \<noteq> []"
    using pk by (simp add: filter_empty_conv)
  then have ne: "primary_key_columns t2 \<noteq> []" using idx by (metis map_is_Nil_conv)
  let ?t = "t2\<lparr>primary_key_columns := choose_primary_key (srt (keys t2)) N (primary_key_columns t2),
               keys := srt (keys t2)\<rparr>"
  have "tables (fst (snd (MySQLTableLister srt ioc row (db, mysql)))) = tables db @ [?t]"
    using finish_table_appended[OF s(6)] by simp
  moreover have "primary_key_columns ?t = primary_key_columns t2"
    by (simp add: choose_primary_key_keep[OF ne])
  moreover have "columns ?t = columns t2" "table_name ?t = string_at row 0"
    using k s(2) by simp_all
  ultimately show ?thesis using idx by (intro exI[of _ ?t]) simp
qed

lemma pg_explicit_primary_key:
  assumes pk: "extended_answer conn (c_str (primary_key_sql (string_at row 0))) = (Some pp, pd)"
      and some: "tuples pp \<noteq> []"
      and ok: "fst (PostgreSQLTableLister srt ioc row (db, conn)) = None"
  shows "\<exists>t. tables (fst (snd (PostgreSQLTableLister srt ioc row (db, conn)))) = tables db @ [t] \<and>
             table_name t = string_at row 0 \<and>
             map Inr (primary_key_columns t) =
               map (\<lambda>r. ioc (columns t) (string_at r 0)) (tuples pp)"
proof -
  obtain pp' pd' kp' kd' t1 t2 t3 N where s:
    "extended_answer conn (c_str (primary_key_sql (string_at row 0))) = (Some pp', pd')"
    "extended_answer conn (c_str (keys_sql (string_at row 0))) = (Some kp', kd')"
    "table_name t1 = string_at row 0" "primary_key_columns t1 = []" "keys t1 = []"
    "run_rows (PostgreSQLPrimaryKeyLister ioc) (tuples pp') t1 = (None, t2)"
    "run_rows (PostgreSQLKeyLister ioc) (tuples kp') (t2, {}) = (None, t3, N)"
    "finish_table srt N t3 db = (None, fst (snd (PostgreSQLTableLister srt ioc row (db, conn))))"
    using PostgreSQLTableLister_success[OF ok] by blast
  have same: "pp' = pp" using s(1) pk by simp
  note p = pg_primary_key_rows[OF s(6)[unfolded same]]
  note k = key_rows_effect[OF s(7)[unfolded pg_key_run_cong]]
  have idx: "map Inr (primary_key_columns t3) = map (\<lambda>r. ioc (columns t3) (string_at r 0)) (tuples pp)"
    using p k s(4) by simp
  have ne: "primary_key_columns t3 \<noteq> []" using idx some by (metis map_is_Nil_conv)
  let ?t = "t3\<lparr>primary_key_columns := choose_primary_key (srt (keys t3)) N (primary_key_columns t3),
               keys := srt (keys t3)\<rparr>"
  have "tables (fst (snd (PostgreSQLTableLister srt ioc row (db, conn)))) = tables db @ [?t]"
    using finish_table_appended[OF s(8)] by simp
  moreover have "primary_key_columns ?t = primary_key_columns t3"
    by (simp add: choose_primary_key_keep[OF ne])
  moreover have "columns ?t = columns t3" "table_name ?t = string_at row 0"
    using p k s(3) by simp_all
  ultimately show ?thesis using idx by (intro exI[of _ ?t]) simp
qed

subsection \<open>The example catalogs\<close>

lemmas lister_eval =
  MySQLKeyLister_def PostgreSQLKeyLister_def PostgreSQLPrimaryKeyLister_def string_at_def
  first_position_def new_Table_def new_Column_def new_Key_def push_column_on_last_key_def Let_def

lemma example_catalog_answers:
  "server (fresh_MYSQL example_catalog v) (show_columns_sql (string_at [''sessions''] 0)) =
     ResultSet 2 [[''token'', ''varchar(64)''], [''user_id'', ''int(11)''],
                  [''device_id'', ''int(11)'']] None"
  "server (fresh_MYSQL example_catalog v) (show_keys_sql (string_at [''sessions''] 0)) =
     ResultSet 10
          [[''sessions'', ''0'', ''user_device'', ''1'', ''user_id'', ''A'', ''0'', [], [], []],
           [''sessions'', ''0'', ''user_device'', ''2'', ''device_id'', ''A'', ''0'', [], [], []],
           [''sessions'', ''0'', ''token_key'', ''1'', ''token'', ''A'', ''0'', [], [], ''YES''],
           [''sessions'', ''1'', ''by_device'', ''1'', ''device_id'', ''A'', ''0'', [], [], []]]
          None"
  "server (fresh_MYSQL example_catalog v) (show_columns_sql (string_at [''orders''] 0)) =
     ResultSet 2 [[''customer_id'', ''int(11)''], [''id'', ''int(11)''],
                  [''line'', ''int(11)'']] None"
  "server (fresh_MYSQL example_catalog v) (show_keys_sql (string_at [''orders''] 0)) =
     ResultSet 10
          [[''orders'', ''0'', ''PRIMARY'', ''1'', ''id'', ''A'', ''0'', [], [], []],
           [''orders'', ''0'', ''PRIMARY'', ''2'', ''line'', ''A'', ''0'', [], [], []],
           [''orders'', ''1'', ''by_customer'', ''1'', ''customer_id'', ''A'', ''0'', [], [], []]]
          None"
  "server (fresh_MYSQL example_catalog v) (show_columns_sql (string_at [''audit_log''] 0)) =
     ResultSet 2 [[''at'', ''datetime''], [''token'', ''varchar(64)'']] None"
  "server (fresh_MYSQL example_catalog v) (show_keys_sql (string_at [''audit_log''] 0)) =
     ResultSet 10
          [[''audit_log'', ''0'', ''token_key'', ''1'', ''token'', ''A'', ''0'', [], [], ''YES''],
           [''audit_log'', ''1'', ''by_time'', ''1'', ''at'', ''A'', ''0'', [], [], []]]
          None"
  "unread (fresh_MYSQL example_catalog v) = []"
  by (simp_all add: fresh_MYSQL_def example_catalog_def show_columns_sql_def show_keys_sql_def
      string_at_def)

lemma sessions_keys:
  "run_rows (MySQLKeyLister first_position)
     [[''sessions'', ''0'', ''user_device'', ''1'', ''user_id'', ''A'', ''0'', [], [], []],
      [''sessions'', ''0'', ''user_device'', ''2'', ''device_id'', ''A'', ''0'', [], [], []],
      [''sessions'', ''0'', ''token_key'', ''1'', ''token'', ''A'', ''0'', [], [], ''YES''],
      [''sessions'', ''1'', ''by_device'', ''1'', ''device_id'', ''A'', ''0'', [], [], []]]
     ((new_Table (string_at [''sessions''] 0))\<lparr>columns := map (\<lambda>r. new_Column (string_at r 0))
         [[''token'', ''varchar(64)''], [''user_id'', ''int(11)''], [''device_id'', ''int(11)'']]\<rparr>, {}) =
   (None,
    \<lparr>table_name = ''sessions'',
     columns = [\<lparr>column_name = ''token''\<rparr>, \<lparr>column_name = ''user_id''\<rparr>, \<lparr>column_name = ''device_id''\<rparr>],
     primary_key_columns = [],
     keys = [\<lparr>key_name = ''user_device'', unique = True, key_columns = [1, 2]\<rparr>,
             \<lparr>key_name = ''token_key'', unique = True, key_columns = [0]\<rparr>,
             \<lparr>key_name = ''by_device'', unique = False, key_columns = [2]\<rparr>]\<rparr>,
    {''token_key''})"
  by (simp add: lister_eval)

lemma sessions_listed:
  "fst (MySQLTableLister (sort_key key_name) first_position [''sessions'']
          (\<lparr>tables = []\<rparr>, fresh_MYSQL example_catalog v)) = None"
  using MySQLTableLister_run[OF example_catalog_answers(7) example_catalog_answers(1,2)
      sessions_keys, where srt = "sort_key key_name" and db = "\<lparr>tables = []\<rparr>"]
  by (simp add: finish_table_def)


lemma orders_keys:
  "run_rows (MySQLKeyLister first_position)
     [[''orders'', ''0'', ''PRIMARY'', ''1'', ''id'', ''A'', ''0'', [], [], []],
      [''orders'', ''0'', ''PRIMARY'', ''2'', ''line'', ''A'', ''0'', [], [], []],
      [''orders'', ''1'', ''by_customer'', ''1'', ''customer_id'', ''A'', ''0'', [], [], []]]
     ((new_Table (string_at [''orders''] 0))\<lparr>columns := map (\<lambda>r. new_Column (string_at r 0))
         [[''customer_id'', ''int(11)''], [''id'', ''int(11)''], [''line'', ''int(11)'']]\<rparr>, {}) =
   (None,
    \<lparr>table_name = ''orders'',
     columns = [\<lparr>column_name = ''customer_id''\<rparr>, \<lparr>column_name = ''id''\<rparr>, \<lparr>column_name = ''line''\<rparr>],
     primary_key_columns = [1, 2],
     keys = [\<lparr>key_name = ''by_customer'', unique = False, key_columns = [0]\<rparr>]\<rparr>,
    {})"
  by (simp add: lister_eval)

lemma orders_listed:
  "fst (MySQLTableLister (sort_key key_name) first_position [''orders'']
          (\<lparr>tables = []\<rparr>, fresh_MYSQL example_catalog v)) = None"
  using MySQLTableLister_run[OF example_catalog_answers(7) example_catalog_answers(3,4)
      orders_keys, where srt = "sort_key key_name" and db = "\<lparr>tables = []\<rparr>"]
  by (simp add: finish_table_def)

lemma example_pg_catalog_answers:
  "extended_answer (fresh_PGconn simple example_pg_catalog) (c_str (columns_sql (string_at [''sessions''] 0))) =
     tuples_ok 1 [[''token''], [''user_id''], [''device_id'']]"
  "extended_answer (fresh_PGconn simple example_pg_catalog) (c_str (primary_key_sql (string_at [''sessions''] 0))) =
     tuples_ok 1 []"
  "extended_answer (fresh_PGconn simple example_pg_catalog) (c_str (keys_sql (string_at [''sessions''] 0))) =
     tuples_ok 4
          [[''user_device'', ''t'', ''user_id'', ''t''],
           [''user_device'', ''t'', ''device_id'', ''t''],
           [''token_key'', ''t'', ''token'', ''f''],
           [''by_device'', ''f'', ''device_id'', ''t'']]"
  "extended_answer (fresh_PGconn simple example_pg_catalog) (c_str (columns_sql (string_at [''orders''] 0))) =
     tuples_ok 1 [[''customer_id''], [''id''], [''line'']]"
  "extended_answer (fresh_PGconn simple example_pg_catalog) (c_str (primary_key_sql (string_at [''orders''] 0))) =
     tuples_ok 1 [[''id''], [''line'']]"
  "extended_answer (fresh_PGconn simple example_pg_catalog) (c_str (keys_sql (string_at [''orders''] 0))) =
     tuples_ok 4 [[''by_customer'', ''f'', ''customer_id'', ''t'']]"
  "extended_answer (fresh_PGconn simple example_pg_catalog) (c_str (columns_sql (string_at [''audit_log''] 0))) =
     tuples_ok 1 [[''at''], [''token'']]"
  "extended_answer (fresh_PGconn simple example_pg_catalog) (c_str (primary_key_sql (string_at [''audit_log''] 0))) =
     tuples_ok 1 []"
  "extended_answer (fresh_PGconn simple example_pg_catalog) (c_str (keys_sql (string_at [''audit_log''] 0))) =
     tuples_ok 4 [[''token_key'', ''t'', ''token'', ''f''], [''by_time'', ''f'', ''at'', ''t'']]"
  by (simp_all add: fresh_PGconn_def example_pg_catalog_def columns_sql_def primary_key_sql_def
      keys_sql_def string_at_def c_str_def)

lemma pg_sessions_keys:
  "run_rows (PostgreSQLKeyLister first_position)
     [[''user_device'', ''t'', ''user_id'', ''t''],
      [''user_device'', ''t'', ''device_id'', ''t''],
      [''token_key'', ''t'', ''token'', ''f''],
      [''by_device'', ''f'', ''device_id'', ''t'']]
     ((new_Table (string_at [''sessions''] 0))\<lparr>columns := map (\<lambda>r. new_Column (string_at r 0))
         [[''token''], [''user_id''], [''device_id'']]\<rparr>, {}) =
   (None,
    \<lparr>table_name = ''sessions'',
     columns = [\<lparr>column_name = ''token''\<rparr>, \<lparr>column_name = ''user_id''\<rparr>, \<lparr>column_name = ''device_id''\<rparr>],
     primary_key_columns = [],
     keys = [\<lparr>key_name = ''user_device'', unique = True, key_columns = [1, 2]\<rparr>,
             \<lparr>key_name = ''token_key'', unique = True, key_columns = [0]\<rparr>,
             \<lparr>key_name = ''by_device'', unique = False, key_columns = [2]\<rparr>]\<rparr>,
    {''token_key''})"
  by (simp add: lister_eval)

lemma pg_sessions_listed:
  "fst (PostgreSQLTableLister (sort_key key_name) first_position [''sessions'']
          (\<lparr>tables = []\<rparr>, fresh_PGconn simple example_pg_catalog)) = None"
proof -
  have run2: "run_rows (PostgreSQLPrimaryKeyLister first_position) []
     ((new_Table (string_at [''sessions''] 0))\<lparr>columns := map (\<lambda>r. new_Column (string_at r 0))
         [[''token''], [''user_id''], [''device_id'']]\<rparr>) =
     (None, (new_Table (string_at [''sessions''] 0))\<lparr>columns := map (\<lambda>r. new_Column (string_at r 0))
         [[''token''], [''user_id''], [''device_id'']]\<rparr>)"
    by simp
  show ?thesis
    using PostgreSQLTableLister_run[where conn = "fresh_PGconn simple example_pg_catalog"
        and row = "[''sessions'']" and srt = "sort_key key_name" and db = "\<lparr>tables = []\<rparr>"
        and ioc = first_position
        and cp = "\<lparr>resultStatus = PGRES_TUPLES_OK, nfields = 1,
                   tuples = [[''token''], [''user_id''], [''device_id'']]\<rparr>" and cd = "[]"
        and pp = "\<lparr>resultStatus = PGRES_TUPLES_OK, nfields = 1, tuples = []\<rparr>" and pd = "[]"
        and kp = "\<lparr>resultStatus = PGRES_TUPLES_OK, nfields = 4,
                   tuples = [[''user_device'', ''t'', ''user_id'', ''t''],
                             [''user_device'', ''t'', ''device_id'', ''t''],
                             [''token_key'', ''t'', ''token'', ''f''],
                             [''by_device'', ''f'', ''device_id'', ''t'']]\<rparr>" and kd = "[]"]
      run2 pg_sessions_keys
    by (simp add: example_pg_catalog_answers(1,2,3) tuples_ok_def finish_table_def)
qed


lemma image_Collect_set: "f ` {r \<in> set xs. P r} = set (map f (filter P xs))"
  by auto

lemma pg_orders_keys:
  "run_rows (PostgreSQLKeyLister first_position)
     [[''by_customer'', ''f'', ''customer_id'', ''t'']]
     (\<lparr>table_name = ''orders'',
       columns = [\<lparr>column_name = ''customer_id''\<rparr>, \<lparr>column_name = ''id''\<rparr>, \<lparr>column_name = ''line''\<rparr>],
       primary_key_columns = [1, 2], keys = []\<rparr>, {}) =
   (None,
    \<lparr>table_name = ''orders'',
     columns = [\<lparr>column_name = ''customer_id''\<rparr>, \<lparr>column_name = ''id''\<rparr>, \<lparr>column_name = ''line''\<rparr>],
     primary_key_columns = [1, 2],
     keys = [\<lparr>key_name = ''by_customer'', unique = False, key_columns = [0]\<rparr>]\<rparr>,
    {})"
  by (simp add: lister_eval)

lemma pg_orders_primary_key:
  "run_rows (PostgreSQLPrimaryKeyLister first_position) [[''id''], [''line'']]
     ((new_Table (string_at [''orders''] 0))\<lparr>columns := map (\<lambda>r. new_Column (string_at r 0))
         [[''customer_id''], [''id''], [''line'']]\<rparr>) =
   (None,
    \<lparr>table_name = ''orders'',
     columns = [\<lparr>column_name = ''customer_id''\<rparr>, \<lparr>column_name = ''id''\<rparr>, \<lparr>column_name = ''line''\<rparr>],
     primary_key_columns = [1, 2], keys = []\<rparr>)"
  by (simp add: lister_eval)

lemma pg_orders_listed:
  "fst (PostgreSQLTableLister (sort_key key_name) first_position [''orders'']
          (\<lparr>tables = []\<rparr>, fresh_PGconn simple example_pg_catalog)) = None"
  using PostgreSQLTableLister_run[where conn = "fresh_PGconn simple example_pg_catalog"
        and row = "[''orders'']" and srt = "sort_key key_name" and db = "\<lparr>tables = []\<rparr>"
        and ioc = first_position
        and cp = "\<lparr>resultStatus = PGRES_TUPLES_OK, nfields = 1,
                   tuples = [[''customer_id''], [''id''], [''line'']]\<rparr>" and cd = "[]"
        and pp = "\<lparr>resultStatus = PGRES_TUPLES_OK, nfields = 1, tuples = [[''id''], [''line'']]\<rparr>"
        and pd = "[]"
        and kp = "\<lparr>resultStatus = PGRES_TUPLES_OK, nfields = 4,
                   tuples = [[''by_customer'', ''f'', ''customer_id'', ''t'']]\<rparr>" and kd = "[]"]
      pg_orders_primary_key pg_orders_keys
  by (simp add: example_pg_catalog_answers(4,5,6) tuples_ok_def finish_table_def)

section \<open>Claims\<close>

text \<open>
  C1. For a table for which the engine reports no primary key (no \<open>PRIMARY\<close> row among the
  rows of \<open>SHOW KEYS\<close> on MySQL, no row from the primary key query on PostgreSQL) and that
  the table lister accepts, the table appended to \<open>database.tables\<close> has its keys sorted by
  name, and its \<open>primary_key_columns\<close> are the columns of the first key, in that order, that
  is unique and whose name the key lister did not record as unique but nullable: every key
  before it is not unique or was recorded. \<open>std::sort\<close> enters as any function \<open>srt\<close> that
  sorts keys by name.
\<close>

theorem surrogate_primary_key_first_usable:
  assumes "sorts_keys srt"
  shows "(unread mysql = [] \<and>
          server mysql (show_keys_sql (string_at row 0)) = ResultSet n krows broken \<and>
          (\<forall>r\<in>set krows. string_at r 2 \<noteq> ''PRIMARY'') \<and>
          fst (MySQLTableLister srt ioc row (db, mysql)) = None \<longrightarrow>
          (\<exists>t earlier k later.
             tables (fst (snd (MySQLTableLister srt ioc row (db, mysql)))) = tables db @ [t] \<and>
             table_name t = string_at row 0 \<and> sorted (map key_name (keys t)) \<and>
             keys t = earlier @ k # later \<and>
             (\<forall>b\<in>set earlier. \<not> (unique b \<and> key_name b \<notin>
                 (\<lambda>r. string_at r 2) ` {r \<in> set krows. string_at r 1 = ''0'' \<and> string_at r 9 = ''YES''})) \<and>
             unique k \<and>
             key_name k \<notin> (\<lambda>r. string_at r 2) ` {r \<in> set krows. string_at r 1 = ''0'' \<and> string_at r 9 = ''YES''} \<and>
             primary_key_columns t = key_columns k)) \<and>
         (extended_answer conn (c_str (primary_key_sql (string_at prow 0))) = (Some pp, pd) \<and>
          tuples pp = [] \<and>
          extended_answer conn (c_str (keys_sql (string_at prow 0))) = (Some kp, kd) \<and>
          fst (PostgreSQLTableLister srt pioc prow (pdb, conn)) = None \<longrightarrow>
          (\<exists>t earlier k later.
             tables (fst (snd (PostgreSQLTableLister srt pioc prow (pdb, conn)))) = tables pdb @ [t] \<and>
             table_name t = string_at prow 0 \<and> sorted (map key_name (keys t)) \<and>
             keys t = earlier @ k # later \<and>
             (\<forall>b\<in>set earlier. \<not> (unique b \<and> key_name b \<notin>
                 (\<lambda>r. string_at r 0) ` {r \<in> set (tuples kp). string_at r 1 = ''t'' \<and> string_at r 3 = ''f''})) \<and>
             unique k \<and>
             key_name k \<notin> (\<lambda>r. string_at r 0) ` {r \<in> set (tuples kp). string_at r 1 = ''t'' \<and> string_at r 3 = ''f''} \<and>
             primary_key_columns t = key_columns k))"
proof (intro conjI impI)
  assume "unread mysql = [] \<and>
          server mysql (show_keys_sql (string_at row 0)) = ResultSet n krows broken \<and>
          (\<forall>r\<in>set krows. string_at r 2 \<noteq> ''PRIMARY'') \<and>
          fst (MySQLTableLister srt ioc row (db, mysql)) = None"
  then show "\<exists>t earlier k later.
             tables (fst (snd (MySQLTableLister srt ioc row (db, mysql)))) = tables db @ [t] \<and>
             table_name t = string_at row 0 \<and> sorted (map key_name (keys t)) \<and>
             keys t = earlier @ k # later \<and>
             (\<forall>b\<in>set earlier. \<not> (unique b \<and> key_name b \<notin>
                 (\<lambda>r. string_at r 2) ` {r \<in> set krows. string_at r 1 = ''0'' \<and> string_at r 9 = ''YES''})) \<and>
             unique k \<and>
             key_name k \<notin> (\<lambda>r. string_at r 2) ` {r \<in> set krows. string_at r 1 = ''0'' \<and> string_at r 9 = ''YES''} \<and>
             primary_key_columns t = key_columns k"
    using mysql_surrogate[OF assms, of mysql row n krows broken ioc db] by simp
next
  assume "extended_answer conn (c_str (primary_key_sql (string_at prow 0))) = (Some pp, pd) \<and>
          tuples pp = [] \<and>
          extended_answer conn (c_str (keys_sql (string_at prow 0))) = (Some kp, kd) \<and>
          fst (PostgreSQLTableLister srt pioc prow (pdb, conn)) = None"
  then show "\<exists>t earlier k later.
             tables (fst (snd (PostgreSQLTableLister srt pioc prow (pdb, conn)))) = tables pdb @ [t] \<and>
             table_name t = string_at prow 0 \<and> sorted (map key_name (keys t)) \<and>
             keys t = earlier @ k # later \<and>
             (\<forall>b\<in>set earlier. \<not> (unique b \<and> key_name b \<notin>
                 (\<lambda>r. string_at r 0) ` {r \<in> set (tuples kp). string_at r 1 = ''t'' \<and> string_at r 3 = ''f''})) \<and>
             unique k \<and>
             key_name k \<notin> (\<lambda>r. string_at r 0) ` {r \<in> set (tuples kp). string_at r 1 = ''t'' \<and> string_at r 3 = ''f''} \<and>
             primary_key_columns t = key_columns k"
    using pg_surrogate[OF assms, of conn prow pp pd kp kd pioc pdb] by simp
qed

theorem surrogate_primary_key_first_usable_witness:
  "(\<exists>t earlier k later.
      tables (fst (snd (MySQLTableLister (sort_key key_name) first_position [''sessions'']
                          (\<lparr>tables = []\<rparr>, fresh_MYSQL example_catalog 50700)))) = [t] \<and>
      table_name t = ''sessions'' \<and> sorted (map key_name (keys t)) \<and>
      keys t = earlier @ k # later \<and>
      (\<forall>b\<in>set earlier. \<not> (unique b \<and> key_name b \<notin> {''token_key''})) \<and>
      unique k \<and> key_name k \<notin> {''token_key''} \<and> primary_key_columns t = key_columns k) \<and>
   (\<exists>t earlier k later.
      tables (fst (snd (PostgreSQLTableLister (sort_key key_name) first_position [''sessions'']
                          (\<lparr>tables = []\<rparr>, fresh_PGconn (\<lambda>sql. (None, [])) example_pg_catalog)))) = [t] \<and>
      table_name t = ''sessions'' \<and> sorted (map key_name (keys t)) \<and>
      keys t = earlier @ k # later \<and>
      (\<forall>b\<in>set earlier. \<not> (unique b \<and> key_name b \<notin> {''token_key''})) \<and>
      unique k \<and> key_name k \<notin> {''token_key''} \<and> primary_key_columns t = key_columns k)"
proof -
  let ?krows = "[[''sessions'', ''0'', ''user_device'', ''1'', ''user_id'', ''A'', ''0'', [], [], []],
           [''sessions'', ''0'', ''user_device'', ''2'', ''device_id'', ''A'', ''0'', [], [], []],
           [''sessions'', ''0'', ''token_key'', ''1'', ''token'', ''A'', ''0'', [], [], ''YES''],
           [''sessions'', ''1'', ''by_device'', ''1'', ''device_id'', ''A'', ''0'', [], [], []]]"
  let ?kp = "\<lparr>resultStatus = PGRES_TUPLES_OK, nfields = 4,
                   tuples = [[''user_device'', ''t'', ''user_id'', ''t''],
                             [''user_device'', ''t'', ''device_id'', ''t''],
                             [''token_key'', ''t'', ''token'', ''f''],
                             [''by_device'', ''f'', ''device_id'', ''t'']]\<rparr>"
  let ?pp = "\<lparr>resultStatus = PGRES_TUPLES_OK, nfields = 1, tuples = []\<rparr>"
  have N: "(\<lambda>r. string_at r 2) ` {r \<in> set ?krows. string_at r 1 = ''0'' \<and> string_at r 9 = ''YES''}
             = {''token_key''}"
    unfolding image_Collect_set by (simp add: string_at_def)
  have Np: "(\<lambda>r. string_at r 0) ` {r \<in> set (tuples ?kp). string_at r 1 = ''t'' \<and> string_at r 3 = ''f''}
             = {''token_key''}"
    unfolding image_Collect_set by (simp add: string_at_def)
  have hm: "unread (fresh_MYSQL example_catalog 50700) = [] \<and>
            server (fresh_MYSQL example_catalog 50700) (show_keys_sql (string_at [''sessions''] 0)) =
              ResultSet 10 ?krows None \<and>
            (\<forall>r\<in>set ?krows. string_at r 2 \<noteq> ''PRIMARY'') \<and>
            fst (MySQLTableLister (sort_key key_name) first_position [''sessions'']
                   (\<lparr>tables = []\<rparr>, fresh_MYSQL example_catalog 50700)) = None"
    using sessions_listed[of 50700] example_catalog_answers(2,7)[of 50700]
    by (simp add: string_at_def)
  have hp: "extended_answer (fresh_PGconn (\<lambda>sql. (None, [])) example_pg_catalog)
              (c_str (primary_key_sql (string_at [''sessions''] 0))) = (Some ?pp, []) \<and>
            tuples ?pp = [] \<and>
            extended_answer (fresh_PGconn (\<lambda>sql. (None, [])) example_pg_catalog)
              (c_str (keys_sql (string_at [''sessions''] 0))) = (Some ?kp, []) \<and>
            fst (PostgreSQLTableLister (sort_key key_name) first_position [''sessions'']
                   (\<lparr>tables = []\<rparr>, fresh_PGconn (\<lambda>sql. (None, [])) example_pg_catalog)) = None"
    using pg_sessions_listed[of "\<lambda>sql. (None, [])"]
      example_pg_catalog_answers(2,3)[of "\<lambda>sql. (None, [])"]
    by (simp add: tuples_ok_def)
  note c = surrogate_primary_key_first_usable[OF sort_key_sorts_keys]
  show ?thesis
    using c[THEN conjunct1, THEN mp, OF hm] c[THEN conjunct2, THEN mp, OF hp]
    unfolding N Np by (simp add: string_at_def)
qed

text \<open>
  C2. A table for which the engine reports no primary key and whose every unique key has a
  nullable column (none at all included: each row of a unique key has a row of the same key
  that is unique and nullable) is refused by the table lister: it throws, and
  \<open>database.tables\<close> is as before. When the catalog queries are answered without
  failure and every column of a key is found in the table, the exception is the
  \<open>runtime_error\<close> whose message is \<open>no_key_message\<close> followed by the table's name.
\<close>

theorem no_usable_key_refused:
  assumes "sorts_keys srt"
  shows "(unread mysql = [] \<and>
          server mysql (show_keys_sql (string_at row 0)) = ResultSet n krows broken \<and>
          (\<forall>r\<in>set krows. string_at r 2 \<noteq> ''PRIMARY'') \<and>
          (\<forall>r\<in>set krows. string_at r 1 = ''0'' \<longrightarrow>
             (\<exists>r'\<in>set krows. string_at r' 2 = string_at r 2 \<and> string_at r' 1 = ''0'' \<and>
                              string_at r' 9 = ''YES'')) \<longrightarrow>
          fst (MySQLTableLister srt ioc row (db, mysql)) \<noteq> None \<and>
          fst (snd (MySQLTableLister srt ioc row (db, mysql))) = db \<and>
          (server mysql (show_columns_sql (string_at row 0)) = ResultSet nc crows None \<and>
           broken = None \<and>
           (\<forall>r\<in>set krows. \<exists>i. ioc (map (\<lambda>r. new_Column (string_at r 0)) crows) (string_at r 4) = Inr i) \<longrightarrow>
           fst (MySQLTableLister srt ioc row (db, mysql)) =
             Some (runtime_error (no_key_message @ string_at row 0)))) \<and>
         (extended_answer conn (c_str (primary_key_sql (string_at prow 0))) = (Some pp, pd) \<and>
          tuples pp = [] \<and>
          extended_answer conn (c_str (keys_sql (string_at prow 0))) = (Some kp, kd) \<and>
          (\<forall>r\<in>set (tuples kp). string_at r 1 = ''t'' \<longrightarrow>
             (\<exists>r'\<in>set (tuples kp). string_at r' 0 = string_at r 0 \<and> string_at r' 1 = ''t'' \<and>
                                      string_at r' 3 = ''f'')) \<longrightarrow>
          fst (PostgreSQLTableLister srt pioc prow (pdb, conn)) \<noteq> None \<and>
          fst (snd (PostgreSQLTableLister srt pioc prow (pdb, conn))) = pdb \<and>
          (extended_answer conn (c_str (columns_sql (string_at prow 0))) = (Some cp, cd) \<and>
           resultStatus cp = PGRES_TUPLES_OK \<and> resultStatus pp = PGRES_TUPLES_OK \<and>
           resultStatus kp = PGRES_TUPLES_OK \<and>
           (\<forall>r\<in>set (tuples kp).
              \<exists>i. pioc (map (\<lambda>r. new_Column (string_at r 0)) (tuples cp)) (string_at r 2) = Inr i) \<longrightarrow>
           fst (PostgreSQLTableLister srt pioc prow (pdb, conn)) =
             Some (runtime_error (no_key_message @ string_at prow 0))))"
proof (intro conjI impI)
  assume h: "unread mysql = [] \<and>
          server mysql (show_keys_sql (string_at row 0)) = ResultSet n krows broken \<and>
          (\<forall>r\<in>set krows. string_at r 2 \<noteq> ''PRIMARY'') \<and>
          (\<forall>r\<in>set krows. string_at r 1 = ''0'' \<longrightarrow>
             (\<exists>r'\<in>set krows. string_at r' 2 = string_at r 2 \<and> string_at r' 1 = ''0'' \<and>
                              string_at r' 9 = ''YES''))"
  note na = mysql_no_usable_key_not_appended[OF assms h[THEN conjunct1]
      h[THEN conjunct2, THEN conjunct1] h[THEN conjunct2, THEN conjunct2, THEN conjunct1]
      h[THEN conjunct2, THEN conjunct2, THEN conjunct2], of ioc db]
  show "fst (MySQLTableLister srt ioc row (db, mysql)) \<noteq> None" using na by simp
  show "fst (snd (MySQLTableLister srt ioc row (db, mysql))) = db" using na by simp
  assume g: "server mysql (show_columns_sql (string_at row 0)) = ResultSet nc crows None \<and>
           broken = None \<and>
           (\<forall>r\<in>set krows. \<exists>i. ioc (map (\<lambda>r. new_Column (string_at r 0)) crows) (string_at r 4) = Inr i)"
  have k: "server mysql (show_keys_sql (string_at row 0)) = ResultSet n krows None"
    using h g by simp
  show "fst (MySQLTableLister srt ioc row (db, mysql)) =
             Some (runtime_error (no_key_message @ string_at row 0))"
    using mysql_no_usable_key_message[of srt mysql row nc crows n krows ioc db] assms h g k
    by blast
next
  assume h: "extended_answer conn (c_str (primary_key_sql (string_at prow 0))) = (Some pp, pd) \<and>
          tuples pp = [] \<and>
          extended_answer conn (c_str (keys_sql (string_at prow 0))) = (Some kp, kd) \<and>
          (\<forall>r\<in>set (tuples kp). string_at r 1 = ''t'' \<longrightarrow>
             (\<exists>r'\<in>set (tuples kp). string_at r' 0 = string_at r 0 \<and> string_at r' 1 = ''t'' \<and>
                                      string_at r' 3 = ''f''))"
  note na = pg_no_usable_key_not_appended[OF assms h[THEN conjunct1]
      h[THEN conjunct2, THEN conjunct1] h[THEN conjunct2, THEN conjunct2, THEN conjunct1]
      h[THEN conjunct2, THEN conjunct2, THEN conjunct2], of pioc pdb]
  show "fst (PostgreSQLTableLister srt pioc prow (pdb, conn)) \<noteq> None" using na by simp
  show "fst (snd (PostgreSQLTableLister srt pioc prow (pdb, conn))) = pdb" using na by simp
  assume g: "extended_answer conn (c_str (columns_sql (string_at prow 0))) = (Some cp, cd) \<and>
           resultStatus cp = PGRES_TUPLES_OK \<and> resultStatus pp = PGRES_TUPLES_OK \<and>
           resultStatus kp = PGRES_TUPLES_OK \<and>
           (\<forall>r\<in>set (tuples kp).
              \<exists>i. pioc (map (\<lambda>r. new_Column (string_at r 0)) (tuples cp)) (string_at r 2) = Inr i)"
  show "fst (PostgreSQLTableLister srt pioc prow (pdb, conn)) =
             Some (runtime_error (no_key_message @ string_at prow 0))"
    using pg_no_usable_key_message[of srt conn prow cp cd pp pd kp kd pioc pdb] assms h g
    by blast
qed

theorem no_usable_key_refused_witness:
  "fst (MySQLTableLister (sort_key key_name) first_position [''audit_log'']
          (\<lparr>tables = []\<rparr>, fresh_MYSQL example_catalog 50700)) =
     Some (runtime_error ''Couldn't find a primary or non-nullable unique key on table audit_log'') \<and>
   fst (snd (MySQLTableLister (sort_key key_name) first_position [''audit_log'']
          (\<lparr>tables = []\<rparr>, fresh_MYSQL example_catalog 50700))) = \<lparr>tables = []\<rparr> \<and>
   fst (PostgreSQLTableLister (sort_key key_name) first_position [''audit_log'']
          (\<lparr>tables = []\<rparr>, fresh_PGconn (\<lambda>sql. (None, [])) example_pg_catalog)) =
     Some (runtime_error ''Couldn't find a primary or non-nullable unique key on table audit_log'') \<and>
   fst (snd (PostgreSQLTableLister (sort_key key_name) first_position [''audit_log'']
          (\<lparr>tables = []\<rparr>, fresh_PGconn (\<lambda>sql. (None, [])) example_pg_catalog))) = \<lparr>tables = []\<rparr>"
proof -
  let ?krows = "[[''audit_log'', ''0'', ''token_key'', ''1'', ''token'', ''A'', ''0'', [], [], ''YES''],
           [''audit_log'', ''1'', ''by_time'', ''1'', ''at'', ''A'', ''0'', [], [], []]]"
  let ?crows = "[[''at'', ''datetime''], [''token'', ''varchar(64)'']]"
  let ?pp = "\<lparr>resultStatus = PGRES_TUPLES_OK, nfields = 1, tuples = []\<rparr>"
  let ?cp = "\<lparr>resultStatus = PGRES_TUPLES_OK, nfields = 1, tuples = [[''at''], [''token'']]\<rparr>"
  let ?kp = "\<lparr>resultStatus = PGRES_TUPLES_OK, nfields = 4,
              tuples = [[''token_key'', ''t'', ''token'', ''f''], [''by_time'', ''f'', ''at'', ''t'']]\<rparr>"
  let ?m = "fresh_MYSQL example_catalog 50700"
  let ?c = "fresh_PGconn (\<lambda>sql. (None, [])) example_pg_catalog"
  have hm: "unread ?m = [] \<and>
          server ?m (show_keys_sql (string_at [''audit_log''] 0)) = ResultSet 10 ?krows None \<and>
          (\<forall>r\<in>set ?krows. string_at r 2 \<noteq> ''PRIMARY'') \<and>
          (\<forall>r\<in>set ?krows. string_at r 1 = ''0'' \<longrightarrow>
             (\<exists>r'\<in>set ?krows. string_at r' 2 = string_at r 2 \<and> string_at r' 1 = ''0'' \<and>
                              string_at r' 9 = ''YES''))"
    using example_catalog_answers(6,7)[of 50700] by (simp add: string_at_def)
  have gm: "server ?m (show_columns_sql (string_at [''audit_log''] 0)) = ResultSet 2 ?crows None \<and>
           None = (None :: string option) \<and>
           (\<forall>r\<in>set ?krows. \<exists>i. first_position (map (\<lambda>r. new_Column (string_at r 0)) ?crows) (string_at r 4) = Inr i)"
    using example_catalog_answers(5)[of 50700]
    by (simp add: string_at_def first_position_def new_Column_def)
  have hp: "extended_answer ?c (c_str (primary_key_sql (string_at [''audit_log''] 0))) = (Some ?pp, []) \<and>
          tuples ?pp = [] \<and>
          extended_answer ?c (c_str (keys_sql (string_at [''audit_log''] 0))) = (Some ?kp, []) \<and>
          (\<forall>r\<in>set (tuples ?kp). string_at r 1 = ''t'' \<longrightarrow>
             (\<exists>r'\<in>set (tuples ?kp). string_at r' 0 = string_at r 0 \<and> string_at r' 1 = ''t'' \<and>
                                      string_at r' 3 = ''f''))"
    using example_pg_catalog_answers(8,9)[of "\<lambda>sql. (None, [])"]
    by (simp add: tuples_ok_def string_at_def)
  have gp: "extended_answer ?c (c_str (columns_sql (string_at [''audit_log''] 0))) = (Some ?cp, []) \<and>
           resultStatus ?cp = PGRES_TUPLES_OK \<and> resultStatus ?pp = PGRES_TUPLES_OK \<and>
           resultStatus ?kp = PGRES_TUPLES_OK \<and>
           (\<forall>r\<in>set (tuples ?kp).
              \<exists>i. first_position (map (\<lambda>r. new_Column (string_at r 0)) (tuples ?cp)) (string_at r 2) = Inr i)"
    using example_pg_catalog_answers(7)[of "\<lambda>sql. (None, [])"]
    by (simp add: tuples_ok_def string_at_def first_position_def new_Column_def)
  note c = no_usable_key_refused[OF sort_key_sorts_keys]
  note m = c[THEN conjunct1, THEN mp, OF hm, of first_position "\<lparr>tables = []\<rparr>"]
  note p = c[THEN conjunct2, THEN mp, OF hp, of first_position "\<lparr>tables = []\<rparr>"]
  show ?thesis
    using m[THEN conjunct2, THEN conjunct1]
      m[THEN conjunct2, THEN conjunct2, THEN mp, OF gm]
      p[THEN conjunct2, THEN conjunct1] p[THEN conjunct2, THEN conjunct2, THEN mp, OF gp]
    by (simp add: no_key_message_def string_at_def)
qed

text \<open>
  C3. For a table for which the engine reports a primary key (rows named \<open>PRIMARY\<close> in
  \<open>SHOW KEYS\<close> on MySQL, rows of the primary key query on PostgreSQL) and that the table
  lister accepts, \<open>primary_key_columns\<close> of the appended table is, row by row and in the
  order of the rows, the index \<open>index_of_column\<close> returns for the reported column name in
  the table's columns.
\<close>

theorem explicit_primary_key_order:
  "(unread mysql = [] \<and>
    server mysql (show_keys_sql (string_at row 0)) = ResultSet n krows broken \<and>
    (\<exists>r\<in>set krows. string_at r 2 = ''PRIMARY'') \<and>
    fst (MySQLTableLister srt ioc row (db, mysql)) = None \<longrightarrow>
    (\<exists>t. tables (fst (snd (MySQLTableLister srt ioc row (db, mysql)))) = tables db @ [t] \<and>
         table_name t = string_at row 0 \<and>
         map Inr (primary_key_columns t) =
           map (\<lambda>r. ioc (columns t) (string_at r 4))
               (filter (\<lambda>r. string_at r 2 = ''PRIMARY'') krows))) \<and>
   (extended_answer conn (c_str (primary_key_sql (string_at prow 0))) = (Some pp, pd) \<and>
    tuples pp \<noteq> [] \<and>
    fst (PostgreSQLTableLister psrt pioc prow (pdb, conn)) = None \<longrightarrow>
    (\<exists>t. tables (fst (snd (PostgreSQLTableLister psrt pioc prow (pdb, conn)))) = tables pdb @ [t] \<and>
         table_name t = string_at prow 0 \<and>
         map Inr (primary_key_columns t) =
           map (\<lambda>r. pioc (columns t) (string_at r 0)) (tuples pp)))"
  using mysql_explicit_primary_key[of mysql row n krows broken srt ioc db]
    pg_explicit_primary_key[of conn prow pp pd psrt pioc pdb]
  by blast

theorem explicit_primary_key_order_witness:
  "(\<exists>t. tables (fst (snd (MySQLTableLister (sort_key key_name) first_position [''orders'']
                            (\<lparr>tables = []\<rparr>, fresh_MYSQL example_catalog 50700)))) = [t] \<and>
        table_name t = ''orders'' \<and>
        map Inr (primary_key_columns t) =
          [first_position (columns t) ''id'', first_position (columns t) ''line'']) \<and>
   (\<exists>t. tables (fst (snd (PostgreSQLTableLister (sort_key key_name) first_position [''orders'']
                            (\<lparr>tables = []\<rparr>, fresh_PGconn (\<lambda>sql. (None, [])) example_pg_catalog)))) = [t] \<and>
        table_name t = ''orders'' \<and>
        map Inr (primary_key_columns t) =
          [first_position (columns t) ''id'', first_position (columns t) ''line''])"
proof -
  let ?krows = "[[''orders'', ''0'', ''PRIMARY'', ''1'', ''id'', ''A'', ''0'', [], [], []],
           [''orders'', ''0'', ''PRIMARY'', ''2'', ''line'', ''A'', ''0'', [], [], []],
           [''orders'', ''1'', ''by_customer'', ''1'', ''customer_id'', ''A'', ''0'', [], [], []]]"
  let ?pp = "\<lparr>resultStatus = PGRES_TUPLES_OK, nfields = 1, tuples = [[''id''], [''line'']]\<rparr>"
  let ?m = "fresh_MYSQL example_catalog 50700"
  let ?c = "fresh_PGconn (\<lambda>sql. (None, [])) example_pg_catalog"
  have hm: "unread ?m = [] \<and>
    server ?m (show_keys_sql (string_at [''orders''] 0)) = ResultSet 10 ?krows None \<and>
    (\<exists>r\<in>set ?krows. string_at r 2 = ''PRIMARY'') \<and>
    fst (MySQLTableLister (sort_key key_name) first_position [''orders''] (\<lparr>tables = []\<rparr>, ?m)) = None"
    using orders_listed[of 50700] example_catalog_answers(4,7)[of 50700]
    by (simp add: string_at_def)
  have hp: "extended_answer ?c (c_str (primary_key_sql (string_at [''orders''] 0))) = (Some ?pp, []) \<and>
    tuples ?pp \<noteq> [] \<and>
    fst (PostgreSQLTableLister (sort_key key_name) first_position [''orders''] (\<lparr>tables = []\<rparr>, ?c)) = None"
    using pg_orders_listed[of "\<lambda>sql. (None, [])"] example_pg_catalog_answers(5)[of "\<lambda>sql. (None, [])"]
    by (simp add: tuples_ok_def)
  note c = explicit_primary_key_order
  show ?thesis
    using c[THEN conjunct1, THEN mp, OF hm] c[THEN conjunct2, THEN mp, OF hp]
    by (simp add: string_at_def)
qed

text \<open>
  C4. When the engine refuses a statement, \<open>execute\<close> and \<open>query\<close> of both clients throw a
  \<open>runtime_error\<close> whose message is the engine's diagnostic, one newline, and the whole
  statement. On MySQL a refusal is a nonzero return of \<open>mysql_real_query\<close> and the diagnostic
  is \<open>mysql_error\<close>; on PostgreSQL it is a result with an error status (or no result) and
  the diagnostic is \<open>PQerrorMessage\<close>.
\<close>

theorem statement_failure_message:
  "(server mysql sql = Rejected diagnostic \<longrightarrow>
      fst (MySQLClient_execute sql mysql) = Some (runtime_error (diagnostic @ ''\<newline>'' @ sql)) \<and>
      fst (MySQLClient_query sql row_handler buffer (s, mysql)) =
        Some (runtime_error (diagnostic @ ''\<newline>'' @ sql))) \<and>
   (simple_answer conn (c_str psql) = (r, message) \<and>
    PQresultStatus r \<in> {PGRES_BAD_RESPONSE, PGRES_NONFATAL_ERROR, PGRES_FATAL_ERROR} \<longrightarrow>
      fst (PostgreSQLClient_execute psql conn) =
        Some (runtime_error (message @ ''\<newline>'' @ psql))) \<and>
   (extended_answer conn (c_str psql) = (r', message') \<and>
    PQresultStatus r' \<in> {PGRES_BAD_RESPONSE, PGRES_NONFATAL_ERROR, PGRES_FATAL_ERROR} \<longrightarrow>
      fst (PostgreSQLClient_query psql prow_handler (ps, conn)) =
        Some (runtime_error (message' @ ''\<newline>'' @ psql)))"
proof (intro conjI impI)
  assume "server mysql sql = Rejected diagnostic"
  then show "fst (MySQLClient_execute sql mysql) = Some (runtime_error (diagnostic @ ''\<newline>'' @ sql))"
    by (rule execute_Rejected)
next
  assume "server mysql sql = Rejected diagnostic"
  then show "fst (MySQLClient_query sql row_handler buffer (s, mysql)) =
        Some (runtime_error (diagnostic @ ''\<newline>'' @ sql))"
    by (simp add: query_Rejected)
next
  assume "simple_answer conn (c_str psql) = (r, message) \<and>
    PQresultStatus r \<in> {PGRES_BAD_RESPONSE, PGRES_NONFATAL_ERROR, PGRES_FATAL_ERROR}"
  then show "fst (PostgreSQLClient_execute psql conn) =
        Some (runtime_error (message @ ''\<newline>'' @ psql))"
    using pg_execute_outcome[of conn psql r message] by auto
next
  assume "extended_answer conn (c_str psql) = (r', message') \<and>
    PQresultStatus r' \<in> {PGRES_BAD_RESPONSE, PGRES_NONFATAL_ERROR, PGRES_FATAL_ERROR}"
  then show "fst (PostgreSQLClient_query psql prow_handler (ps, conn)) =
        Some (runtime_error (message' @ ''\<newline>'' @ psql))"
    using pg_query_refused[of conn psql r' message' prow_handler ps] by auto
qed

theorem statement_failure_message_witness:
  "fst (MySQLClient_execute ''DROP TABLE nothing''
          (fresh_MYSQL (\<lambda>sql. Rejected ''Unknown table'') 50700)) =
     Some (runtime_error ''Unknown table\<newline>DROP TABLE nothing'') \<and>
   fst (MySQLClient_query ''DROP TABLE nothing'' (on_rows MySQLColumnLister) False
          (new_Table ''nothing'', fresh_MYSQL (\<lambda>sql. Rejected ''Unknown table'') 50700)) =
     Some (runtime_error ''Unknown table\<newline>DROP TABLE nothing'') \<and>
   fst (PostgreSQLClient_execute ''SELEC 1'' (fresh_PGconn example_pg_catalog example_pg_catalog)) =
     Some (runtime_error ''ERROR:  syntax error\<newline>SELEC 1'') \<and>
   fst (PostgreSQLClient_query ''SELEC 1'' (on_rows PostgreSQLColumnLister)
          (new_Table ''nothing'', fresh_PGconn example_pg_catalog example_pg_catalog)) =
     Some (runtime_error ''ERROR:  syntax error\<newline>SELEC 1'')"
proof -
  let ?m = "fresh_MYSQL (\<lambda>sql. Rejected ''Unknown table'') 50700"
  let ?c = "fresh_PGconn example_pg_catalog example_pg_catalog"
  let ?r = "Some \<lparr>resultStatus = PGRES_FATAL_ERROR, nfields = 0, tuples = []\<rparr>"
  have a: "example_pg_catalog (c_str ''SELEC 1'') = (?r, ''ERROR:  syntax error'')"
    by (simp add: example_pg_catalog_def c_str_def columns_sql_def primary_key_sql_def keys_sql_def)
  have hm: "server ?m ''DROP TABLE nothing'' = Rejected ''Unknown table''"
    by (simp add: fresh_MYSQL_def)
  have hs: "simple_answer ?c (c_str ''SELEC 1'') = (?r, ''ERROR:  syntax error'') \<and>
    PQresultStatus ?r \<in> {PGRES_BAD_RESPONSE, PGRES_NONFATAL_ERROR, PGRES_FATAL_ERROR}"
    using a by (simp add: fresh_PGconn_def PQresultStatus_def)
  have he: "extended_answer ?c (c_str ''SELEC 1'') = (?r, ''ERROR:  syntax error'') \<and>
    PQresultStatus ?r \<in> {PGRES_BAD_RESPONSE, PGRES_NONFATAL_ERROR, PGRES_FATAL_ERROR}"
    using a by (simp add: fresh_PGconn_def PQresultStatus_def)
  note c = statement_failure_message[where row_handler = "on_rows MySQLColumnLister"
      and buffer = False and s = "new_Table ''nothing''"
      and prow_handler = "on_rows PostgreSQLColumnLister" and ps = "new_Table ''nothing''"]
  show ?thesis
    using c[THEN conjunct1, THEN mp, OF hm]
      c[THEN conjunct2, THEN conjunct1, THEN mp, OF hs]
      c[THEN conjunct2, THEN conjunct2, THEN mp, OF he]
    by simp
qed

text \<open>
  C5. The destructor of a MySQL result guard that holds a result fetches every row the
  result still has, then the null row, and only then frees the result; for an unbuffered
  result no row is left on the connection afterwards. \<open>query\<close> disposes of its guard on
  every way out, the row callback's exception included: after an unbuffered query on a
  result set the connection holds no unread row, the calls on the connection end with the
  fetches of the rows the loop had not reached, the fetch of the null row and the release,
  and the callback of the next query is given exactly the rows the server answers to that
  query.
\<close>

theorem guard_drains_before_release:
  "(res r = Some h \<longrightarrow>
      calls (delete_MySQLRes r guarded) =
        calls guarded @ replicate (length (unfetched h)) Fetch_row @ [Fetch_row, Free_result] \<and>
      (\<not> buffered h \<longrightarrow> unread (delete_MySQLRes r guarded) = [])) \<and>
   (server mysql sql = ResultSet n rows broken \<longrightarrow>
      unread (snd (snd (MySQLClient_query sql row_handler False (s, mysql)))) = [] \<and>
      (\<exists>e0 h' s' m3.
         fetch_loop row_handler (used_result n (unread mysql @ rows) broken)
           (s, after_use mysql sql (unread mysql @ rows)) = (e0, h', s', m3) \<and>
         calls (snd (snd (MySQLClient_query sql row_handler False (s, mysql)))) =
           calls m3 @ replicate (length (unfetched h')) Fetch_row @ [Fetch_row, Free_result]) \<and>
      (server (snd (snd (MySQLClient_query sql row_handler False (s, mysql)))) next_sql =
         ResultSet next_n next_rows None \<longrightarrow>
       (fst (MySQLClient_query next_sql (on_rows f) False
               (t, snd (snd (MySQLClient_query sql row_handler False (s, mysql))))),
        fst (snd (MySQLClient_query next_sql (on_rows f) False
               (t, snd (snd (MySQLClient_query sql row_handler False (s, mysql)))))))
       = run_rows f next_rows t))"
proof (intro conjI impI)
  assume r: "res r = Some h"
  show "calls (delete_MySQLRes r guarded) =
        calls guarded @ replicate (length (unfetched h)) Fetch_row @ [Fetch_row, Free_result]"
    by (rule delete_MySQLRes_effect(1)[OF r])
  show "unread (delete_MySQLRes r guarded) = []" if "\<not> buffered h"
    by (rule delete_MySQLRes_effect(3)[OF r that])
next
  assume a: "server mysql sql = ResultSet n rows broken"
  obtain e s' mysql' where q: "MySQLClient_query sql row_handler False (s, mysql) = (e, s', mysql')"
    by (rule prod_cases3)
  note d = query_unbuffered_disposal[OF a q]
  show "unread (snd (snd (MySQLClient_query sql row_handler False (s, mysql)))) = []"
    using d by (simp add: q)
  show "\<exists>e0 h' s' m3.
         fetch_loop row_handler (used_result n (unread mysql @ rows) broken)
           (s, after_use mysql sql (unread mysql @ rows)) = (e0, h', s', m3) \<and>
         calls (snd (snd (MySQLClient_query sql row_handler False (s, mysql)))) =
           calls m3 @ replicate (length (unfetched h')) Fetch_row @ [Fetch_row, Free_result]"
    using d by (auto simp: q)
  assume b: "server (snd (snd (MySQLClient_query sql row_handler False (s, mysql)))) next_sql =
         ResultSet next_n next_rows None"
  have b': "server mysql' next_sql = ResultSet next_n next_rows None" using b by (simp add: q)
  have clean: "unread mysql' = []" using d by simp
  obtain next_e t' next_m where next_q: "MySQLClient_query next_sql (on_rows f) False (t, mysql') = (next_e, t', next_m)"
    by (rule prod_cases3)
  have "t' = snd (run_rows f next_rows t)" "next_e = fst (run_rows f next_rows t)"
    using query_on_rows(1,2)[OF b' clean next_q] by (simp_all split: option.splits)
  then show "(fst (MySQLClient_query next_sql (on_rows f) False
               (t, snd (snd (MySQLClient_query sql row_handler False (s, mysql))))),
        fst (snd (MySQLClient_query next_sql (on_rows f) False
               (t, snd (snd (MySQLClient_query sql row_handler False (s, mysql)))))))
       = run_rows f next_rows t"
    by (simp add: q next_q)
qed

theorem guard_drains_before_release_witness:
  "fst (MySQLClient_query ''SELECT name FROM t'' (on_rows stop_at_second) False
          (0, fresh_MYSQL two_statements 50700)) = Some (runtime_error ''stop'') \<and>
   unread (snd (snd (MySQLClient_query ''SELECT name FROM t'' (on_rows stop_at_second) False
                       (0, fresh_MYSQL two_statements 50700)))) = [] \<and>
   (fst (MySQLClient_query ''SELECT 1'' (on_rows collect) False
           ([], snd (snd (MySQLClient_query ''SELECT name FROM t'' (on_rows stop_at_second) False
                            (0, fresh_MYSQL two_statements 50700))))),
    fst (snd (MySQLClient_query ''SELECT 1'' (on_rows collect) False
           ([], snd (snd (MySQLClient_query ''SELECT name FROM t'' (on_rows stop_at_second) False
                            (0, fresh_MYSQL two_statements 50700)))))))
   = (None, [[''1'']])"
proof -
  let ?m = "fresh_MYSQL two_statements 50700"
  let ?q = "MySQLClient_query ''SELECT name FROM t'' (on_rows stop_at_second) False (0, ?m)"
  have a: "server ?m ''SELECT name FROM t'' = ResultSet 1 [[''a''], [''b''], [''c''], [''d'']] None"
    by (simp add: fresh_MYSQL_def two_statements_def)
  have clean: "unread ?m = []" by (simp add: fresh_MYSQL_def)
  obtain e s' mysql' where q: "?q = (e, s', mysql')" by (rule prod_cases3)
  have e: "e = Some (runtime_error ''stop'')"
    using query_on_rows(2)[OF a clean q] by (simp add: stop_at_second_def)
  have "server mysql' = server ?m" using query_on_rows(3)[OF a clean q] .
  then have sm: "server mysql' = two_statements" by (simp add: fresh_MYSQL_def)
  have b: "server (snd (snd ?q)) ''SELECT 1'' = ResultSet 1 [[''1'']] None"
    unfolding q by (simp add: sm two_statements_def)
  note c = guard_drains_before_release[where mysql = ?m and sql = "''SELECT name FROM t''"
      and row_handler = "on_rows stop_at_second" and s = 0 and f = collect and t = "[]"
      and next_sql = "''SELECT 1''", THEN conjunct2, THEN mp, OF a]
  show ?thesis
    using c[THEN conjunct1] c[THEN conjunct2, THEN conjunct2, THEN mp, OF b] e
    by (simp add: q collect_def)
qed

text \<open>
  C6. \<open>start_transaction\<close> selects the isolation level from \<open>snapshot\<close> (repeatable read
  when set, read committed otherwise). On MySQL it first sends the isolation statement,
  and then, unless the server refused that one, \<open>START TRANSACTION READ ONLY\<close> exactly when
  \<open>readonly\<close> is set and the server version is at least 5.6.5, and the plain
  \<open>START TRANSACTION\<close> otherwise. On PostgreSQL it sends one statement, read-only exactly
  when \<open>readonly\<close> is set.
\<close>

theorem start_transaction_statements:
  "calls (snd (MySQLClient_start_transaction readonly snapshot mysql)) =
     calls mysql @
     Real_query (if snapshot then ''SET TRANSACTION ISOLATION LEVEL REPEATABLE READ''
                 else ''SET TRANSACTION ISOLATION LEVEL READ COMMITTED'') #
     (case server mysql (if snapshot then ''SET TRANSACTION ISOLATION LEVEL REPEATABLE READ''
                         else ''SET TRANSACTION ISOLATION LEVEL READ COMMITTED'') of
        Rejected diagnostic \<Rightarrow> []
      | _ \<Rightarrow> [Real_query (if readonly \<and> 50605 \<le> server_version mysql
                          then ''START TRANSACTION READ ONLY'' else ''START TRANSACTION'')]) \<and>
   pg_calls (snd (PostgreSQLClient_start_transaction readonly snapshot conn)) =
     pg_calls conn @
     [Exec (if snapshot
            then (if readonly then ''START TRANSACTION READ ONLY ISOLATION LEVEL REPEATABLE READ''
                  else ''START TRANSACTION ISOLATION LEVEL REPEATABLE READ'')
            else (if readonly then ''START TRANSACTION READ ONLY ISOLATION LEVEL READ COMMITTED''
                  else ''START TRANSACTION ISOLATION LEVEL READ COMMITTED''))]"
  using start_transaction_calls[of readonly snapshot mysql]
    pg_start_transaction_calls[of readonly snapshot conn]
  by (rule conjI)

theorem start_transaction_statements_witness:
  "calls (snd (MySQLClient_start_transaction True True (fresh_MYSQL (\<lambda>sql. Completed) 50604))) =
     [Real_query ''SET TRANSACTION ISOLATION LEVEL REPEATABLE READ'',
      Real_query ''START TRANSACTION''] \<and>
   calls (snd (MySQLClient_start_transaction True False (fresh_MYSQL (\<lambda>sql. Completed) 50605))) =
     [Real_query ''SET TRANSACTION ISOLATION LEVEL READ COMMITTED'',
      Real_query ''START TRANSACTION READ ONLY''] \<and>
   pg_calls (snd (PostgreSQLClient_start_transaction True True
                    (fresh_PGconn (\<lambda>sql. (None, [])) (\<lambda>sql. (None, []))))) =
     [Exec ''START TRANSACTION READ ONLY ISOLATION LEVEL REPEATABLE READ'']"
  using start_transaction_statements[of True True "fresh_MYSQL (\<lambda>sql. Completed) 50604"
          "fresh_PGconn (\<lambda>sql. (None, [])) (\<lambda>sql. (None, []))"]
        start_transaction_statements[of True False "fresh_MYSQL (\<lambda>sql. Completed) 50605"]
  by (simp add: fresh_MYSQL_def fresh_PGconn_def)

text \<open>
  C7. \<open>escape_value\<close> of either client hands the engine's escaping routine a buffer of
  exactly \<open>2 * length val + 1\<close> bytes and returns that buffer cut to the length the
  routine reports. The routine writes in place and reports a length within the buffer it
  was given; the result is then at most \<open>2 * length val + 1\<close> bytes long, whatever bytes
  \<open>val\<close> holds.
\<close>

theorem escape_value_bounded:
  assumes "length (fst (mysql_real_escape_string (replicate (2 * length val + 1) (CHR 0x00)) val))
             = 2 * length val + 1"
      and "snd (mysql_real_escape_string (replicate (2 * length val + 1) (CHR 0x00)) val)
             \<le> 2 * length val + 1"
      and "length (fst (PQescapeStringConn (replicate (2 * length val + 1) (CHR 0x00)) val))
             = 2 * length val + 1"
      and "snd (PQescapeStringConn (replicate (2 * length val + 1) (CHR 0x00)) val)
             \<le> 2 * length val + 1"
  shows "length (MySQLClient_escape_value mysql_real_escape_string val) \<le> 2 * length val + 1 \<and>
         MySQLClient_escape_value mysql_real_escape_string val =
           take (snd (mysql_real_escape_string (replicate (2 * length val + 1) (CHR 0x00)) val))
                (fst (mysql_real_escape_string (replicate (2 * length val + 1) (CHR 0x00)) val)) \<and>
         length (PostgreSQLClient_escape_value PQescapeStringConn val) \<le> 2 * length val + 1 \<and>
         PostgreSQLClient_escape_value PQescapeStringConn val =
           take (snd (PQescapeStringConn (replicate (2 * length val + 1) (CHR 0x00)) val))
                (fst (PQescapeStringConn (replicate (2 * length val + 1) (CHR 0x00)) val))"
proof -
  let ?buf = "replicate (2 * length val + 1) (CHR 0x00)"
  have m: "MySQLClient_escape_value mysql_real_escape_string val =
             resize (fst (mysql_real_escape_string ?buf val)) (snd (mysql_real_escape_string ?buf val))"
    unfolding MySQLClient_escape_value_def new_buffer by (simp add: case_prod_beta Let_def)
  have p: "PostgreSQLClient_escape_value PQescapeStringConn val =
             resize (fst (PQescapeStringConn ?buf val)) (snd (PQescapeStringConn ?buf val))"
    unfolding PostgreSQLClient_escape_value_def new_buffer by (simp add: case_prod_beta Let_def)
  show ?thesis using assms by (simp add: m p length_resize resize_take)
qed

theorem escape_value_bounded_witness:
  "length (MySQLClient_escape_value quote_doubling ''it's'') \<le> 2 * length ''it's'' + 1 \<and>
   MySQLClient_escape_value quote_doubling ''it's'' = ''it'' @ [CHR 0x27, CHR 0x27] @ ''s'' \<and>
   PostgreSQLClient_escape_value quote_doubling ''it's'' = ''it'' @ [CHR 0x27, CHR 0x27] @ ''s''"
  using escape_value_bounded[of quote_doubling "''it's''" quote_doubling]
  by (simp add: quote_doubling_def)

text \<open>
  C8, as the code has it. The MySQL client looks at the first character of a non-empty
  \<open>database_port\<close> only: when it is a decimal digit no socket is passed and the port is what
  \<open>atoi\<close> reads from the leading digits (defined when that value fits an \<open>int\<close>), whatever
  follows them; otherwise the whole string is passed as the socket, with port 0. An empty
  or absent string gives port 0 and no socket.

  The claim as written fails on a string that begins with a digit and is not a number:
  it is not used as a socket.
\<close>

theorem port_and_socket_not_numeric_counterexample:
  "\<not> numeric_string ''3306.sock'' \<and> port_and_socket (Some ''3306.sock'') = (Some 3306, None)"
  by (simp add: numeric_string_def port_and_socket_def atoi_def isdigit_def isspace_def)

theorem port_and_socket_first_character:
  "port_and_socket None = (Some 0, None) \<and>
   port_and_socket (Some []) = (Some 0, None) \<and>
   port_and_socket (Some (c # cs)) =
     (if isdigit c
      then (if digits_value 0 (c # cs) \<le> 2147483647
            then Some (int (digits_value 0 (c # cs))) else None, None)
      else (Some 0, Some (c # cs)))"
  using atoi_digit[of c cs] by (simp add: port_and_socket_def isdigit_def del: digits_value.simps)

theorem port_and_socket_first_character_witness:
  "port_and_socket (Some ''3306'') = (Some 3306, None) \<and>
   port_and_socket (Some ''/tmp/mysql.sock'') = (Some 0, Some ''/tmp/mysql.sock'')"
  using port_and_socket_first_character[of "CHR ''3''" "''306''"]
    port_and_socket_first_character[of "CHR ''/''" "''tmp/mysql.sock''"]
  by (simp add: isdigit_def)

text \<open>
  C9, where the code departs from the claim. The constructor of the MySQL guard hands the
  handle to \<open>mysql_num_rows\<close> without looking at it, so when \<open>mysql_store_result\<close> or
  \<open>mysql_use_result\<close> returns a null handle no exception is thrown and the null handle is
  used. The PostgreSQL client, whose library accepts a null result and reports it as
  \<open>PGRES_FATAL_ERROR\<close>, throws the \<open>runtime_error\<close> of a failed statement.
\<close>

theorem null_result_handle_unchecked:
  "fst (MySQLClient_query ''SELECT 1'' (on_rows collect) True
          ([], fresh_MYSQL (\<lambda>sql. ResultSet 1 [[''1'']] (Some ''Lost connection to MySQL server during query''))
                 50700)) = Some null_handle_use \<and>
   fst (MySQLClient_query ''COMMIT'' (on_rows collect) False
          ([], fresh_MYSQL (\<lambda>sql. Completed) 50700)) = Some null_handle_use \<and>
   fst (PostgreSQLClient_query ''SELECT 1'' (on_rows collect)
          ([], fresh_PGconn (\<lambda>sql. (None, ''out of memory'')) (\<lambda>sql. (None, ''out of memory'')))) =
     Some (runtime_error ''out of memory\<newline>SELECT 1'') \<and>
   fst (PostgreSQLClient_execute ''COMMIT''
          (fresh_PGconn (\<lambda>sql. (None, ''out of memory'')) (\<lambda>sql. (None, ''out of memory'')))) =
     Some (runtime_error ''out of memory\<newline>COMMIT'')"
proof (intro conjI)
  show "fst (MySQLClient_query ''SELECT 1'' (on_rows collect) True
          ([], fresh_MYSQL (\<lambda>sql. ResultSet 1 [[''1'']] (Some ''Lost connection to MySQL server during query''))
                 50700)) = Some null_handle_use"
    by (simp add: MySQLClient_query_def mysql_real_query_def new_MySQLRes_def
        mysql_store_result_def mysql_num_rows_def fresh_MYSQL_def Let_def)
  show "fst (MySQLClient_query ''COMMIT'' (on_rows collect) False
          ([], fresh_MYSQL (\<lambda>sql. Completed) 50700)) = Some null_handle_use"
    by (simp add: MySQLClient_query_def mysql_real_query_def new_MySQLRes_def
        mysql_use_result_def mysql_num_rows_def fresh_MYSQL_def Let_def)
  show "fst (PostgreSQLClient_query ''SELECT 1'' (on_rows collect)
          ([], fresh_PGconn (\<lambda>sql. (None, ''out of memory'')) (\<lambda>sql. (None, ''out of memory'')))) =
     Some (runtime_error ''out of memory\<newline>SELECT 1'')"
    by (simp add: pg_query_refused[where r = None and d = "''out of memory''"] fresh_PGconn_def
        PQresultStatus_def)
  show "fst (PostgreSQLClient_execute ''COMMIT''
          (fresh_PGconn (\<lambda>sql. (None, ''out of memory'')) (\<lambda>sql. (None, ''out of memory'')))) =
     Some (runtime_error ''out of memory\<newline>COMMIT'')"
    by (simp add: pg_execute_outcome[where r = None and d = "''out of memory''"] fresh_PGconn_def
        PQresultStatus_def)
qed

text \<open>
  C10. On PostgreSQL, \<open>execute\<close> returns normally exactly when the status of the result is
  \<open>PGRES_COMMAND_OK\<close>, and throws for any other status, \<open>PGRES_TUPLES_OK\<close> included;
  \<open>query\<close> throws for any status other than \<open>PGRES_TUPLES_OK\<close>, \<open>PGRES_COMMAND_OK\<close>
  included, and, the row callback not throwing, returns normally exactly when the status is
  \<open>PGRES_TUPLES_OK\<close>.
\<close>

theorem postgresql_status_gates:
  "(fst (PostgreSQLClient_execute sql conn) = None \<longleftrightarrow>
      PQresultStatus (fst (simple_answer conn (c_str sql))) = PGRES_COMMAND_OK) \<and>
   (PQresultStatus (fst (simple_answer conn (c_str sql))) \<noteq> PGRES_COMMAND_OK \<longrightarrow>
      fst (PostgreSQLClient_execute sql conn) =
        Some (runtime_error (snd (simple_answer conn (c_str sql)) @ ''\<newline>'' @ sql))) \<and>
   (PQresultStatus (fst (extended_answer conn (c_str sql))) \<noteq> PGRES_TUPLES_OK \<longrightarrow>
      fst (PostgreSQLClient_query sql row_handler (s, conn)) =
        Some (runtime_error (snd (extended_answer conn (c_str sql)) @ ''\<newline>'' @ sql))) \<and>
   ((\<forall>row sc. fst (row_handler row sc) = None) \<longrightarrow>
      (fst (PostgreSQLClient_query sql row_handler (s, conn)) = None \<longleftrightarrow>
         PQresultStatus (fst (extended_answer conn (c_str sql))) = PGRES_TUPLES_OK))"
proof -
  obtain r d where a: "simple_answer conn (c_str sql) = (r, d)"
    by (cases "simple_answer conn (c_str sql)")
  obtain r' d' where b: "extended_answer conn (c_str sql) = (r', d')"
    by (cases "extended_answer conn (c_str sql)")
  note e = pg_execute_outcome[OF a]
  have q1: "PQresultStatus r' \<noteq> PGRES_TUPLES_OK \<Longrightarrow>
      fst (PostgreSQLClient_query sql row_handler (s, conn)) = Some (runtime_error (d' @ ''\<newline>'' @ sql))"
    using pg_query_refused[OF b, of row_handler s] by simp
  have q2: "fst (PostgreSQLClient_query sql row_handler (s, conn)) = None"
    if "\<forall>row sc. fst (row_handler row sc) = None" "PQresultStatus r' = PGRES_TUPLES_OK"
    using pg_query_accepted[OF b that(2), of row_handler s] pg_row_loop_quiet[of row_handler] that(1)
    by simp
  have c1: "fst (PostgreSQLClient_execute sql conn) = None \<longleftrightarrow> PQresultStatus r = PGRES_COMMAND_OK"
    using e by simp
  have c2: "PQresultStatus r \<noteq> PGRES_COMMAND_OK \<longrightarrow>
      fst (PostgreSQLClient_execute sql conn) = Some (runtime_error (d @ ''\<newline>'' @ sql))"
    using e by simp
  have c3: "PQresultStatus r' \<noteq> PGRES_TUPLES_OK \<longrightarrow>
      fst (PostgreSQLClient_query sql row_handler (s, conn)) = Some (runtime_error (d' @ ''\<newline>'' @ sql))"
    using q1 by blast
  have c4: "(\<forall>row sc. fst (row_handler row sc) = None) \<longrightarrow>
      (fst (PostgreSQLClient_query sql row_handler (s, conn)) = None \<longleftrightarrow>
         PQresultStatus r' = PGRES_TUPLES_OK)"
  proof (intro impI iffI)
    assume "fst (PostgreSQLClient_query sql row_handler (s, conn)) = None"
    then show "PQresultStatus r' = PGRES_TUPLES_OK" using q1 by (cases "PQresultStatus r' = PGRES_TUPLES_OK") simp_all
  next
    assume "\<forall>row sc. fst (row_handler row sc) = None" "PQresultStatus r' = PGRES_TUPLES_OK"
    then show "fst (PostgreSQLClient_query sql row_handler (s, conn)) = None" by (rule q2)
  qed
  show ?thesis unfolding a b fst_conv snd_conv using c1 c2 c3 c4 by (intro conjI)
qed

theorem postgresql_status_gates_witness:
  "fst (PostgreSQLClient_execute (columns_sql ''orders'')
          (fresh_PGconn example_pg_catalog example_pg_catalog)) =
     Some (runtime_error ([] @ ''\<newline>'' @ columns_sql ''orders'')) \<and>
   fst (PostgreSQLClient_query (columns_sql ''orders'') (on_rows PostgreSQLColumnLister)
          (new_Table ''orders'', fresh_PGconn example_pg_catalog example_pg_catalog)) = None \<and>
   fst (PostgreSQLClient_query ''COMMIT'' (on_rows PostgreSQLColumnLister)
          (new_Table ''orders'',
           fresh_PGconn example_pg_catalog
             (\<lambda>sql. (Some \<lparr>resultStatus = PGRES_COMMAND_OK, nfields = 0, tuples = []\<rparr>, [])))) =
     Some (runtime_error ''\<newline>COMMIT'')"
proof -
  let ?c = "fresh_PGconn example_pg_catalog example_pg_catalog"
  let ?d = "fresh_PGconn example_pg_catalog
             (\<lambda>sql. (Some \<lparr>resultStatus = PGRES_COMMAND_OK, nfields = 0, tuples = []\<rparr>, []))"
  have a: "example_pg_catalog (c_str (columns_sql ''orders'')) =
             tuples_ok 1 [[''customer_id''], [''id''], [''line'']]"
    using example_pg_catalog_answers(4)[of example_pg_catalog]
    by (simp add: fresh_PGconn_def string_at_def)
  have quiet: "\<forall>row sc. fst (on_rows PostgreSQLColumnLister row sc) = None"
    by (simp add: on_rows_def PostgreSQLColumnLister_def)
  have h1: "PQresultStatus (fst (simple_answer ?c (c_str (columns_sql ''orders'')))) \<noteq> PGRES_COMMAND_OK"
    using a by (simp add: fresh_PGconn_def tuples_ok_def PQresultStatus_def)
  have h2: "PQresultStatus (fst (extended_answer ?c (c_str (columns_sql ''orders'')))) = PGRES_TUPLES_OK"
    using a by (simp add: fresh_PGconn_def tuples_ok_def PQresultStatus_def)
  have h3: "PQresultStatus (fst (extended_answer ?d (c_str ''COMMIT''))) \<noteq> PGRES_TUPLES_OK"
    by (simp add: fresh_PGconn_def PQresultStatus_def)
  have m: "snd (simple_answer ?c (c_str (columns_sql ''orders''))) = []"
    using a by (simp add: fresh_PGconn_def tuples_ok_def)
  have m3: "snd (extended_answer ?d (c_str ''COMMIT'')) = []"
    by (simp add: fresh_PGconn_def)
  note c = postgresql_status_gates
  show ?thesis
    using c[where conn = ?c and sql = "columns_sql ''orders''", THEN conjunct2, THEN conjunct1,
            THEN mp, OF h1]
      c[where conn = ?c and sql = "columns_sql ''orders''"
          and row_handler = "on_rows PostgreSQLColumnLister" and s = "new_Table ''orders''",
        THEN conjunct2, THEN conjunct2, THEN conjunct2, THEN mp, OF quiet] h2
      c[where conn = ?d and sql = "''COMMIT''"
          and row_handler = "on_rows PostgreSQLColumnLister" and s = "new_Table ''orders''",
        THEN conjunct2, THEN conjunct2, THEN conjunct1, THEN mp, OF h3]
    by (simp add: m m3)
qed

end
